theory Spec2Isabelle
  imports Complex_Main "HOL-Library.Multiset"
begin

section \<open>Numbers, vectors and quaternions\<close>

text \<open>
  The program is TypeScript; every \<^verbatim>\<open>number\<close> is modelled by a real number, and the
  operations of the vector library the program calls (\<^verbatim>\<open>THREE.Vector3\<close>,
  \<^verbatim>\<open>THREE.Quaternion\<close>) are written out with the library's own formulas over the reals.
  On the snapshots the program produces the coordinates are small integers and the
  quaternion components are \<open>0\<close>, \<open>\<plusminus>1\<close>, \<open>\<plusminus>1/2\<close> or \<open>\<plusminus>sqrt 2 / 2\<close>; the
  thresholds the program compares against (0.1, 0.2, 0.5, 0.8, 0.9, 1.1, 1.8, 2.2) are
  far from every value that occurs.
\<close>

type_synonym Vector3Arr = "real \<times> real \<times> real"

datatype Axis = X | Y | Z

record Quaternion =
  qx :: real
  qy :: real
  qz :: real
  qw :: real

text \<open>\<^verbatim>\<open>Math.round\<close>: the nearest integer, halves towards \<open>+\<infinity>\<close>.\<close>

definition roundPos :: "real \<Rightarrow> real" where
  "roundPos v = of_int \<lfloor>v + 1 / 2\<rfloor>"

text \<open>Indexing a three-element array; an index outside 0..2 reads \<^verbatim>\<open>undefined\<close>.\<close>

fun getComponent :: "Vector3Arr \<Rightarrow> nat \<Rightarrow> real option" where
  "getComponent (x, y, z) i =
     (if i = 0 then Some x else if i = 1 then Some y else if i = 2 then Some z else None)"

fun axisIndex :: "Axis \<Rightarrow> nat" where
  "axisIndex X = 0"
| "axisIndex Y = 1"
| "axisIndex Z = 2"

fun subVectors :: "Vector3Arr \<Rightarrow> Vector3Arr \<Rightarrow> Vector3Arr" where
  "subVectors (ax, ay, az) (bx, by, bz) = (ax - bx, ay - by, az - bz)"

fun dot :: "Vector3Arr \<Rightarrow> Vector3Arr \<Rightarrow> real" where
  "dot (ax, ay, az) (bx, by, bz) = ax * bx + ay * by + az * bz"

fun crossVectors :: "Vector3Arr \<Rightarrow> Vector3Arr \<Rightarrow> Vector3Arr" where
  "crossVectors (ax, ay, az) (bx, by, bz) =
     (ay * bz - az * by, az * bx - ax * bz, ax * by - ay * bx)"

fun negate :: "Vector3Arr \<Rightarrow> Vector3Arr" where
  "negate (x, y, z) = (- x, - y, - z)"

fun lengthSq :: "Vector3Arr \<Rightarrow> real" where
  "lengthSq (x, y, z) = x * x + y * y + z * z"

definition vlength :: "Vector3Arr \<Rightarrow> real" where
  "vlength v = sqrt (lengthSq v)"

definition distanceTo :: "Vector3Arr \<Rightarrow> Vector3Arr \<Rightarrow> real" where
  "distanceTo a b = sqrt (lengthSq (subVectors a b))"

text \<open>\<^verbatim>\<open>normalize()\<close> is \<^verbatim>\<open>divideScalar(length() || 1)\<close>: the zero vector stays.\<close>

fun divideScalar :: "Vector3Arr \<Rightarrow> real \<Rightarrow> Vector3Arr" where
  "divideScalar (x, y, z) s = (x / s, y / s, z / s)"

definition normalize :: "Vector3Arr \<Rightarrow> Vector3Arr" where
  "normalize v = divideScalar v (if vlength v = 0 then 1 else vlength v)"

text \<open>\<^verbatim>\<open>angleTo\<close>: the angle between two vectors, \<open>\<pi>/2\<close> when one of them is zero.\<close>

definition clamp :: "real \<Rightarrow> real \<Rightarrow> real \<Rightarrow> real" where
  "clamp v lo hi = max lo (min hi v)"

definition angleTo :: "Vector3Arr \<Rightarrow> Vector3Arr \<Rightarrow> real" where
  "angleTo a b =
     (let denominator = sqrt (lengthSq a * lengthSq b)
      in if denominator = 0 then pi / 2
         else arccos (clamp (dot a b / denominator) (- 1) 1))"

definition identityQ :: Quaternion where
  "identityQ = \<lparr>qx = 0, qy = 0, qz = 0, qw = 1\<rparr>"

text \<open>\<^verbatim>\<open>setFromAxisAngle(axis, angle)\<close>; the axis is assumed normalised.\<close>

fun setFromAxisAngle :: "Vector3Arr \<Rightarrow> real \<Rightarrow> Quaternion" where
  "setFromAxisAngle (ax, ay, az) angle =
     (let halfAngle = angle / 2; s = sin halfAngle
      in \<lparr>qx = ax * s, qy = ay * s, qz = az * s, qw = cos halfAngle\<rparr>)"

text \<open>\<^verbatim>\<open>multiplyQuaternions(a, b)\<close>, the Hamilton product \<open>a b\<close>.\<close>

definition multiplyQuaternions :: "Quaternion \<Rightarrow> Quaternion \<Rightarrow> Quaternion" where
  "multiplyQuaternions a b =
     \<lparr>qx = qx a * qw b + qw a * qx b + qy a * qz b - qz a * qy b,
      qy = qy a * qw b + qw a * qy b + qz a * qx b - qx a * qz b,
      qz = qz a * qw b + qw a * qz b + qx a * qy b - qy a * qx b,
      qw = qw a * qw b - qx a * qx b - qy a * qy b - qz a * qz b\<rparr>"

text \<open>\<^verbatim>\<open>this.premultiply(q)\<close> is \<open>q * this\<close>.\<close>

definition premultiply :: "Quaternion \<Rightarrow> Quaternion \<Rightarrow> Quaternion" where
  "premultiply this q = multiplyQuaternions q this"

definition qlength :: "Quaternion \<Rightarrow> real" where
  "qlength q = sqrt (qx q * qx q + qy q * qy q + qz q * qz q + qw q * qw q)"

text \<open>\<^verbatim>\<open>Quaternion.normalize()\<close>: a quaternion of length 0 becomes the identity.\<close>

definition qnormalize :: "Quaternion \<Rightarrow> Quaternion" where
  "qnormalize q =
     (let l = qlength q
      in if l = 0 then \<lparr>qx = 0, qy = 0, qz = 0, qw = 1\<rparr>
         else \<lparr>qx = qx q * (1 / l), qy = qy q * (1 / l), qz = qz q * (1 / l),
               qw = qw q * (1 / l)\<rparr>)"

text \<open>\<^verbatim>\<open>invert()\<close> is the conjugate: the library assumes unit length.\<close>

definition invert :: "Quaternion \<Rightarrow> Quaternion" where
  "invert q = \<lparr>qx = - qx q, qy = - qy q, qz = - qz q, qw = qw q\<rparr>"

text \<open>
  \<^verbatim>\<open>Vector3.applyQuaternion(q)\<close>: with \<open>t = 2 (q.xyz \<times> v)\<close> the result is
  \<open>v + q.w t + q.xyz \<times> t\<close>, the rotation of \<open>v\<close> by \<open>q\<close> when \<open>q\<close> has unit length.
\<close>

fun applyQuaternion :: "Vector3Arr \<Rightarrow> Quaternion \<Rightarrow> Vector3Arr" where
  "applyQuaternion (vx, vy, vz) q =
     (let tx = 2 * (qy q * vz - qz q * vy);
          ty = 2 * (qz q * vx - qx q * vz);
          tz = 2 * (qx q * vy - qy q * vx)
      in (vx + qw q * tx + qy q * tz - qz q * ty,
          vy + qw q * ty + qz q * tx - qx q * tz,
          vz + qw q * tz + qx q * ty - qy q * tx))"

definition applyAxisAngle :: "Vector3Arr \<Rightarrow> Vector3Arr \<Rightarrow> real \<Rightarrow> Vector3Arr" where
  "applyAxisAngle v ax angle = applyQuaternion v (setFromAxisAngle ax angle)"

section \<open>The cube state and moves\<close>

record CubieState =
  id_num :: nat
  initialPosition :: Vector3Arr
  position :: Vector3Arr
  rotation :: Vector3Arr
  quaternion :: Quaternion

record Move =
  axis :: Axis
  slice :: "real list"
  direction :: real

text \<open>
  \<^verbatim>\<open>getInitialState\<close>: three nested loops over \<open>-1, 0, 1\<close> (x outermost), the
  identifier counting up from 0.
\<close>

definition lattice :: "Vector3Arr list" where
  "lattice = concat (map (\<lambda>x. concat (map (\<lambda>y. map (\<lambda>z. (x, y, z)) [- 1, 0, 1]) [- 1, 0, 1]))
     [- 1, 0, 1])"

definition getInitialState :: "CubieState list" where
  "getInitialState =
     map (\<lambda>(i, p). \<lparr>id_num = i, initialPosition = p, position = p, rotation = (0, 0, 0),
                     quaternion = identityQ\<rparr>)
       (enumerate 0 lattice)"

text \<open>\<^verbatim>\<open>rotateVector\<close> of \<^verbatim>\<open>cubeLogic.ts\<close>.\<close>

fun rotateVector :: "Vector3Arr \<Rightarrow> Axis \<Rightarrow> real \<Rightarrow> Vector3Arr" where
  "rotateVector (x, y, z) ax dir =
     (if \<bar>dir\<bar> = 2 then
        (case ax of
           X \<Rightarrow> (roundPos x, roundPos (- y), roundPos (- z))
         | Y \<Rightarrow> (roundPos (- x), roundPos y, roundPos (- z))
         | Z \<Rightarrow> (roundPos (- x), roundPos (- y), roundPos z))
      else
        (case ax of
           X \<Rightarrow> (roundPos x, roundPos (dir * - z), roundPos (dir * y))
         | Y \<Rightarrow> (roundPos (dir * z), roundPos y, roundPos (dir * - x))
         | Z \<Rightarrow> (roundPos (dir * - y), roundPos (dir * x), roundPos z)))"

text \<open>
  The move commit of \<^verbatim>\<open>useCubeAnimation\<close> (the \<^verbatim>\<open>cubies.map\<close> run when an animation
  finishes); the specification calls it \<^verbatim>\<open>applyMove\<close>.
\<close>

definition axisVec :: "Move \<Rightarrow> Vector3Arr" where
  "axisVec m = (if axis m = X then 1 else 0, if axis m = Y then 1 else 0,
                if axis m = Z then 1 else 0)"

definition angleRad :: "Move \<Rightarrow> real" where
  "angleRad m = (pi / 2) * direction m"

definition rotQuat :: "Move \<Rightarrow> Quaternion" where
  "rotQuat m = setFromAxisAngle (axisVec m) (angleRad m)"

definition inSlice :: "Move \<Rightarrow> CubieState \<Rightarrow> bool" where
  "inSlice m c =
     (case getComponent (position c) (axisIndex (axis m)) of
        None \<Rightarrow> False
      | Some v \<Rightarrow> v \<in> set (slice m))"

definition commitCubie :: "Move \<Rightarrow> CubieState \<Rightarrow> CubieState" where
  "commitCubie m c =
     (if \<not> inSlice m c then c
      else
        (let pos = applyAxisAngle (position c) (axisVec m) (angleRad m);
             newPos = (roundPos (fst pos), roundPos (fst (snd pos)), roundPos (snd (snd pos)));
             newQ = qnormalize (premultiply (quaternion c) (rotQuat m))
         in c\<lparr>position := newPos, quaternion := newQ\<rparr>))"

definition applyMove :: "CubieState list \<Rightarrow> Move \<Rightarrow> CubieState list" where
  "applyMove cubies m = map (commitCubie m) cubies"

section \<open>Piece classification and the placement checks\<close>

definition absSum :: "CubieState \<Rightarrow> real" where
  "absSum c = (case initialPosition c of (x, y, z) \<Rightarrow> \<bar>x\<bar> + \<bar>y\<bar> + \<bar>z\<bar>)"

definition isCenter :: "CubieState \<Rightarrow> bool" where
  "isCenter c = (absSum c = 1)"

definition isEdge :: "CubieState \<Rightarrow> bool" where
  "isEdge c = (absSum c = 2)"

definition isCorner :: "CubieState \<Rightarrow> bool" where
  "isCorner c = (absSum c = 3)"

definition ROT_EPSILON :: real where
  "ROT_EPSILON = 0.5"

definition isCorrectlyPlaced :: "CubieState \<Rightarrow> CubieState \<Rightarrow> bool" where
  "isCorrectlyPlaced piece center =
     (let vInit = subVectors (initialPosition center) (initialPosition piece);
          vCurr = subVectors (position center) (position piece);
          invPieceQ = invert (quaternion piece);
          vCurrLocal = applyQuaternion vCurr invPieceQ;
          dist = distanceTo vCurrLocal vInit
      in dist < 0.2)"

definition isOrientedForOLL :: "CubieState \<Rightarrow> CubieState \<Rightarrow> bool" where
  "isOrientedForOLL piece topCenter =
     (let localUp = normalize (initialPosition topCenter);
          centerQ = qnormalize (quaternion topCenter);
          centerUpWorld = applyQuaternion localUp centerQ;
          pieceQ = qnormalize (quaternion piece);
          pieceUpWorld = applyQuaternion localUp pieceQ
      in angleTo centerUpWorld pieceUpWorld < ROT_EPSILON)"

section \<open>The PLL classifier\<close>

text \<open>\<^verbatim>\<open>identifyPLL\<close> and its helpers, from \<^verbatim>\<open>utils/pllPatterns.ts\<close>.\<close>

definition isOppositeColor :: "string \<Rightarrow> string \<Rightarrow> bool" where
  "isOppositeColor c1 c2 =
     list_ex (\<lambda>(a, b). (c1 = a \<and> c2 = b) \<or> (c1 = b \<and> c2 = a))
       [(''U'', ''D''), (''L'', ''R''), (''F'', ''B'')]"

definition localNormals :: "(Vector3Arr \<times> string) list" where
  "localNormals =
     [((1, 0, 0), ''R''), ((- 1, 0, 0), ''L''), ((0, 1, 0), ''U''), ((0, - 1, 0), ''D''),
      ((0, 0, 1), ''F''), ((0, 0, - 1), ''B'')]"

fun validNormal :: "Vector3Arr \<Rightarrow> Vector3Arr \<times> string \<Rightarrow> bool" where
  "validNormal (p0, p1, p2) ((nx, ny, nz), color) =
     (if nx \<noteq> 0 \<and> \<bar>p0 - nx\<bar> > 0.1 then False
      else if ny \<noteq> 0 \<and> \<bar>p1 - ny\<bar> > 0.1 then False
      else if nz \<noteq> 0 \<and> \<bar>p2 - nz\<bar> > 0.1 then False
      else True)"

text \<open>
  The loop of \<^verbatim>\<open>getStickerColor\<close> over the valid normals: the state is
  \<open>(maxDot, bestColor)\<close>, starting at \<open>(0.9, null)\<close>.
\<close>

fun stickerStep :: "Quaternion \<Rightarrow> Vector3Arr \<Rightarrow> real \<times> string option \<Rightarrow>
    Vector3Arr \<times> string \<Rightarrow> real \<times> string option" where
  "stickerStep q towards (maxDot, bestColor) (vec, color) =
     (let worldNormal = applyQuaternion vec q; d = dot worldNormal towards
      in if d > maxDot then (d, Some color) else (maxDot, bestColor))"

definition getStickerColor :: "CubieState \<Rightarrow> Vector3Arr \<Rightarrow> string option" where
  "getStickerColor cubie towards =
     (let validNormals = filter (validNormal (initialPosition cubie)) localNormals
      in snd (foldl (stickerStep (quaternion cubie) towards) (0.9, None) validNormals))"

record Face =
  dir :: Vector3Arr
  c1 :: "string option"
  c2 :: "string option"
  e :: "string option"
  isHeadlights :: bool
  isBar :: bool

definition candidates :: "Vector3Arr list" where
  "candidates = [(1, 0, 0), (- 1, 0, 0), (0, 1, 0), (0, - 1, 0), (0, 0, 1), (0, 0, - 1)]"

definition upOf :: "CubieState \<Rightarrow> Vector3Arr" where
  "upOf topCenter = applyQuaternion (normalize (initialPosition topCenter)) (quaternion topCenter)"

definition sideDirs :: "CubieState \<Rightarrow> Vector3Arr list" where
  "sideDirs topCenter = filter (\<lambda>v. \<bar>dot v (upOf topCenter)\<bar> < 0.1) candidates"

definition onFace :: "CubieState \<Rightarrow> Vector3Arr \<Rightarrow> CubieState \<Rightarrow> bool" where
  "onFace topCenter d c = (dot (subVectors (position c) (position topCenter)) d > 0.5)"

definition mkFace :: "CubieState list \<Rightarrow> CubieState \<Rightarrow> Vector3Arr \<Rightarrow> Face" where
  "mkFace topPieces topCenter d =
     (let corners = filter isCorner topPieces;
          edges = filter isEdge topPieces;
          faceCorners = filter (onFace topCenter d) corners;
          faceEdge = find (onFace topCenter d) edges;
          k1 = (case faceCorners of [a, b] \<Rightarrow> getStickerColor a d | _ \<Rightarrow> None);
          k2 = (case faceCorners of [a, b] \<Rightarrow> getStickerColor b d | _ \<Rightarrow> None);
          ke = (case faceEdge of Some fe \<Rightarrow> getStickerColor fe d | None \<Rightarrow> None)
      in \<lparr>dir = d, c1 = k1, c2 = k2, e = ke,
          isHeadlights = (k1 \<noteq> None \<and> k2 \<noteq> None \<and> k1 = k2),
          isBar = (k1 \<noteq> None \<and> k2 \<noteq> None \<and> ke \<noteq> None \<and> k1 = k2 \<and> k1 = ke)\<rparr>)"

definition faces :: "CubieState list \<Rightarrow> CubieState \<Rightarrow> Face list" where
  "faces topPieces topCenter = map (mkFace topPieces topCenter) (sideDirs topCenter)"

definition headlightsCount :: "CubieState list \<Rightarrow> CubieState \<Rightarrow> nat" where
  "headlightsCount topPieces topCenter = length (filter isHeadlights (faces topPieces topCenter))"

definition solvedBarsCount :: "CubieState list \<Rightarrow> CubieState \<Rightarrow> nat" where
  "solvedBarsCount topPieces topCenter = length (filter isBar (faces topPieces topCenter))"

text \<open>The size of \<^verbatim>\<open>new Set(faces.map(f => f.c1))\<close>.\<close>

definition distinctColors :: "CubieState list \<Rightarrow> CubieState \<Rightarrow> nat" where
  "distinctColors topPieces topCenter = length (remdups (map c1 (faces topPieces topCenter)))"

definition identifyPLL :: "CubieState list \<Rightarrow> CubieState \<Rightarrow> string" where
  "identifyPLL topPieces topCenter =
     (let up = upOf topCenter;
          fs = faces topPieces topCenter;
          hc = headlightsCount topPieces topCenter;
          bars = solvedBarsCount topPieces topCenter
      in if hc = 0 then ''Diagonal''
         else if hc = 1 then ''Headlights''
         else if hc = 4 then
           (if bars = 4 then
              (if distinctColors topPieces topCenter = 4 then ''Solved'' else ''Unknown'')
            else if bars = 0 then
              (case find (\<lambda>f. c1 f \<noteq> None \<and> e f \<noteq> None) fs of
                 Some face \<Rightarrow>
                   (case (c1 face, e face) of
                      (Some a, Some b) \<Rightarrow> if isOppositeColor a b then ''PLL (H)'' else ''PLL (Z)''
                    | _ \<Rightarrow> ''PLL (Z)'')
               | None \<Rightarrow> ''PLL (Z)'')
            else if bars = 1 then
              (case find isBar fs of
                 Some backFace \<Rightarrow>
                   (let backDir = dir backFace;
                        frontDir = negate backDir;
                        frontFace = find (\<lambda>f. dot (dir f) frontDir > 0.9) fs;
                        rightDir = crossVectors up frontDir;
                        rightFace = find (\<lambda>f. dot (dir f) rightDir > 0.9) fs
                    in case (frontFace, rightFace) of
                         (Some ff, Some rf) \<Rightarrow>
                           (if e ff \<noteq> None \<and> c1 rf \<noteq> None
                            then (if e ff = c1 rf then ''PLL (Ua)'' else ''PLL (Ub)'')
                            else ''PLL (Ua)'')
                       | _ \<Rightarrow> ''PLL (Ua)'')
               | None \<Rightarrow> ''PLL (Ua)'')
            else ''PLL (Z)'')
         else ''Unknown'')"

section \<open>The OLL classifier\<close>

text \<open>\<^verbatim>\<open>identify2LookOLL\<close>, from \<^verbatim>\<open>utils/ollPatterns.ts\<close>.\<close>

definition getStickerNormal :: "CubieState \<Rightarrow> CubieState \<Rightarrow> Vector3Arr" where
  "getStickerNormal topCenter c =
     applyQuaternion (normalize (initialPosition topCenter)) (quaternion c)"

text \<open>The filter predicate of \<^verbatim>\<open>orientedEdges\<close> and \<^verbatim>\<open>orientedCorners\<close>.\<close>

definition orientedUp :: "CubieState \<Rightarrow> CubieState \<Rightarrow> bool" where
  "orientedUp topCenter c =
     (let localUp = normalize (initialPosition topCenter);
          currentUp = applyQuaternion localUp (quaternion c)
      in dot currentUp (upOf topCenter) > 0.9)"

text \<open>The double loop over the pairs \<open>i < j\<close> of corners that counts headlight pairs.\<close>

fun headlightPairs :: "CubieState \<Rightarrow> CubieState list \<Rightarrow> nat" where
  "headlightPairs topCenter [] = 0"
| "headlightPairs topCenter (ca # rest) =
     length (filter (\<lambda>cb. \<not> distanceTo (position ca) (position cb) > 2.2 \<and>
                       dot (getStickerNormal topCenter ca) (getStickerNormal topCenter cb) > 0.9)
               rest)
     + headlightPairs topCenter rest"

text \<open>
  The search for the clockwise neighbour: the state is \<open>(maxDot, neighbor)\<close>, where
  \<open>None\<close> for \<open>maxDot\<close> is the initial \<open>-\<infinity>\<close>.
\<close>

fun neighborStep :: "CubieState \<Rightarrow> Vector3Arr \<Rightarrow> Vector3Arr \<Rightarrow>
    real option \<times> CubieState option \<Rightarrow> CubieState \<Rightarrow> real option \<times> CubieState option" where
  "neighborStep orientedC centerPos tangentCW (maxDot, neighbor) c =
     (if id_num c = id_num orientedC then (maxDot, neighbor)
      else
        (let cPosRel = normalize (subVectors (position c) centerPos);
             d = dot cPosRel tangentCW
         in if (case maxDot of None \<Rightarrow> True | Some m \<Rightarrow> d > m) then (Some d, Some c)
            else (maxDot, neighbor)))"

definition cornerStage :: "CubieState list \<Rightarrow> CubieState \<Rightarrow> string" where
  "cornerStage corners topCenter =
     (let up = upOf topCenter;
          orientedCorners = filter (orientedUp topCenter) corners;
          orientedCount = length orientedCorners;
          centerPos = position topCenter;
          sune =
            (if orientedCount = 1 then
               (let orientedC = orientedCorners ! 0;
                    oPosRel = subVectors (position orientedC) centerPos;
                    tangentCW = normalize (crossVectors up oPosRel);
                    neighbor = snd (foldl (neighborStep orientedC centerPos tangentCW)
                                      (None, None) corners)
                in case neighbor of
                     None \<Rightarrow> None
                   | Some n \<Rightarrow>
                       (let nPosRel = subVectors (position n) centerPos;
                            nSticker = getStickerNormal topCenter n;
                            twistVal = dot (crossVectors nPosRel nSticker) up
                        in Some (if twistVal > 0 then ''Sune'' else ''Anti-Sune'')))
             else None)
      in if orientedCount = 0 then
           (let pairs = headlightPairs topCenter corners
            in if pairs \<ge> 2 then ''H'' else if pairs = 1 then ''Pi'' else ''Unknown'')
         else
           (case sune of
              Some r \<Rightarrow> r
            | None \<Rightarrow>
                if orientedCount = 2 then
                  (if distanceTo (position (orientedCorners ! 0)) (position (orientedCorners ! 1))
                        > 2.2
                   then ''L''
                   else
                     (let unoriented = filter (\<lambda>c. \<not> orientedUp topCenter c) corners
                      in if length unoriented \<noteq> 2 then ''Unknown''
                         else if dot (getStickerNormal topCenter (unoriented ! 0))
                                   (getStickerNormal topCenter (unoriented ! 1)) > 0.8
                         then ''U'' else ''T''))
                else ''Unknown''))"

definition orientedEdges :: "CubieState list \<Rightarrow> CubieState \<Rightarrow> CubieState list" where
  "orientedEdges topPieces topCenter = filter (orientedUp topCenter) (filter isEdge topPieces)"

definition identify2LookOLL :: "CubieState list \<Rightarrow> CubieState \<Rightarrow> string" where
  "identify2LookOLL topPieces topCenter =
     (let corners = filter isCorner topPieces;
          oes = orientedEdges topPieces topCenter;
          edgeCount = length oes
      in if edgeCount < 4 then
           (if edgeCount = 0 then ''Dot''
            else if edgeCount = 2 then
              (if distanceTo (position (oes ! 0)) (position (oes ! 1)) < 1.8
               then ''L-Shape'' else ''Line'')
            else ''Unknown'')
         else cornerStage corners topCenter)"

section \<open>The phase engine\<close>

text \<open>\<^verbatim>\<open>analyzeCube\<close>: every centre is tried as the base; the best phase wins.\<close>

datatype Phase = Scrambled | Cross | F2L | OLL | PLL | Solved

datatype F2LTag = FirstLayer | SecondLayer

record AnalysisResult =
  phase :: Phase
  baseColor :: "string option"
  isSolved :: bool
  f2lTag :: "F2LTag option"
  missingCount :: "int option"
  ollCase :: "string option"
  pllCase :: "string option"

text \<open>The local variables of one iteration of the loop over the centres.\<close>

record Candidate =
  currentPhase :: Phase
  candF2lTag :: "F2LTag option"
  candMissingCount :: "int option"
  ollCaseResult :: "string option"
  pllCaseResult :: "string option"

text \<open>The variables the loop carries from one centre to the next.\<close>

record Best =
  bestPhase :: Phase
  bestBase :: "CubieState option"
  bestF2LTag :: "F2LTag option"
  bestMissingCount :: "int option"
  bestOLLCase :: "string option"
  bestPLLCase :: "string option"

definition crossEdges :: "CubieState list \<Rightarrow> CubieState \<Rightarrow> CubieState list" where
  "crossEdges cubies center =
     filter (\<lambda>ed. distanceTo (initialPosition center) (initialPosition ed) < 1.1)
       (filter isEdge cubies)"

definition isCrossSolved :: "CubieState list \<Rightarrow> CubieState \<Rightarrow> bool" where
  "isCrossSolved cubies center =
     list_all (\<lambda>ed. isCorrectlyPlaced ed center) (crossEdges cubies center)"

text \<open>\<^verbatim>\<open>findIndex(v => v !== 0)\<close>; \<open>None\<close> is the result \<open>-1\<close>.\<close>

definition baseAxisIndex :: "CubieState \<Rightarrow> nat option" where
  "baseAxisIndex center =
     (case initialPosition center of
        (x, y, z) \<Rightarrow> if x \<noteq> 0 then Some 0 else if y \<noteq> 0 then Some 1
                     else if z \<noteq> 0 then Some 2 else None)"

text \<open>
  Reading a component at the base axis index; at index \<open>-1\<close> the read is
  \<^verbatim>\<open>undefined\<close>, and every comparison with it is false.
\<close>

definition componentAt :: "Vector3Arr \<Rightarrow> nat option \<Rightarrow> real option" where
  "componentAt v i = (case i of None \<Rightarrow> None | Some k \<Rightarrow> getComponent v k)"

definition sameComponent :: "nat option \<Rightarrow> Vector3Arr \<Rightarrow> Vector3Arr \<Rightarrow> bool" where
  "sameComponent i a b =
     (case (componentAt a i, componentAt b i) of
        (Some u, Some v) \<Rightarrow> \<bar>u - v\<bar> < 0.1
      | _ \<Rightarrow> False)"

definition baseCorners :: "CubieState list \<Rightarrow> CubieState \<Rightarrow> CubieState list" where
  "baseCorners cubies center =
     filter (\<lambda>c. sameComponent (baseAxisIndex center) (initialPosition c) (initialPosition center))
       (filter isCorner cubies)"

text \<open>\<^verbatim>\<open>edgeInitPos[baseAxisIndex] = 0\<close>.\<close>

fun zeroComponent :: "Vector3Arr \<Rightarrow> nat option \<Rightarrow> Vector3Arr" where
  "zeroComponent (x, y, z) i =
     (if i = Some 0 then (0, y, z) else if i = Some 1 then (x, 0, z)
      else if i = Some 2 then (x, y, 0) else (x, y, z))"

fun closeTo :: "Vector3Arr \<Rightarrow> Vector3Arr \<Rightarrow> bool" where
  "closeTo (a0, a1, a2) (b0, b1, b2) =
     (\<bar>a0 - b0\<bar> < 0.1 \<and> \<bar>a1 - b1\<bar> < 0.1 \<and> \<bar>a2 - b2\<bar> < 0.1)"

definition pairedEdge :: "CubieState list \<Rightarrow> CubieState \<Rightarrow> CubieState \<Rightarrow> CubieState option" where
  "pairedEdge cubies center corner =
     (let edgeInitPos = zeroComponent (initialPosition corner) (baseAxisIndex center)
      in find (\<lambda>ed. closeTo (initialPosition ed) edgeInitPos) (filter isEdge cubies))"

text \<open>
  One iteration of the loop over the base corners; the state is
  \<open>(solvedPairs, solvedCorners, solvedEdges)\<close>.
\<close>

fun f2lStep :: "CubieState list \<Rightarrow> CubieState \<Rightarrow> int \<times> int \<times> int \<Rightarrow> CubieState \<Rightarrow>
    int \<times> int \<times> int" where
  "f2lStep cubies center (solvedPairs, solvedCorners, solvedEdges) corner =
     (let isCornerSolved = isCorrectlyPlaced corner center;
          solvedCorners' = (if isCornerSolved then solvedCorners + 1 else solvedCorners)
      in case pairedEdge cubies center corner of
           None \<Rightarrow> (solvedPairs, solvedCorners', solvedEdges)
         | Some edge \<Rightarrow>
             (let isEdgeSolved = isCorrectlyPlaced edge center
              in (if isCornerSolved \<and> isEdgeSolved then solvedPairs + 1 else solvedPairs,
                  solvedCorners',
                  if isEdgeSolved then solvedEdges + 1 else solvedEdges)))"

definition f2lCounts :: "CubieState list \<Rightarrow> CubieState \<Rightarrow> int \<times> int \<times> int" where
  "f2lCounts cubies center = foldl (f2lStep cubies center) (0, 0, 0) (baseCorners cubies center)"

definition solvedPairs :: "CubieState list \<Rightarrow> CubieState \<Rightarrow> int" where
  "solvedPairs cubies center = fst (f2lCounts cubies center)"

definition solvedCorners :: "CubieState list \<Rightarrow> CubieState \<Rightarrow> int" where
  "solvedCorners cubies center = fst (snd (f2lCounts cubies center))"

definition solvedEdges :: "CubieState list \<Rightarrow> CubieState \<Rightarrow> int" where
  "solvedEdges cubies center = snd (snd (f2lCounts cubies center))"

definition findTopCenter :: "CubieState list \<Rightarrow> CubieState \<Rightarrow> CubieState option" where
  "findTopCenter cubies center =
     find (\<lambda>c. dot (initialPosition center) (initialPosition c) < - 0.9) (filter isCenter cubies)"

definition inTopLayer :: "CubieState \<Rightarrow> CubieState \<Rightarrow> bool" where
  "inTopLayer topCenter p =
     (case initialPosition topCenter of
        (tx, ty, tz) \<Rightarrow>
          (let ax = (if tx \<noteq> 0 then 0 else if ty \<noteq> 0 then 1 else 2)
           in sameComponent (Some ax) (initialPosition p) (tx, ty, tz)))"

definition topPiecesOf :: "CubieState list \<Rightarrow> CubieState \<Rightarrow> CubieState list" where
  "topPiecesOf cubies topCenter =
     filter (inTopLayer topCenter) (filter isEdge cubies @ filter isCorner cubies)"

definition isOLLSolved :: "CubieState list \<Rightarrow> CubieState \<Rightarrow> bool" where
  "isOLLSolved cubies topCenter =
     list_all (\<lambda>p. isOrientedForOLL p topCenter) (topPiecesOf cubies topCenter)"

text \<open>Steps 3 and 4 of an iteration, entered when all four pairs are solved.\<close>

definition lastLayer :: "CubieState list \<Rightarrow> CubieState \<Rightarrow> Candidate" where
  "lastLayer cubies center =
     (case findTopCenter cubies center of
        None \<Rightarrow> \<lparr>currentPhase = OLL, candF2lTag = None, candMissingCount = None,
                  ollCaseResult = None, pllCaseResult = None\<rparr>
      | Some topCenter \<Rightarrow>
          (let topPieces = topPiecesOf cubies topCenter
           in if isOLLSolved cubies topCenter then
                (let pllCaseResult0 = identifyPLL topPieces topCenter
                 in if pllCaseResult0 = ''Solved''
                    then \<lparr>currentPhase = Solved, candF2lTag = None, candMissingCount = None,
                          ollCaseResult = None, pllCaseResult = None\<rparr>
                    else \<lparr>currentPhase = PLL, candF2lTag = None, candMissingCount = None,
                          ollCaseResult = None, pllCaseResult = Some pllCaseResult0\<rparr>)
              else \<lparr>currentPhase = OLL, candF2lTag = None, candMissingCount = None,
                    ollCaseResult = Some (identify2LookOLL topPieces topCenter),
                    pllCaseResult = None\<rparr>))"

text \<open>
  One iteration of the loop over the centres, up to the ranking: \<open>None\<close> when the
  iteration ends at \<^verbatim>\<open>continue\<close> because the cross is not solved.
\<close>

definition evalCandidate :: "CubieState list \<Rightarrow> CubieState \<Rightarrow> Candidate option" where
  "evalCandidate cubies center =
     (if \<not> isCrossSolved cubies center then None
      else if solvedPairs cubies center = 4 then Some (lastLayer cubies center)
      else if solvedPairs cubies center \<ge> 2 then
        Some \<lparr>currentPhase = F2L, candF2lTag = None,
              candMissingCount = Some (4 - solvedPairs cubies center),
              ollCaseResult = None, pllCaseResult = None\<rparr>
      else if solvedCorners cubies center = 4 then
        Some \<lparr>currentPhase = F2L, candF2lTag = Some SecondLayer,
              candMissingCount = Some (4 - solvedEdges cubies center),
              ollCaseResult = None, pllCaseResult = None\<rparr>
      else
        Some \<lparr>currentPhase = F2L, candF2lTag = Some FirstLayer,
              candMissingCount = Some (4 - solvedCorners cubies center),
              ollCaseResult = None, pllCaseResult = None\<rparr>)"

fun phaseValue :: "Phase \<Rightarrow> nat" where
  "phaseValue Scrambled = 0"
| "phaseValue Cross = 1"
| "phaseValue F2L = 2"
| "phaseValue OLL = 3"
| "phaseValue PLL = 4"
| "phaseValue Solved = 5"

text \<open>\<^verbatim>\<open>missingCount || 0\<close>.\<close>

definition orZero :: "int option \<Rightarrow> int" where
  "orZero v = (case v of None \<Rightarrow> 0 | Some n \<Rightarrow> n)"

definition updateBest :: "Best \<Rightarrow> CubieState \<Rightarrow> Candidate \<Rightarrow> Best" where
  "updateBest b center cand =
     (let phaseRank = phaseValue (currentPhase cand)
      in if phaseRank > phaseValue (bestPhase b) then
           \<lparr>bestPhase = currentPhase cand, bestBase = Some center,
            bestF2LTag = candF2lTag cand, bestMissingCount = candMissingCount cand,
            bestOLLCase = ollCaseResult cand, bestPLLCase = pllCaseResult cand\<rparr>
         else if phaseRank = phaseValue (bestPhase b) \<and> currentPhase cand = F2L then
           (if orZero (candMissingCount cand) < orZero (bestMissingCount b)
            then b\<lparr>bestBase := Some center, bestF2LTag := candF2lTag cand,
                   bestMissingCount := candMissingCount cand\<rparr>
            else b)
         else b)"

definition candidateStep :: "CubieState list \<Rightarrow> Best \<Rightarrow> CubieState \<Rightarrow> Best" where
  "candidateStep cubies b center =
     (case evalCandidate cubies center of
        None \<Rightarrow> b
      | Some cand \<Rightarrow> updateBest b center cand)"

definition initialBest :: Best where
  "initialBest = \<lparr>bestPhase = Scrambled, bestBase = None, bestF2LTag = None,
                  bestMissingCount = None, bestOLLCase = None, bestPLLCase = None\<rparr>"

definition searchBest :: "CubieState list \<Rightarrow> Best" where
  "searchBest cubies = foldl (candidateStep cubies) initialBest (filter isCenter cubies)"

fun colorOf :: "Vector3Arr \<Rightarrow> string option" where
  "colorOf (ip0, ip1, ip2) =
     (if ip1 = 1 then Some ''#ffffff''
      else if ip1 = - 1 then Some ''#ffd500''
      else if ip0 = 1 then Some ''#b71234''
      else if ip0 = - 1 then Some ''#ff5800''
      else if ip2 = 1 then Some ''#009b48''
      else if ip2 = - 1 then Some ''#0046ad''
      else None)"

definition analyzeCube :: "CubieState list \<Rightarrow> AnalysisResult" where
  "analyzeCube cubies =
     (let b = searchBest cubies;
          colorHex = (case bestBase b of None \<Rightarrow> None | Some bb \<Rightarrow> colorOf (initialPosition bb))
      in if bestPhase b = Scrambled then
           \<lparr>phase = Cross, baseColor = None, isSolved = False, f2lTag = None,
            missingCount = None, ollCase = None, pllCase = None\<rparr>
         else
           \<lparr>phase = bestPhase b, baseColor = colorHex, isSolved = (bestPhase b = Solved),
            f2lTag = bestF2LTag b, missingCount = bestMissingCount b,
            ollCase = bestOLLCase b, pllCase = bestPLLCase b\<rparr>)"

section \<open>Notions of the specification\<close>

text \<open>
  The reference rotation of the specification (section 4.1), written from its words: a
  half turn negates the two coordinates orthogonal to the axis; a quarter turn is the
  right-hand-rule rotation about the axis by \<open>turnMagnitude\<close> times 90 degrees; every
  output is rounded to the nearest integer.
\<close>

definition rightHandRotation :: "Axis \<Rightarrow> real \<Rightarrow> Vector3Arr \<Rightarrow> Vector3Arr" where
  "rightHandRotation ax \<theta> v =
     (case v of (x, y, z) \<Rightarrow>
        (case ax of
           X \<Rightarrow> (x, y * cos \<theta> - z * sin \<theta>, y * sin \<theta> + z * cos \<theta>)
         | Y \<Rightarrow> (x * cos \<theta> + z * sin \<theta>, y, z * cos \<theta> - x * sin \<theta>)
         | Z \<Rightarrow> (x * cos \<theta> - y * sin \<theta>, x * sin \<theta> + y * cos \<theta>, z)))"

fun roundVec :: "Vector3Arr \<Rightarrow> Vector3Arr" where
  "roundVec (x, y, z) = (roundPos x, roundPos y, roundPos z)"

definition rotate_spec :: "Vector3Arr \<Rightarrow> Axis \<Rightarrow> real \<Rightarrow> Vector3Arr" where
  "rotate_spec v ax turnMagnitude =
     (if \<bar>turnMagnitude\<bar> = 2 then
        (case v of (x, y, z) \<Rightarrow>
           roundVec (case ax of X \<Rightarrow> (x, - y, - z) | Y \<Rightarrow> (- x, y, - z) | Z \<Rightarrow> (- x, - y, z)))
      else roundVec (rightHandRotation ax (turnMagnitude * (pi / 2)) v))"

text \<open>
  A valid move: a quarter or half turn in either direction, of any set of the three
  layers along its axis.
\<close>

definition validMove :: "Move \<Rightarrow> bool" where
  "validMove m = (direction m \<in> {- 2, - 1, 1, 2} \<and> set (slice m) \<subseteq> {- 1, 0, 1})"

text \<open>The snapshot reached from the initial one by a sequence of moves.\<close>

definition applyMoves :: "Move list \<Rightarrow> CubieState list" where
  "applyMoves ms = foldl applyMove getInitialState ms"

text \<open>
  Unit quaternions, and those among them that turn every coordinate axis into a
  coordinate axis (with a sign): the rotations of the cube, 24 as rotations.
\<close>

definition normSq :: "Quaternion \<Rightarrow> real" where
  "normSq q = qx q * qx q + qy q * qy q + qz q * qz q + qw q * qw q"

definition unitQ :: "Quaternion \<Rightarrow> bool" where
  "unitQ q = (normSq q = 1)"

definition isAxisVec :: "Vector3Arr \<Rightarrow> bool" where
  "isAxisVec v = (v \<in> set candidates)"

definition cubeRotation :: "Quaternion \<Rightarrow> bool" where
  "cubeRotation q =
     (unitQ q \<and> isAxisVec (applyQuaternion (1, 0, 0) q) \<and>
      isAxisVec (applyQuaternion (0, 1, 0) q) \<and> isAxisVec (applyQuaternion (0, 0, 1) q))"

text \<open>Two quaternions that rotate every vector alike.\<close>

definition sameRotation :: "Quaternion \<Rightarrow> Quaternion \<Rightarrow> bool" where
  "sameRotation p q = (\<forall>v. applyQuaternion v p = applyQuaternion v q)"

text \<open>The rotation \<open>v \<mapsto> q v q\<^sup>-\<^sup>1\<close> written as the product of quaternions.\<close>

fun conjugateBy :: "Vector3Arr \<Rightarrow> Quaternion \<Rightarrow> Vector3Arr" where
  "conjugateBy (vx, vy, vz) q =
     (let ix = qw q * vx + qy q * vz - qz q * vy;
          iy = qw q * vy + qz q * vx - qx q * vz;
          iz = qw q * vz + qx q * vy - qy q * vx;
          iw = - qx q * vx - qy q * vy - qz q * vz
      in (ix * qw q + iw * - qx q + iy * - qz q - iz * - qy q,
          iy * qw q + iw * - qy q + iz * - qx q - ix * - qz q,
          iz * qw q + iw * - qz q + ix * - qy q - iy * - qx q))"


text \<open>
  Auxiliary notions for the proofs about moves. \<open>turn ax d\<close> is the exact rotation of a
  vector about the axis \<open>ax\<close> by \<open>d\<close> quarter turns, for \<open>d\<close> in \<open>{1, -1, 2, -2}\<close>;
  \<open>posMap m\<close> is what a move does to a position; \<open>qneg q\<close> is the quaternion \<open>-q\<close>;
  \<open>cubeInv\<close> is the invariant of the snapshots: the pieces keep their initial positions
  and identifiers in the order of the initial snapshot, the positions are a permutation
  of the lattice, and every orientation is a rotation of the cube.
\<close>

fun turn :: "Axis \<Rightarrow> real \<Rightarrow> Vector3Arr \<Rightarrow> Vector3Arr" where
  "turn ax d (x, y, z) =
     (if \<bar>d\<bar> = 2 then
        (case ax of X \<Rightarrow> (x, - y, - z) | Y \<Rightarrow> (- x, y, - z) | Z \<Rightarrow> (- x, - y, z))
      else
        (case ax of
           X \<Rightarrow> (x, - d * z, d * y)
         | Y \<Rightarrow> (d * z, y, - d * x)
         | Z \<Rightarrow> (- d * y, d * x, z)))"

definition inSliceP :: "Move \<Rightarrow> Vector3Arr \<Rightarrow> bool" where
  "inSliceP m p =
     (case getComponent p (axisIndex (axis m)) of
        None \<Rightarrow> False
      | Some v \<Rightarrow> v \<in> set (slice m))"

definition posMap :: "Move \<Rightarrow> Vector3Arr \<Rightarrow> Vector3Arr" where
  "posMap m p = (if inSliceP m p then turn (axis m) (direction m) p else p)"

definition qneg :: "Quaternion \<Rightarrow> Quaternion" where
  "qneg q = \<lparr>qx = - qx q, qy = - qy q, qz = - qz q, qw = - qw q\<rparr>"

definition cubeInv :: "CubieState list \<Rightarrow> bool" where
  "cubeInv s =
     (map initialPosition s = lattice \<and> map id_num s = [0..<27] \<and>
      mset (map position s) = mset lattice \<and>
      list_all (\<lambda>c. cubeRotation (quaternion c)) s)"

text \<open>The initial positions of the corner pieces: every coordinate is 1 or -1.\<close>

definition cornerVec :: "Vector3Arr \<Rightarrow> bool" where
  "cornerVec v = (case v of (x, y, z) \<Rightarrow> \<bar>x\<bar> = 1 \<and> \<bar>y\<bar> = 1 \<and> \<bar>z\<bar> = 1)"

text \<open>The sum of two vectors (\<^verbatim>\<open>Vector3.add\<close>), used in the proofs only.\<close>

fun addVectors :: "Vector3Arr \<Rightarrow> Vector3Arr \<Rightarrow> Vector3Arr" where
  "addVectors (ax, ay, az) (bx, by, bz) = (ax + bx, ay + by, az + bz)"

section \<open>Snapshots used as examples\<close>

text \<open>
  \<open>piece i ip p x y z w\<close> is the piece number \<open>i\<close> with initial position \<open>ip\<close>,
  position \<open>p\<close> and quaternion \<open>(x, y, z, w)\<close>; it is used to write snapshots down.
  The snapshots below are reached from the initial one by the moves listed.
\<close>

definition piece ::
    "nat \<Rightarrow> Vector3Arr \<Rightarrow> Vector3Arr \<Rightarrow> real \<Rightarrow> real \<Rightarrow> real \<Rightarrow> real \<Rightarrow> CubieState" where
  "piece i ip p x y z w =
     \<lparr>id_num = i, initialPosition = ip, position = p, rotation = (0, 0, 0),
      quaternion = \<lparr>qx = x, qy = y, qz = z, qw = w\<rparr>\<rparr>"

definition snapshotF2L :: "CubieState list" where
  "snapshotF2L = applyMoves
     [\<lparr>axis = X, slice = [- 1], direction = 2\<rparr>,
      \<lparr>axis = Y, slice = [0], direction = 2\<rparr>,
      \<lparr>axis = X, slice = [- 1], direction = 2\<rparr>]"

definition snapshotNoCross :: "CubieState list" where
  "snapshotNoCross = applyMoves
     [\<lparr>axis = X, slice = [- 1], direction = 1\<rparr>,
      \<lparr>axis = Y, slice = [- 1], direction = 1\<rparr>]"

definition snapshotLine :: "CubieState list" where
  "snapshotLine = applyMoves
     [\<lparr>axis = Y, slice = [1], direction = - 1\<rparr>,
      \<lparr>axis = X, slice = [1], direction = - 1\<rparr>,
      \<lparr>axis = Z, slice = [1], direction = - 1\<rparr>,
      \<lparr>axis = X, slice = [1], direction = 1\<rparr>,
      \<lparr>axis = Z, slice = [1], direction = 1\<rparr>,
      \<lparr>axis = Y, slice = [1], direction = 1\<rparr>]"

definition snapshotTurned :: "CubieState list" where
  "snapshotTurned = applyMoves
     [\<lparr>axis = X, slice = [- 1, 0, 1], direction = 1\<rparr>,
      \<lparr>axis = Z, slice = [- 1, 0, 1], direction = 2\<rparr>]"

definition snapshotTwisted :: "CubieState list" where
  "snapshotTwisted = applyMoves
     [\<lparr>axis = Y, slice = [1], direction = - 1\<rparr>,
      \<lparr>axis = X, slice = [1], direction = - 1\<rparr>]"

definition snapshotSideways :: "CubieState list" where
  "snapshotSideways = applyMoves
     [\<lparr>axis = Z, slice = [- 1], direction = - 1\<rparr>,
      \<lparr>axis = Z, slice = [1], direction = 1\<rparr>,
      \<lparr>axis = X, slice = [- 1], direction = 1\<rparr>,
      \<lparr>axis = X, slice = [0], direction = 2\<rparr>,
      \<lparr>axis = X, slice = [1], direction = - 1\<rparr>,
      \<lparr>axis = Y, slice = [0], direction = - 1\<rparr>]"

definition snapshotTopTurned :: "CubieState list" where
  "snapshotTopTurned = applyMoves
     [\<lparr>axis = Y, slice = [1], direction = - 1\<rparr>]"

section \<open>Frame properties of a move\<close>

lemma commitCubie_outside: "\<not> inSlice m c \<Longrightarrow> commitCubie m c = c"
  by (simp add: commitCubie_def)

lemma inSlice_empty: "slice m = [] \<Longrightarrow> \<not> inSlice m c"
  by (simp add: inSlice_def split: option.splits)

lemma commitCubie_frame:
  "id_num (commitCubie m c) = id_num c \<and>
   initialPosition (commitCubie m c) = initialPosition c \<and>
   rotation (commitCubie m c) = rotation c"
  by (simp add: commitCubie_def Let_def)

lemma applyMove_nth: "i < length cubies \<Longrightarrow> applyMove cubies m ! i = commitCubie m (cubies ! i)"
  by (simp add: applyMove_def)

lemma commitCubie_only:
  "commitCubie m c = c\<lparr>position := position (commitCubie m c),
                         quaternion := quaternion (commitCubie m c)\<rparr>"
  by (simp add: commitCubie_def Let_def)

lemma applyMove_empty: "slice m = [] \<Longrightarrow> applyMove cubies m = cubies"
  by (simp add: applyMove_def commitCubie_outside inSlice_empty map_idI)

section \<open>The lattice and rounding\<close>

lemma lattice_eq:
  "lattice =
     [(- 1, - 1, - 1), (- 1, - 1, 0), (- 1, - 1, 1), (- 1, 0, - 1), (- 1, 0, 0), (- 1, 0, 1),
      (- 1, 1, - 1), (- 1, 1, 0), (- 1, 1, 1), (0, - 1, - 1), (0, - 1, 0), (0, - 1, 1),
      (0, 0, - 1), (0, 0, 0), (0, 0, 1), (0, 1, - 1), (0, 1, 0), (0, 1, 1),
      (1, - 1, - 1), (1, - 1, 0), (1, - 1, 1), (1, 0, - 1), (1, 0, 0), (1, 0, 1),
      (1, 1, - 1), (1, 1, 0), (1, 1, 1)]"
  by (simp add: lattice_def)

lemma set_lattice: "set lattice = {- 1, 0, 1} \<times> {- 1, 0, 1} \<times> {- 1, 0, 1}"
  unfolding lattice_def by (simp add: image_Un)

lemma lattice_iff:
  "(x, y, z) \<in> set lattice \<longleftrightarrow> x \<in> {- 1, 0, 1} \<and> y \<in> {- 1, 0, 1} \<and> z \<in> {- 1, 0, 1}"
  by (simp only: set_lattice mem_Sigma_iff)

lemma roundPos_of_int: "roundPos (of_int k) = of_int k"
proof -
  have "\<lfloor>(of_int k :: real) + 1 / 2\<rfloor> = k" by linarith
  then show ?thesis by (simp add: roundPos_def)
qed

lemma roundPos_unit: "v \<in> {- 1, 0, 1} \<Longrightarrow> roundPos v = v \<and> roundPos (- v) = - v"
  using roundPos_of_int [of "- 1"] roundPos_of_int [of 0] roundPos_of_int [of 1]
  by auto

lemma roundPos_simps: "roundPos 0 = 0" "roundPos 1 = 1" "roundPos (- 1) = - 1"
  using roundPos_of_int [of "- 1"] roundPos_of_int [of 0] roundPos_of_int [of 1]
  by simp_all

section \<open>The claims on single functions\<close>

text \<open>
  C3. On every lattice position and every turn magnitude in \<open>{1, -1, 2, -2}\<close>,
  \<open>rotateVector\<close> is the reference rotation of the specification: a quarter turn is
  the right-hand-rule rotation by 90 degrees times the direction (about x it sends
  \<open>(x, y, z)\<close> to \<open>(x, -dir z, dir y)\<close>), and a half turn of either sign negates the two
  coordinates orthogonal to the axis and keeps the third; the results are integers.
\<close>

theorem rotateVector_reference:
  assumes L: "(x, y, z) \<in> set lattice" and D: "d \<in> {1, - 1, 2, - 2}"
  shows "rotateVector (x, y, z) ax d = rotate_spec (x, y, z) ax d \<and>
         (\<bar>d\<bar> = 1 \<longrightarrow> rotateVector (x, y, z) X d = (x, - d * z, d * y)) \<and>
         (\<bar>d\<bar> = 2 \<longrightarrow>
            rotateVector (x, y, z) ax d =
              (case ax of X \<Rightarrow> (x, - y, - z) | Y \<Rightarrow> (- x, y, - z) | Z \<Rightarrow> (- x, - y, z))) \<and>
         rotateVector (x, y, z) ax d \<in> set lattice"
proof -
  from L have c: "x \<in> {- 1, 0, 1}" "y \<in> {- 1, 0, 1}" "z \<in> {- 1, 0, 1}"
    by (simp_all only: lattice_iff)
  then have r: "roundPos x = x" "roundPos y = y" "roundPos z = z"
    "roundPos (- x) = - x" "roundPos (- y) = - y" "roundPos (- z) = - z"
    using roundPos_unit by blast+
  have n: "- x \<in> {- 1, 0, 1}" "- y \<in> {- 1, 0, 1}" "- z \<in> {- 1, 0, 1}"
    using c by auto
  from D consider "d = 1" | "d = - 1" | "d = 2" | "d = - 2" by auto
  then show ?thesis
  proof cases
    case 1 then show ?thesis using r c n
      by (cases ax) (simp_all add: rotate_spec_def rightHandRotation_def lattice_iff)
  next
    case 2 then show ?thesis using r c n
      by (cases ax) (simp_all add: rotate_spec_def rightHandRotation_def lattice_iff)
  next
    case 3 then show ?thesis using r c n
      by (cases ax) (simp_all add: rotate_spec_def rightHandRotation_def lattice_iff)
  next
    case 4 then show ?thesis using r c n
      by (cases ax) (simp_all add: rotate_spec_def rightHandRotation_def lattice_iff)
  qed
qed

theorem rotateVector_reference_witness:
  "(1, 1, 0) \<in> set lattice \<and> rotateVector (1, 1, 0) X 1 = rotate_spec (1, 1, 0) X 1 \<and>
   rotateVector (1, 1, 0) X 1 = (1, 0, 1) \<and>
   rotateVector (1, 1, 0) Z (- 2) = (- 1, - 1, 0)"
  using rotateVector_reference [of 1 1 0 1 X] rotateVector_reference [of 1 1 0 "- 2" Z]
  by (simp add: lattice_iff roundPos_simps)

text \<open>
  C10. A move is a frame-preserving update. A piece whose coordinate along the move's
  axis is not in the slice set is returned unchanged; of every piece only the position
  and the quaternion can change, so its identifier and its initial position stay; and
  a move with an empty slice set returns the snapshot as it is.
\<close>

theorem applyMove_frame:
  "length (applyMove cubies m) = length cubies \<and>
   (\<forall>i < length cubies.
      (\<not> inSlice m (cubies ! i) \<longrightarrow> applyMove cubies m ! i = cubies ! i) \<and>
      applyMove cubies m ! i =
        (cubies ! i)\<lparr>position := position (applyMove cubies m ! i),
                       quaternion := quaternion (applyMove cubies m ! i)\<rparr> \<and>
      id_num (applyMove cubies m ! i) = id_num (cubies ! i) \<and>
      initialPosition (applyMove cubies m ! i) = initialPosition (cubies ! i)) \<and>
   (slice m = [] \<longrightarrow> applyMove cubies m = cubies)"
proof (intro conjI allI impI)
  show "length (applyMove cubies m) = length cubies" by (simp add: applyMove_def)
next
  fix i assume "i < length cubies" "\<not> inSlice m (cubies ! i)"
  then show "applyMove cubies m ! i = cubies ! i"
    by (simp add: applyMove_nth commitCubie_outside)
next
  fix i assume "i < length cubies"
  then show "applyMove cubies m ! i =
        (cubies ! i)\<lparr>position := position (applyMove cubies m ! i),
                       quaternion := quaternion (applyMove cubies m ! i)\<rparr>"
    using commitCubie_only [of m "cubies ! i"] by (simp add: applyMove_nth)
next
  fix i assume "i < length cubies"
  then show "id_num (applyMove cubies m ! i) = id_num (cubies ! i)"
    by (simp add: applyMove_nth commitCubie_frame)
next
  fix i assume "i < length cubies"
  then show "initialPosition (applyMove cubies m ! i) = initialPosition (cubies ! i)"
    by (simp add: applyMove_nth commitCubie_frame)
next
  assume "slice m = []"
  then show "applyMove cubies m = cubies" by (rule applyMove_empty)
qed

section \<open>Evaluating the program on concrete snapshots\<close>

text \<open>
  The lemmas of this section evaluate the program on snapshots written as lists of
  pieces, step by step.
\<close>

lemma piece_sel:
  "id_num (piece i ip p x y z w) = i"
  "initialPosition (piece i ip p x y z w) = ip"
  "position (piece i ip p x y z w) = p"
  "quaternion (piece i ip p x y z w) = \<lparr>qx = x, qy = y, qz = z, qw = w\<rparr>"
  by (simp_all add: piece_def)

lemma piece_update:
  "(piece i ip p x y z w)\<lparr>position := p', quaternion := \<lparr>qx = x', qy = y', qz = z', qw = w'\<rparr>\<rparr>
     = piece i ip p' x' y' z' w'"
  by (simp add: piece_def)

lemma sqrt_less_iff: "0 < c \<Longrightarrow> sqrt x < c \<longleftrightarrow> x < c * c"
  by (metis abs_of_pos real_sqrt_abs2 real_sqrt_less_iff)

lemma sqrt_scaled_less: "0 < a \<Longrightarrow> 0 < b \<Longrightarrow> sqrt x * a < b \<longleftrightarrow> x * (a * a) < b * b"
proof -
  assume a: "0 < a" and b: "0 < b"
  have "sqrt x * a < b \<longleftrightarrow> sqrt x < b / a" using a by (simp add: pos_less_divide_eq)
  also have "\<dots> \<longleftrightarrow> x < (b / a) * (b / a)" using a b by (simp add: sqrt_less_iff)
  also have "\<dots> \<longleftrightarrow> x * (a * a) < b * b" using a by (simp add: pos_less_divide_eq)
  finally show ?thesis .
qed

lemma sqrt_scaled_greater: "0 < a \<Longrightarrow> 0 < b \<Longrightarrow> b < sqrt x * a \<longleftrightarrow> b * b < x * (a * a)"
proof -
  assume a: "0 < a" and b: "0 < b"
  have p: "0 < b / a" using a b by simp
  have "b < sqrt x * a \<longleftrightarrow> b / a < sqrt x" using a by (simp add: pos_divide_less_eq)
  also have "\<dots> \<longleftrightarrow> sqrt ((b / a) * (b / a)) < sqrt x"
    using p by (simp only: real_sqrt_abs2 abs_of_pos)
  also have "\<dots> \<longleftrightarrow> (b / a) * (b / a) < x" by (rule real_sqrt_less_iff)
  also have "\<dots> \<longleftrightarrow> b * b < x * (a * a)" using a by (simp add: pos_divide_less_eq)
  finally show ?thesis .
qed

lemma arccos_eval:
  "0 < ROT_EPSILON" "\<not> pi / 2 < ROT_EPSILON" "\<not> pi < ROT_EPSILON"
  "\<not> pi < ROT_EPSILON * 2"
  using pi_ge_two by (simp_all add: ROT_EPSILON_def)

lemma trig_quarter: "sin (pi / 4) = sqrt 2 / 2" "cos (pi / 4) = sqrt 2 / 2"
  by (simp_all add: sin_45 cos_45)

lemmas vec_eval = distanceTo_def vlength_def normalize_def angleTo_def clamp_def
  invert_def Let_def sqrt_less_iff sqrt_scaled_less sqrt_scaled_greater

lemmas class_eval = isCenter_def isEdge_def isCorner_def absSum_def piece_sel

lemmas placed_eval = isCorrectlyPlaced_def vec_eval piece_sel

lemmas oriented_eval = isOrientedForOLL_def qnormalize_def qlength_def arccos_eval vec_eval
  piece_sel

lemmas face_eval = mkFace_def onFace_def sideDirs_def upOf_def candidates_def
  getStickerColor_def localNormals_def class_eval vec_eval

lemmas move_eval = applyMove_def commitCubie_def inSlice_def applyAxisAngle_def rotQuat_def
  axisVec_def angleRad_def premultiply_def multiplyQuaternions_def qnormalize_def qlength_def
  Let_def trig_quarter roundPos_simps piece_sel piece_update

subsection \<open>The initial snapshot\<close>

lemma init_eq:
  "getInitialState =
     [piece 0 (- 1, - 1, - 1) (- 1, - 1, - 1) 0 0 0 1,
      piece 1 (- 1, - 1, 0) (- 1, - 1, 0) 0 0 0 1,
      piece 2 (- 1, - 1, 1) (- 1, - 1, 1) 0 0 0 1,
      piece 3 (- 1, 0, - 1) (- 1, 0, - 1) 0 0 0 1,
      piece 4 (- 1, 0, 0) (- 1, 0, 0) 0 0 0 1,
      piece 5 (- 1, 0, 1) (- 1, 0, 1) 0 0 0 1,
      piece 6 (- 1, 1, - 1) (- 1, 1, - 1) 0 0 0 1,
      piece 7 (- 1, 1, 0) (- 1, 1, 0) 0 0 0 1,
      piece 8 (- 1, 1, 1) (- 1, 1, 1) 0 0 0 1,
      piece 9 (0, - 1, - 1) (0, - 1, - 1) 0 0 0 1,
      piece 10 (0, - 1, 0) (0, - 1, 0) 0 0 0 1,
      piece 11 (0, - 1, 1) (0, - 1, 1) 0 0 0 1,
      piece 12 (0, 0, - 1) (0, 0, - 1) 0 0 0 1,
      piece 13 (0, 0, 0) (0, 0, 0) 0 0 0 1,
      piece 14 (0, 0, 1) (0, 0, 1) 0 0 0 1,
      piece 15 (0, 1, - 1) (0, 1, - 1) 0 0 0 1,
      piece 16 (0, 1, 0) (0, 1, 0) 0 0 0 1,
      piece 17 (0, 1, 1) (0, 1, 1) 0 0 0 1,
      piece 18 (1, - 1, - 1) (1, - 1, - 1) 0 0 0 1,
      piece 19 (1, - 1, 0) (1, - 1, 0) 0 0 0 1,
      piece 20 (1, - 1, 1) (1, - 1, 1) 0 0 0 1,
      piece 21 (1, 0, - 1) (1, 0, - 1) 0 0 0 1,
      piece 22 (1, 0, 0) (1, 0, 0) 0 0 0 1,
      piece 23 (1, 0, 1) (1, 0, 1) 0 0 0 1,
      piece 24 (1, 1, - 1) (1, 1, - 1) 0 0 0 1,
      piece 25 (1, 1, 0) (1, 1, 0) 0 0 0 1,
      piece 26 (1, 1, 1) (1, 1, 1) 0 0 0 1]"
  by (simp add: getInitialState_def lattice_eq identityQ_def piece_def)

lemma init_centers: "filter isCenter getInitialState = map ((!) getInitialState) [4, 10, 12, 14, 16, 22]"
  by (simp add: init_eq class_eval)

lemma init_edges: "filter isEdge getInitialState = map ((!) getInitialState) [1, 3, 5, 7, 9, 11, 15, 17, 19, 21, 23, 25]"
  by (simp add: init_eq class_eval)

lemma init_corners: "filter isCorner getInitialState = map ((!) getInitialState) [0, 2, 6, 8, 18, 20, 24, 26]"
  by (simp add: init_eq class_eval)

lemma init_crossEdges4: "crossEdges getInitialState (getInitialState ! 4) = map ((!) getInitialState) [1, 3, 5, 7]"
  unfolding crossEdges_def init_edges by (simp add: init_eq vec_eval piece_sel)

lemma init_cross4: "isCrossSolved getInitialState (getInitialState ! 4)"
  unfolding isCrossSolved_def init_crossEdges4 by (simp add: init_eq placed_eval)

lemma init_baseCorners4: "baseCorners getInitialState (getInitialState ! 4) = map ((!) getInitialState) [0, 2, 6, 8]"
  unfolding baseCorners_def init_corners by (simp add: init_eq sameComponent_def componentAt_def baseAxisIndex_def piece_sel)

lemma init_f2l4: "f2lCounts getInitialState (getInitialState ! 4) = (4, 4, 4)"
  unfolding f2lCounts_def init_baseCorners4 by (simp add: init_eq pairedEdge_def baseAxisIndex_def placed_eval class_eval)

lemma init_top4: "findTopCenter getInitialState (getInitialState ! 4) = Some (getInitialState ! 22)"
  unfolding findTopCenter_def init_centers by (simp add: init_eq piece_sel)

lemma init_topPieces22: "topPiecesOf getInitialState (getInitialState ! 22) = map ((!) getInitialState) [19, 21, 23, 25, 18, 20, 24, 26]"
  unfolding topPiecesOf_def init_edges init_corners by (simp add: init_eq inTopLayer_def sameComponent_def componentAt_def piece_sel)

lemma init_oll22: "isOLLSolved getInitialState (getInitialState ! 22)"
  unfolding isOLLSolved_def init_topPieces22 by (simp add: init_eq oriented_eval)

lemma init_faces22:
  "faces (topPiecesOf getInitialState (getInitialState ! 22)) (getInitialState ! 22) =
    [\<lparr>dir = (0, 1, 0), c1 = Some ''U'', c2 = Some ''U'', e = Some ''U'', isHeadlights = True, isBar = True\<rparr>,
     \<lparr>dir = (0, - 1, 0), c1 = Some ''D'', c2 = Some ''D'', e = Some ''D'', isHeadlights = True, isBar = True\<rparr>,
     \<lparr>dir = (0, 0, 1), c1 = Some ''F'', c2 = Some ''F'', e = Some ''F'', isHeadlights = True, isBar = True\<rparr>,
     \<lparr>dir = (0, 0, - 1), c1 = Some ''B'', c2 = Some ''B'', e = Some ''B'', isHeadlights = True, isBar = True\<rparr>]"
  unfolding faces_def init_topPieces22 by (simp add: init_eq face_eval)

lemma init_pll22: "identifyPLL (topPiecesOf getInitialState (getInitialState ! 22)) (getInitialState ! 22) = ''Solved''"
  unfolding identifyPLL_def distinctColors_def solvedBarsCount_def headlightsCount_def init_faces22 by (simp add: Let_def)

lemma init_crossEdges10: "crossEdges getInitialState (getInitialState ! 10) = map ((!) getInitialState) [1, 9, 11, 19]"
  unfolding crossEdges_def init_edges by (simp add: init_eq vec_eval piece_sel)

lemma init_cross10: "isCrossSolved getInitialState (getInitialState ! 10)"
  unfolding isCrossSolved_def init_crossEdges10 by (simp add: init_eq placed_eval)

lemma init_baseCorners10: "baseCorners getInitialState (getInitialState ! 10) = map ((!) getInitialState) [0, 2, 18, 20]"
  unfolding baseCorners_def init_corners by (simp add: init_eq sameComponent_def componentAt_def baseAxisIndex_def piece_sel)

lemma init_f2l10: "f2lCounts getInitialState (getInitialState ! 10) = (4, 4, 4)"
  unfolding f2lCounts_def init_baseCorners10 by (simp add: init_eq pairedEdge_def baseAxisIndex_def placed_eval class_eval)

lemma init_top10: "findTopCenter getInitialState (getInitialState ! 10) = Some (getInitialState ! 16)"
  unfolding findTopCenter_def init_centers by (simp add: init_eq piece_sel)

lemma init_topPieces16: "topPiecesOf getInitialState (getInitialState ! 16) = map ((!) getInitialState) [7, 15, 17, 25, 6, 8, 24, 26]"
  unfolding topPiecesOf_def init_edges init_corners by (simp add: init_eq inTopLayer_def sameComponent_def componentAt_def piece_sel)

lemma init_oll16: "isOLLSolved getInitialState (getInitialState ! 16)"
  unfolding isOLLSolved_def init_topPieces16 by (simp add: init_eq oriented_eval)

lemma init_faces16:
  "faces (topPiecesOf getInitialState (getInitialState ! 16)) (getInitialState ! 16) =
    [\<lparr>dir = (1, 0, 0), c1 = Some ''R'', c2 = Some ''R'', e = Some ''R'', isHeadlights = True, isBar = True\<rparr>,
     \<lparr>dir = (- 1, 0, 0), c1 = Some ''L'', c2 = Some ''L'', e = Some ''L'', isHeadlights = True, isBar = True\<rparr>,
     \<lparr>dir = (0, 0, 1), c1 = Some ''F'', c2 = Some ''F'', e = Some ''F'', isHeadlights = True, isBar = True\<rparr>,
     \<lparr>dir = (0, 0, - 1), c1 = Some ''B'', c2 = Some ''B'', e = Some ''B'', isHeadlights = True, isBar = True\<rparr>]"
  unfolding faces_def init_topPieces16 by (simp add: init_eq face_eval)

lemma init_pll16: "identifyPLL (topPiecesOf getInitialState (getInitialState ! 16)) (getInitialState ! 16) = ''Solved''"
  unfolding identifyPLL_def distinctColors_def solvedBarsCount_def headlightsCount_def init_faces16 by (simp add: Let_def)

lemma init_crossEdges12: "crossEdges getInitialState (getInitialState ! 12) = map ((!) getInitialState) [3, 9, 15, 21]"
  unfolding crossEdges_def init_edges by (simp add: init_eq vec_eval piece_sel)

lemma init_cross12: "isCrossSolved getInitialState (getInitialState ! 12)"
  unfolding isCrossSolved_def init_crossEdges12 by (simp add: init_eq placed_eval)

lemma init_baseCorners12: "baseCorners getInitialState (getInitialState ! 12) = map ((!) getInitialState) [0, 6, 18, 24]"
  unfolding baseCorners_def init_corners by (simp add: init_eq sameComponent_def componentAt_def baseAxisIndex_def piece_sel)

lemma init_f2l12: "f2lCounts getInitialState (getInitialState ! 12) = (4, 4, 4)"
  unfolding f2lCounts_def init_baseCorners12 by (simp add: init_eq pairedEdge_def baseAxisIndex_def placed_eval class_eval)

lemma init_top12: "findTopCenter getInitialState (getInitialState ! 12) = Some (getInitialState ! 14)"
  unfolding findTopCenter_def init_centers by (simp add: init_eq piece_sel)

lemma init_topPieces14: "topPiecesOf getInitialState (getInitialState ! 14) = map ((!) getInitialState) [5, 11, 17, 23, 2, 8, 20, 26]"
  unfolding topPiecesOf_def init_edges init_corners by (simp add: init_eq inTopLayer_def sameComponent_def componentAt_def piece_sel)

lemma init_oll14: "isOLLSolved getInitialState (getInitialState ! 14)"
  unfolding isOLLSolved_def init_topPieces14 by (simp add: init_eq oriented_eval)

lemma init_faces14:
  "faces (topPiecesOf getInitialState (getInitialState ! 14)) (getInitialState ! 14) =
    [\<lparr>dir = (1, 0, 0), c1 = Some ''R'', c2 = Some ''R'', e = Some ''R'', isHeadlights = True, isBar = True\<rparr>,
     \<lparr>dir = (- 1, 0, 0), c1 = Some ''L'', c2 = Some ''L'', e = Some ''L'', isHeadlights = True, isBar = True\<rparr>,
     \<lparr>dir = (0, 1, 0), c1 = Some ''U'', c2 = Some ''U'', e = Some ''U'', isHeadlights = True, isBar = True\<rparr>,
     \<lparr>dir = (0, - 1, 0), c1 = Some ''D'', c2 = Some ''D'', e = Some ''D'', isHeadlights = True, isBar = True\<rparr>]"
  unfolding faces_def init_topPieces14 by (simp add: init_eq face_eval)

lemma init_pll14: "identifyPLL (topPiecesOf getInitialState (getInitialState ! 14)) (getInitialState ! 14) = ''Solved''"
  unfolding identifyPLL_def distinctColors_def solvedBarsCount_def headlightsCount_def init_faces14 by (simp add: Let_def)

lemma init_crossEdges14: "crossEdges getInitialState (getInitialState ! 14) = map ((!) getInitialState) [5, 11, 17, 23]"
  unfolding crossEdges_def init_edges by (simp add: init_eq vec_eval piece_sel)

lemma init_cross14: "isCrossSolved getInitialState (getInitialState ! 14)"
  unfolding isCrossSolved_def init_crossEdges14 by (simp add: init_eq placed_eval)

lemma init_baseCorners14: "baseCorners getInitialState (getInitialState ! 14) = map ((!) getInitialState) [2, 8, 20, 26]"
  unfolding baseCorners_def init_corners by (simp add: init_eq sameComponent_def componentAt_def baseAxisIndex_def piece_sel)

lemma init_f2l14: "f2lCounts getInitialState (getInitialState ! 14) = (4, 4, 4)"
  unfolding f2lCounts_def init_baseCorners14 by (simp add: init_eq pairedEdge_def baseAxisIndex_def placed_eval class_eval)

lemma init_top14: "findTopCenter getInitialState (getInitialState ! 14) = Some (getInitialState ! 12)"
  unfolding findTopCenter_def init_centers by (simp add: init_eq piece_sel)

lemma init_topPieces12: "topPiecesOf getInitialState (getInitialState ! 12) = map ((!) getInitialState) [3, 9, 15, 21, 0, 6, 18, 24]"
  unfolding topPiecesOf_def init_edges init_corners by (simp add: init_eq inTopLayer_def sameComponent_def componentAt_def piece_sel)

lemma init_oll12: "isOLLSolved getInitialState (getInitialState ! 12)"
  unfolding isOLLSolved_def init_topPieces12 by (simp add: init_eq oriented_eval)

lemma init_faces12:
  "faces (topPiecesOf getInitialState (getInitialState ! 12)) (getInitialState ! 12) =
    [\<lparr>dir = (1, 0, 0), c1 = Some ''R'', c2 = Some ''R'', e = Some ''R'', isHeadlights = True, isBar = True\<rparr>,
     \<lparr>dir = (- 1, 0, 0), c1 = Some ''L'', c2 = Some ''L'', e = Some ''L'', isHeadlights = True, isBar = True\<rparr>,
     \<lparr>dir = (0, 1, 0), c1 = Some ''U'', c2 = Some ''U'', e = Some ''U'', isHeadlights = True, isBar = True\<rparr>,
     \<lparr>dir = (0, - 1, 0), c1 = Some ''D'', c2 = Some ''D'', e = Some ''D'', isHeadlights = True, isBar = True\<rparr>]"
  unfolding faces_def init_topPieces12 by (simp add: init_eq face_eval)

lemma init_pll12: "identifyPLL (topPiecesOf getInitialState (getInitialState ! 12)) (getInitialState ! 12) = ''Solved''"
  unfolding identifyPLL_def distinctColors_def solvedBarsCount_def headlightsCount_def init_faces12 by (simp add: Let_def)

lemma init_crossEdges16: "crossEdges getInitialState (getInitialState ! 16) = map ((!) getInitialState) [7, 15, 17, 25]"
  unfolding crossEdges_def init_edges by (simp add: init_eq vec_eval piece_sel)

lemma init_cross16: "isCrossSolved getInitialState (getInitialState ! 16)"
  unfolding isCrossSolved_def init_crossEdges16 by (simp add: init_eq placed_eval)

lemma init_baseCorners16: "baseCorners getInitialState (getInitialState ! 16) = map ((!) getInitialState) [6, 8, 24, 26]"
  unfolding baseCorners_def init_corners by (simp add: init_eq sameComponent_def componentAt_def baseAxisIndex_def piece_sel)

lemma init_f2l16: "f2lCounts getInitialState (getInitialState ! 16) = (4, 4, 4)"
  unfolding f2lCounts_def init_baseCorners16 by (simp add: init_eq pairedEdge_def baseAxisIndex_def placed_eval class_eval)

lemma init_top16: "findTopCenter getInitialState (getInitialState ! 16) = Some (getInitialState ! 10)"
  unfolding findTopCenter_def init_centers by (simp add: init_eq piece_sel)

lemma init_topPieces10: "topPiecesOf getInitialState (getInitialState ! 10) = map ((!) getInitialState) [1, 9, 11, 19, 0, 2, 18, 20]"
  unfolding topPiecesOf_def init_edges init_corners by (simp add: init_eq inTopLayer_def sameComponent_def componentAt_def piece_sel)

lemma init_oll10: "isOLLSolved getInitialState (getInitialState ! 10)"
  unfolding isOLLSolved_def init_topPieces10 by (simp add: init_eq oriented_eval)

lemma init_faces10:
  "faces (topPiecesOf getInitialState (getInitialState ! 10)) (getInitialState ! 10) =
    [\<lparr>dir = (1, 0, 0), c1 = Some ''R'', c2 = Some ''R'', e = Some ''R'', isHeadlights = True, isBar = True\<rparr>,
     \<lparr>dir = (- 1, 0, 0), c1 = Some ''L'', c2 = Some ''L'', e = Some ''L'', isHeadlights = True, isBar = True\<rparr>,
     \<lparr>dir = (0, 0, 1), c1 = Some ''F'', c2 = Some ''F'', e = Some ''F'', isHeadlights = True, isBar = True\<rparr>,
     \<lparr>dir = (0, 0, - 1), c1 = Some ''B'', c2 = Some ''B'', e = Some ''B'', isHeadlights = True, isBar = True\<rparr>]"
  unfolding faces_def init_topPieces10 by (simp add: init_eq face_eval)

lemma init_pll10: "identifyPLL (topPiecesOf getInitialState (getInitialState ! 10)) (getInitialState ! 10) = ''Solved''"
  unfolding identifyPLL_def distinctColors_def solvedBarsCount_def headlightsCount_def init_faces10 by (simp add: Let_def)

lemma init_crossEdges22: "crossEdges getInitialState (getInitialState ! 22) = map ((!) getInitialState) [19, 21, 23, 25]"
  unfolding crossEdges_def init_edges by (simp add: init_eq vec_eval piece_sel)

lemma init_cross22: "isCrossSolved getInitialState (getInitialState ! 22)"
  unfolding isCrossSolved_def init_crossEdges22 by (simp add: init_eq placed_eval)

lemma init_baseCorners22: "baseCorners getInitialState (getInitialState ! 22) = map ((!) getInitialState) [18, 20, 24, 26]"
  unfolding baseCorners_def init_corners by (simp add: init_eq sameComponent_def componentAt_def baseAxisIndex_def piece_sel)

lemma init_f2l22: "f2lCounts getInitialState (getInitialState ! 22) = (4, 4, 4)"
  unfolding f2lCounts_def init_baseCorners22 by (simp add: init_eq pairedEdge_def baseAxisIndex_def placed_eval class_eval)

lemma init_top22: "findTopCenter getInitialState (getInitialState ! 22) = Some (getInitialState ! 4)"
  unfolding findTopCenter_def init_centers by (simp add: init_eq piece_sel)

lemma init_topPieces4: "topPiecesOf getInitialState (getInitialState ! 4) = map ((!) getInitialState) [1, 3, 5, 7, 0, 2, 6, 8]"
  unfolding topPiecesOf_def init_edges init_corners by (simp add: init_eq inTopLayer_def sameComponent_def componentAt_def piece_sel)

lemma init_oll4: "isOLLSolved getInitialState (getInitialState ! 4)"
  unfolding isOLLSolved_def init_topPieces4 by (simp add: init_eq oriented_eval)

lemma init_faces4:
  "faces (topPiecesOf getInitialState (getInitialState ! 4)) (getInitialState ! 4) =
    [\<lparr>dir = (0, 1, 0), c1 = Some ''U'', c2 = Some ''U'', e = Some ''U'', isHeadlights = True, isBar = True\<rparr>,
     \<lparr>dir = (0, - 1, 0), c1 = Some ''D'', c2 = Some ''D'', e = Some ''D'', isHeadlights = True, isBar = True\<rparr>,
     \<lparr>dir = (0, 0, 1), c1 = Some ''F'', c2 = Some ''F'', e = Some ''F'', isHeadlights = True, isBar = True\<rparr>,
     \<lparr>dir = (0, 0, - 1), c1 = Some ''B'', c2 = Some ''B'', e = Some ''B'', isHeadlights = True, isBar = True\<rparr>]"
  unfolding faces_def init_topPieces4 by (simp add: init_eq face_eval)

lemma init_pll4: "identifyPLL (topPiecesOf getInitialState (getInitialState ! 4)) (getInitialState ! 4) = ''Solved''"
  unfolding identifyPLL_def distinctColors_def solvedBarsCount_def headlightsCount_def init_faces4 by (simp add: Let_def)

lemma init_cand4:
  "evalCandidate getInitialState (getInitialState ! 4) =
     Some \<lparr>currentPhase = Solved, candF2lTag = None, candMissingCount = None,
           ollCaseResult = None, pllCaseResult = None\<rparr>"
  unfolding evalCandidate_def lastLayer_def solvedPairs_def init_f2l4 init_top4
  by (simp add: init_cross4 init_oll22 init_pll22)

lemma init_cand10:
  "evalCandidate getInitialState (getInitialState ! 10) =
     Some \<lparr>currentPhase = Solved, candF2lTag = None, candMissingCount = None,
           ollCaseResult = None, pllCaseResult = None\<rparr>"
  unfolding evalCandidate_def lastLayer_def solvedPairs_def init_f2l10 init_top10
  by (simp add: init_cross10 init_oll16 init_pll16)

lemma init_cand12:
  "evalCandidate getInitialState (getInitialState ! 12) =
     Some \<lparr>currentPhase = Solved, candF2lTag = None, candMissingCount = None,
           ollCaseResult = None, pllCaseResult = None\<rparr>"
  unfolding evalCandidate_def lastLayer_def solvedPairs_def init_f2l12 init_top12
  by (simp add: init_cross12 init_oll14 init_pll14)

lemma init_cand14:
  "evalCandidate getInitialState (getInitialState ! 14) =
     Some \<lparr>currentPhase = Solved, candF2lTag = None, candMissingCount = None,
           ollCaseResult = None, pllCaseResult = None\<rparr>"
  unfolding evalCandidate_def lastLayer_def solvedPairs_def init_f2l14 init_top14
  by (simp add: init_cross14 init_oll12 init_pll12)

lemma init_cand16:
  "evalCandidate getInitialState (getInitialState ! 16) =
     Some \<lparr>currentPhase = Solved, candF2lTag = None, candMissingCount = None,
           ollCaseResult = None, pllCaseResult = None\<rparr>"
  unfolding evalCandidate_def lastLayer_def solvedPairs_def init_f2l16 init_top16
  by (simp add: init_cross16 init_oll10 init_pll10)

lemma init_cand22:
  "evalCandidate getInitialState (getInitialState ! 22) =
     Some \<lparr>currentPhase = Solved, candF2lTag = None, candMissingCount = None,
           ollCaseResult = None, pllCaseResult = None\<rparr>"
  unfolding evalCandidate_def lastLayer_def solvedPairs_def init_f2l22 init_top22
  by (simp add: init_cross22 init_oll4 init_pll4)

subsection \<open>A snapshot in the F2L phase\<close>

lemma snapshotF2L_eq:
  "snapshotF2L =
     [piece 0 (- 1, - 1, - 1) (- 1, - 1, - 1) 0 0 0 (- 1),
      piece 1 (- 1, - 1, 0) (- 1, - 1, 0) 0 0 0 (- 1),
      piece 2 (- 1, - 1, 1) (- 1, - 1, 1) 0 0 0 (- 1),
      piece 3 (- 1, 0, - 1) (1, 0, - 1) 0 0 (- 1) 0,
      piece 4 (- 1, 0, 0) (1, 0, 0) 0 0 (- 1) 0,
      piece 5 (- 1, 0, 1) (1, 0, 1) 0 0 (- 1) 0,
      piece 6 (- 1, 1, - 1) (- 1, 1, - 1) 0 0 0 (- 1),
      piece 7 (- 1, 1, 0) (- 1, 1, 0) 0 0 0 (- 1),
      piece 8 (- 1, 1, 1) (- 1, 1, 1) 0 0 0 (- 1),
      piece 9 (0, - 1, - 1) (0, - 1, - 1) 0 0 0 1,
      piece 10 (0, - 1, 0) (0, - 1, 0) 0 0 0 1,
      piece 11 (0, - 1, 1) (0, - 1, 1) 0 0 0 1,
      piece 12 (0, 0, - 1) (0, 0, 1) 0 1 0 0,
      piece 13 (0, 0, 0) (0, 0, 0) 0 1 0 0,
      piece 14 (0, 0, 1) (0, 0, - 1) 0 1 0 0,
      piece 15 (0, 1, - 1) (0, 1, - 1) 0 0 0 1,
      piece 16 (0, 1, 0) (0, 1, 0) 0 0 0 1,
      piece 17 (0, 1, 1) (0, 1, 1) 0 0 0 1,
      piece 18 (1, - 1, - 1) (1, - 1, - 1) 0 0 0 1,
      piece 19 (1, - 1, 0) (1, - 1, 0) 0 0 0 1,
      piece 20 (1, - 1, 1) (1, - 1, 1) 0 0 0 1,
      piece 21 (1, 0, - 1) (- 1, 0, - 1) 0 0 1 0,
      piece 22 (1, 0, 0) (- 1, 0, 0) 0 0 1 0,
      piece 23 (1, 0, 1) (- 1, 0, 1) 0 0 1 0,
      piece 24 (1, 1, - 1) (1, 1, - 1) 0 0 0 1,
      piece 25 (1, 1, 0) (1, 1, 0) 0 0 0 1,
      piece 26 (1, 1, 1) (1, 1, 1) 0 0 0 1]"
  by (simp add: snapshotF2L_def applyMoves_def init_eq move_eval)

lemma f2l_centers: "filter isCenter snapshotF2L = map ((!) snapshotF2L) [4, 10, 12, 14, 16, 22]"
  by (simp add: snapshotF2L_eq class_eval)

lemma f2l_edges: "filter isEdge snapshotF2L = map ((!) snapshotF2L) [1, 3, 5, 7, 9, 11, 15, 17, 19, 21, 23, 25]"
  by (simp add: snapshotF2L_eq class_eval)

lemma f2l_corners: "filter isCorner snapshotF2L = map ((!) snapshotF2L) [0, 2, 6, 8, 18, 20, 24, 26]"
  by (simp add: snapshotF2L_eq class_eval)

lemma f2l_crossEdges10: "crossEdges snapshotF2L (snapshotF2L ! 10) = map ((!) snapshotF2L) [1, 9, 11, 19]"
  unfolding crossEdges_def f2l_edges by (simp add: snapshotF2L_eq vec_eval piece_sel)

lemma f2l_cross10: "isCrossSolved snapshotF2L (snapshotF2L ! 10)"
  unfolding isCrossSolved_def f2l_crossEdges10 by (simp add: snapshotF2L_eq placed_eval)

lemma f2l_baseCorners10: "baseCorners snapshotF2L (snapshotF2L ! 10) = map ((!) snapshotF2L) [0, 2, 18, 20]"
  unfolding baseCorners_def f2l_corners by (simp add: snapshotF2L_eq sameComponent_def componentAt_def baseAxisIndex_def piece_sel)

lemma f2l_f2l10: "f2lCounts snapshotF2L (snapshotF2L ! 10) = (0, 4, 0)"
  unfolding f2lCounts_def f2l_baseCorners10 by (simp add: snapshotF2L_eq pairedEdge_def baseAxisIndex_def placed_eval class_eval)

subsection \<open>A snapshot in which no cross is solved\<close>

lemma snapshotNoCross_eq:
  "snapshotNoCross =
     [piece 0 (- 1, - 1, - 1) (- 1, 1, - 1) (sqrt 2 / 2) 0 0 (sqrt 2 / 2),
      piece 1 (- 1, - 1, 0) (- 1, 0, - 1) (sqrt 2 / 2) 0 0 (sqrt 2 / 2),
      piece 2 (- 1, - 1, 1) (- 1, - 1, 1) (1 / 2) (1 / 2) (- (1 / 2)) (1 / 2),
      piece 3 (- 1, 0, - 1) (- 1, 1, 0) (sqrt 2 / 2) 0 0 (sqrt 2 / 2),
      piece 4 (- 1, 0, 0) (- 1, 0, 0) (sqrt 2 / 2) 0 0 (sqrt 2 / 2),
      piece 5 (- 1, 0, 1) (0, - 1, 1) (1 / 2) (1 / 2) (- (1 / 2)) (1 / 2),
      piece 6 (- 1, 1, - 1) (- 1, 1, 1) (sqrt 2 / 2) 0 0 (sqrt 2 / 2),
      piece 7 (- 1, 1, 0) (- 1, 0, 1) (sqrt 2 / 2) 0 0 (sqrt 2 / 2),
      piece 8 (- 1, 1, 1) (1, - 1, 1) (1 / 2) (1 / 2) (- (1 / 2)) (1 / 2),
      piece 9 (0, - 1, - 1) (- 1, - 1, 0) 0 (sqrt 2 / 2) 0 (sqrt 2 / 2),
      piece 10 (0, - 1, 0) (0, - 1, 0) 0 (sqrt 2 / 2) 0 (sqrt 2 / 2),
      piece 11 (0, - 1, 1) (1, - 1, 0) 0 (sqrt 2 / 2) 0 (sqrt 2 / 2),
      piece 12 (0, 0, - 1) (0, 0, - 1) 0 0 0 1,
      piece 13 (0, 0, 0) (0, 0, 0) 0 0 0 1,
      piece 14 (0, 0, 1) (0, 0, 1) 0 0 0 1,
      piece 15 (0, 1, - 1) (0, 1, - 1) 0 0 0 1,
      piece 16 (0, 1, 0) (0, 1, 0) 0 0 0 1,
      piece 17 (0, 1, 1) (0, 1, 1) 0 0 0 1,
      piece 18 (1, - 1, - 1) (- 1, - 1, - 1) 0 (sqrt 2 / 2) 0 (sqrt 2 / 2),
      piece 19 (1, - 1, 0) (0, - 1, - 1) 0 (sqrt 2 / 2) 0 (sqrt 2 / 2),
      piece 20 (1, - 1, 1) (1, - 1, - 1) 0 (sqrt 2 / 2) 0 (sqrt 2 / 2),
      piece 21 (1, 0, - 1) (1, 0, - 1) 0 0 0 1,
      piece 22 (1, 0, 0) (1, 0, 0) 0 0 0 1,
      piece 23 (1, 0, 1) (1, 0, 1) 0 0 0 1,
      piece 24 (1, 1, - 1) (1, 1, - 1) 0 0 0 1,
      piece 25 (1, 1, 0) (1, 1, 0) 0 0 0 1,
      piece 26 (1, 1, 1) (1, 1, 1) 0 0 0 1]"
  by (simp add: snapshotNoCross_def applyMoves_def init_eq move_eval)

lemma nocross_centers: "filter isCenter snapshotNoCross = map ((!) snapshotNoCross) [4, 10, 12, 14, 16, 22]"
  by (simp add: snapshotNoCross_eq class_eval)

lemma nocross_edges: "filter isEdge snapshotNoCross = map ((!) snapshotNoCross) [1, 3, 5, 7, 9, 11, 15, 17, 19, 21, 23, 25]"
  by (simp add: snapshotNoCross_eq class_eval)

lemma nocross_corners: "filter isCorner snapshotNoCross = map ((!) snapshotNoCross) [0, 2, 6, 8, 18, 20, 24, 26]"
  by (simp add: snapshotNoCross_eq class_eval)

lemma nocross_crossEdges4: "crossEdges snapshotNoCross (snapshotNoCross ! 4) = map ((!) snapshotNoCross) [1, 3, 5, 7]"
  unfolding crossEdges_def nocross_edges by (simp add: snapshotNoCross_eq vec_eval piece_sel)

lemma nocross_cross4: "\<not> isCrossSolved snapshotNoCross (snapshotNoCross ! 4)"
  unfolding isCrossSolved_def nocross_crossEdges4 by (simp add: snapshotNoCross_eq placed_eval)

lemma nocross_crossEdges10: "crossEdges snapshotNoCross (snapshotNoCross ! 10) = map ((!) snapshotNoCross) [1, 9, 11, 19]"
  unfolding crossEdges_def nocross_edges by (simp add: snapshotNoCross_eq vec_eval piece_sel)

lemma nocross_cross10: "\<not> isCrossSolved snapshotNoCross (snapshotNoCross ! 10)"
  unfolding isCrossSolved_def nocross_crossEdges10 by (simp add: snapshotNoCross_eq placed_eval)

lemma nocross_crossEdges12: "crossEdges snapshotNoCross (snapshotNoCross ! 12) = map ((!) snapshotNoCross) [3, 9, 15, 21]"
  unfolding crossEdges_def nocross_edges by (simp add: snapshotNoCross_eq vec_eval piece_sel)

lemma nocross_cross12: "\<not> isCrossSolved snapshotNoCross (snapshotNoCross ! 12)"
  unfolding isCrossSolved_def nocross_crossEdges12 by (simp add: snapshotNoCross_eq placed_eval)

lemma nocross_crossEdges14: "crossEdges snapshotNoCross (snapshotNoCross ! 14) = map ((!) snapshotNoCross) [5, 11, 17, 23]"
  unfolding crossEdges_def nocross_edges by (simp add: snapshotNoCross_eq vec_eval piece_sel)

lemma nocross_cross14: "\<not> isCrossSolved snapshotNoCross (snapshotNoCross ! 14)"
  unfolding isCrossSolved_def nocross_crossEdges14 by (simp add: snapshotNoCross_eq placed_eval)

lemma nocross_crossEdges16: "crossEdges snapshotNoCross (snapshotNoCross ! 16) = map ((!) snapshotNoCross) [7, 15, 17, 25]"
  unfolding crossEdges_def nocross_edges by (simp add: snapshotNoCross_eq vec_eval piece_sel)

lemma nocross_cross16: "\<not> isCrossSolved snapshotNoCross (snapshotNoCross ! 16)"
  unfolding isCrossSolved_def nocross_crossEdges16 by (simp add: snapshotNoCross_eq placed_eval)

lemma nocross_crossEdges22: "crossEdges snapshotNoCross (snapshotNoCross ! 22) = map ((!) snapshotNoCross) [19, 21, 23, 25]"
  unfolding crossEdges_def nocross_edges by (simp add: snapshotNoCross_eq vec_eval piece_sel)

lemma nocross_cross22: "\<not> isCrossSolved snapshotNoCross (snapshotNoCross ! 22)"
  unfolding isCrossSolved_def nocross_crossEdges22 by (simp add: snapshotNoCross_eq placed_eval)

subsection \<open>A snapshot in the OLL phase, reached by U R F R' F' U' \<close>

lemma snapshotLine_eq:
  "snapshotLine =
     [piece 0 (- 1, - 1, - 1) (- 1, - 1, - 1) 0 0 0 1,
      piece 1 (- 1, - 1, 0) (- 1, - 1, 0) 0 0 0 1,
      piece 2 (- 1, - 1, 1) (- 1, - 1, 1) 0 0 0 1,
      piece 3 (- 1, 0, - 1) (- 1, 0, - 1) 0 0 0 1,
      piece 4 (- 1, 0, 0) (- 1, 0, 0) 0 0 0 1,
      piece 5 (- 1, 0, 1) (- 1, 0, 1) 0 0 0 1,
      piece 6 (- 1, 1, - 1) (- 1, 1, - 1) 0 0 0 1,
      piece 7 (- 1, 1, 0) (- 1, 1, 0) 0 0 0 1,
      piece 8 (- 1, 1, 1) (- 1, 1, 1) 0 0 0 1,
      piece 9 (0, - 1, - 1) (0, - 1, - 1) 0 0 0 1,
      piece 10 (0, - 1, 0) (0, - 1, 0) 0 0 0 1,
      piece 11 (0, - 1, 1) (0, - 1, 1) 0 0 0 1,
      piece 12 (0, 0, - 1) (0, 0, - 1) 0 0 0 1,
      piece 13 (0, 0, 0) (0, 0, 0) 0 0 0 1,
      piece 14 (0, 0, 1) (0, 0, 1) 0 0 0 1,
      piece 15 (0, 1, - 1) (0, 1, - 1) 0 0 0 1,
      piece 16 (0, 1, 0) (0, 1, 0) 0 0 0 1,
      piece 17 (0, 1, 1) (0, 1, 1) 0 0 0 1,
      piece 18 (1, - 1, - 1) (1, - 1, 1) (- (sqrt 2 / 2)) 0 0 (sqrt 2 / 2),
      piece 19 (1, - 1, 0) (1, 0, 1) (- (sqrt 2 / 2)) 0 0 (sqrt 2 / 2),
      piece 20 (1, - 1, 1) (1, - 1, - 1) 0 (sqrt 2 / 2) 0 (sqrt 2 / 2),
      piece 21 (1, 0, - 1) (1, 0, - 1) 0 0 0 1,
      piece 22 (1, 0, 0) (1, 0, 0) 0 0 0 1,
      piece 23 (1, 0, 1) (1, 1, 0) (1 / 2) (1 / 2) (1 / 2) (1 / 2),
      piece 24 (1, 1, - 1) (1, 1, 1) (sqrt 2 / 2) 0 0 (sqrt 2 / 2),
      piece 25 (1, 1, 0) (1, - 1, 0) 0 0 (- (sqrt 2 / 2)) (sqrt 2 / 2),
      piece 26 (1, 1, 1) (1, 1, - 1) 0 (sqrt 2 / 2) 0 (sqrt 2 / 2)]"
  by (simp add: snapshotLine_def applyMoves_def init_eq move_eval)

lemma line_centers: "filter isCenter snapshotLine = map ((!) snapshotLine) [4, 10, 12, 14, 16, 22]"
  by (simp add: snapshotLine_eq class_eval)

lemma line_edges: "filter isEdge snapshotLine = map ((!) snapshotLine) [1, 3, 5, 7, 9, 11, 15, 17, 19, 21, 23, 25]"
  by (simp add: snapshotLine_eq class_eval)

lemma line_corners: "filter isCorner snapshotLine = map ((!) snapshotLine) [0, 2, 6, 8, 18, 20, 24, 26]"
  by (simp add: snapshotLine_eq class_eval)

lemma line_crossEdges4: "crossEdges snapshotLine (snapshotLine ! 4) = map ((!) snapshotLine) [1, 3, 5, 7]"
  unfolding crossEdges_def line_edges by (simp add: snapshotLine_eq vec_eval piece_sel)

lemma line_cross4: "isCrossSolved snapshotLine (snapshotLine ! 4)"
  unfolding isCrossSolved_def line_crossEdges4 by (simp add: snapshotLine_eq placed_eval)

lemma line_baseCorners4: "baseCorners snapshotLine (snapshotLine ! 4) = map ((!) snapshotLine) [0, 2, 6, 8]"
  unfolding baseCorners_def line_corners by (simp add: snapshotLine_eq sameComponent_def componentAt_def baseAxisIndex_def piece_sel)

lemma line_f2l4: "f2lCounts snapshotLine (snapshotLine ! 4) = (4, 4, 4)"
  unfolding f2lCounts_def line_baseCorners4 by (simp add: snapshotLine_eq pairedEdge_def baseAxisIndex_def placed_eval class_eval)

lemma line_crossEdges10: "crossEdges snapshotLine (snapshotLine ! 10) = map ((!) snapshotLine) [1, 9, 11, 19]"
  unfolding crossEdges_def line_edges by (simp add: snapshotLine_eq vec_eval piece_sel)

lemma line_cross10: "\<not> isCrossSolved snapshotLine (snapshotLine ! 10)"
  unfolding isCrossSolved_def line_crossEdges10 by (simp add: snapshotLine_eq placed_eval)

lemma line_crossEdges12: "crossEdges snapshotLine (snapshotLine ! 12) = map ((!) snapshotLine) [3, 9, 15, 21]"
  unfolding crossEdges_def line_edges by (simp add: snapshotLine_eq vec_eval piece_sel)

lemma line_cross12: "isCrossSolved snapshotLine (snapshotLine ! 12)"
  unfolding isCrossSolved_def line_crossEdges12 by (simp add: snapshotLine_eq placed_eval)

lemma line_baseCorners12: "baseCorners snapshotLine (snapshotLine ! 12) = map ((!) snapshotLine) [0, 6, 18, 24]"
  unfolding baseCorners_def line_corners by (simp add: snapshotLine_eq sameComponent_def componentAt_def baseAxisIndex_def piece_sel)

lemma line_f2l12: "f2lCounts snapshotLine (snapshotLine ! 12) = (2, 2, 3)"
  unfolding f2lCounts_def line_baseCorners12 by (simp add: snapshotLine_eq pairedEdge_def baseAxisIndex_def placed_eval class_eval)

lemma line_crossEdges14: "crossEdges snapshotLine (snapshotLine ! 14) = map ((!) snapshotLine) [5, 11, 17, 23]"
  unfolding crossEdges_def line_edges by (simp add: snapshotLine_eq vec_eval piece_sel)

lemma line_cross14: "\<not> isCrossSolved snapshotLine (snapshotLine ! 14)"
  unfolding isCrossSolved_def line_crossEdges14 by (simp add: snapshotLine_eq placed_eval)

lemma line_crossEdges16: "crossEdges snapshotLine (snapshotLine ! 16) = map ((!) snapshotLine) [7, 15, 17, 25]"
  unfolding crossEdges_def line_edges by (simp add: snapshotLine_eq vec_eval piece_sel)

lemma line_cross16: "\<not> isCrossSolved snapshotLine (snapshotLine ! 16)"
  unfolding isCrossSolved_def line_crossEdges16 by (simp add: snapshotLine_eq placed_eval)

lemma line_crossEdges22: "crossEdges snapshotLine (snapshotLine ! 22) = map ((!) snapshotLine) [19, 21, 23, 25]"
  unfolding crossEdges_def line_edges by (simp add: snapshotLine_eq vec_eval piece_sel)

lemma line_cross22: "\<not> isCrossSolved snapshotLine (snapshotLine ! 22)"
  unfolding isCrossSolved_def line_crossEdges22 by (simp add: snapshotLine_eq placed_eval)

lemma line_top4: "findTopCenter snapshotLine (snapshotLine ! 4) = Some (snapshotLine ! 22)"
  unfolding findTopCenter_def line_centers by (simp add: snapshotLine_eq piece_sel)

lemma line_topPieces22: "topPiecesOf snapshotLine (snapshotLine ! 22) = map ((!) snapshotLine) [19, 21, 23, 25, 18, 20, 24, 26]"
  unfolding topPiecesOf_def line_edges line_corners by (simp add: snapshotLine_eq inTopLayer_def sameComponent_def componentAt_def piece_sel)

lemma line_oll22: "\<not> isOLLSolved snapshotLine (snapshotLine ! 22)"
  unfolding isOLLSolved_def line_topPieces22 by (simp add: snapshotLine_eq oriented_eval)

lemma line_orientedEdges22:
  "orientedEdges (topPiecesOf snapshotLine (snapshotLine ! 22)) (snapshotLine ! 22) = map ((!) snapshotLine) [19, 21]"
  unfolding orientedEdges_def line_topPieces22 by (simp add: snapshotLine_eq orientedUp_def upOf_def class_eval vec_eval)

lemma line_oll_case:
  "identify2LookOLL (topPiecesOf snapshotLine (snapshotLine ! 22)) (snapshotLine ! 22) = ''Line''"
  unfolding identify2LookOLL_def line_orientedEdges22
  by (simp add: snapshotLine_eq vec_eval piece_sel)

lemma line_cand4:
  "evalCandidate snapshotLine (snapshotLine ! 4) =
     Some \<lparr>currentPhase = OLL, candF2lTag = None, candMissingCount = None,
           ollCaseResult = Some ''Line'', pllCaseResult = None\<rparr>"
  unfolding evalCandidate_def lastLayer_def solvedPairs_def line_f2l4 line_top4
  by (simp add: line_cross4 line_oll22 line_oll_case)

lemma line_cand12:
  "evalCandidate snapshotLine (snapshotLine ! 12) =
     Some \<lparr>currentPhase = F2L, candF2lTag = None, candMissingCount = Some 2,
           ollCaseResult = None, pllCaseResult = None\<rparr>"
  unfolding evalCandidate_def solvedPairs_def solvedCorners_def solvedEdges_def line_f2l12
  by (simp add: line_cross12)

lemma line_rejected:
  "evalCandidate snapshotLine (snapshotLine ! 10) = None"
  "evalCandidate snapshotLine (snapshotLine ! 14) = None"
  "evalCandidate snapshotLine (snapshotLine ! 16) = None"
  "evalCandidate snapshotLine (snapshotLine ! 22) = None"
  by (simp_all add: evalCandidate_def line_cross10 line_cross14 line_cross16 line_cross22)

lemma line_search:
  "searchBest snapshotLine =
     \<lparr>bestPhase = OLL, bestBase = Some (snapshotLine ! 4), bestF2LTag = None,
      bestMissingCount = None, bestOLLCase = Some ''Line'', bestPLLCase = None\<rparr>"
  unfolding searchBest_def line_centers
  by (simp add: candidateStep_def line_cand4 line_cand12 line_rejected updateBest_def
      initialBest_def orZero_def)

subsection \<open>The cube turned as a whole, and a corner twisted in place\<close>

lemma snapshotTurned_eq:
  "snapshotTurned =
     [piece 0 (- 1, - 1, - 1) (1, - 1, - 1) 0 (sqrt 2 / 2) (sqrt 2 / 2) 0,
      piece 1 (- 1, - 1, 0) (1, 0, - 1) 0 (sqrt 2 / 2) (sqrt 2 / 2) 0,
      piece 2 (- 1, - 1, 1) (1, 1, - 1) 0 (sqrt 2 / 2) (sqrt 2 / 2) 0,
      piece 3 (- 1, 0, - 1) (1, - 1, 0) 0 (sqrt 2 / 2) (sqrt 2 / 2) 0,
      piece 4 (- 1, 0, 0) (1, 0, 0) 0 (sqrt 2 / 2) (sqrt 2 / 2) 0,
      piece 5 (- 1, 0, 1) (1, 1, 0) 0 (sqrt 2 / 2) (sqrt 2 / 2) 0,
      piece 6 (- 1, 1, - 1) (1, - 1, 1) 0 (sqrt 2 / 2) (sqrt 2 / 2) 0,
      piece 7 (- 1, 1, 0) (1, 0, 1) 0 (sqrt 2 / 2) (sqrt 2 / 2) 0,
      piece 8 (- 1, 1, 1) (1, 1, 1) 0 (sqrt 2 / 2) (sqrt 2 / 2) 0,
      piece 9 (0, - 1, - 1) (0, - 1, - 1) 0 (sqrt 2 / 2) (sqrt 2 / 2) 0,
      piece 10 (0, - 1, 0) (0, 0, - 1) 0 (sqrt 2 / 2) (sqrt 2 / 2) 0,
      piece 11 (0, - 1, 1) (0, 1, - 1) 0 (sqrt 2 / 2) (sqrt 2 / 2) 0,
      piece 12 (0, 0, - 1) (0, - 1, 0) 0 (sqrt 2 / 2) (sqrt 2 / 2) 0,
      piece 13 (0, 0, 0) (0, 0, 0) 0 (sqrt 2 / 2) (sqrt 2 / 2) 0,
      piece 14 (0, 0, 1) (0, 1, 0) 0 (sqrt 2 / 2) (sqrt 2 / 2) 0,
      piece 15 (0, 1, - 1) (0, - 1, 1) 0 (sqrt 2 / 2) (sqrt 2 / 2) 0,
      piece 16 (0, 1, 0) (0, 0, 1) 0 (sqrt 2 / 2) (sqrt 2 / 2) 0,
      piece 17 (0, 1, 1) (0, 1, 1) 0 (sqrt 2 / 2) (sqrt 2 / 2) 0,
      piece 18 (1, - 1, - 1) (- 1, - 1, - 1) 0 (sqrt 2 / 2) (sqrt 2 / 2) 0,
      piece 19 (1, - 1, 0) (- 1, 0, - 1) 0 (sqrt 2 / 2) (sqrt 2 / 2) 0,
      piece 20 (1, - 1, 1) (- 1, 1, - 1) 0 (sqrt 2 / 2) (sqrt 2 / 2) 0,
      piece 21 (1, 0, - 1) (- 1, - 1, 0) 0 (sqrt 2 / 2) (sqrt 2 / 2) 0,
      piece 22 (1, 0, 0) (- 1, 0, 0) 0 (sqrt 2 / 2) (sqrt 2 / 2) 0,
      piece 23 (1, 0, 1) (- 1, 1, 0) 0 (sqrt 2 / 2) (sqrt 2 / 2) 0,
      piece 24 (1, 1, - 1) (- 1, - 1, 1) 0 (sqrt 2 / 2) (sqrt 2 / 2) 0,
      piece 25 (1, 1, 0) (- 1, 0, 1) 0 (sqrt 2 / 2) (sqrt 2 / 2) 0,
      piece 26 (1, 1, 1) (- 1, 1, 1) 0 (sqrt 2 / 2) (sqrt 2 / 2) 0]"
  by (simp add: snapshotTurned_def applyMoves_def init_eq move_eval)

lemma snapshotTwisted_eq:
  "snapshotTwisted =
     [piece 0 (- 1, - 1, - 1) (- 1, - 1, - 1) 0 0 0 1,
      piece 1 (- 1, - 1, 0) (- 1, - 1, 0) 0 0 0 1,
      piece 2 (- 1, - 1, 1) (- 1, - 1, 1) 0 0 0 1,
      piece 3 (- 1, 0, - 1) (- 1, 0, - 1) 0 0 0 1,
      piece 4 (- 1, 0, 0) (- 1, 0, 0) 0 0 0 1,
      piece 5 (- 1, 0, 1) (- 1, 0, 1) 0 0 0 1,
      piece 6 (- 1, 1, - 1) (1, - 1, - 1) (- (1 / 2)) (- (1 / 2)) (1 / 2) (1 / 2),
      piece 7 (- 1, 1, 0) (0, 1, - 1) 0 (- (sqrt 2 / 2)) 0 (sqrt 2 / 2),
      piece 8 (- 1, 1, 1) (- 1, 1, - 1) 0 (- (sqrt 2 / 2)) 0 (sqrt 2 / 2),
      piece 9 (0, - 1, - 1) (0, - 1, - 1) 0 0 0 1,
      piece 10 (0, - 1, 0) (0, - 1, 0) 0 0 0 1,
      piece 11 (0, - 1, 1) (0, - 1, 1) 0 0 0 1,
      piece 12 (0, 0, - 1) (0, 0, - 1) 0 0 0 1,
      piece 13 (0, 0, 0) (0, 0, 0) 0 0 0 1,
      piece 14 (0, 0, 1) (0, 0, 1) 0 0 0 1,
      piece 15 (0, 1, - 1) (1, 0, - 1) (- (1 / 2)) (- (1 / 2)) (1 / 2) (1 / 2),
      piece 16 (0, 1, 0) (0, 1, 0) 0 (- (sqrt 2 / 2)) 0 (sqrt 2 / 2),
      piece 17 (0, 1, 1) (- 1, 1, 0) 0 (- (sqrt 2 / 2)) 0 (sqrt 2 / 2),
      piece 18 (1, - 1, - 1) (1, - 1, 1) (- (sqrt 2 / 2)) 0 0 (sqrt 2 / 2),
      piece 19 (1, - 1, 0) (1, 0, 1) (- (sqrt 2 / 2)) 0 0 (sqrt 2 / 2),
      piece 20 (1, - 1, 1) (1, 1, 1) (- (sqrt 2 / 2)) 0 0 (sqrt 2 / 2),
      piece 21 (1, 0, - 1) (1, - 1, 0) (- (sqrt 2 / 2)) 0 0 (sqrt 2 / 2),
      piece 22 (1, 0, 0) (1, 0, 0) (- (sqrt 2 / 2)) 0 0 (sqrt 2 / 2),
      piece 23 (1, 0, 1) (1, 1, 0) (- (sqrt 2 / 2)) 0 0 (sqrt 2 / 2),
      piece 24 (1, 1, - 1) (1, 1, - 1) (- (1 / 2)) (- (1 / 2)) (1 / 2) (1 / 2),
      piece 25 (1, 1, 0) (0, 1, 1) 0 (- (sqrt 2 / 2)) 0 (sqrt 2 / 2),
      piece 26 (1, 1, 1) (- 1, 1, 1) 0 (- (sqrt 2 / 2)) 0 (sqrt 2 / 2)]"
  by (simp add: snapshotTwisted_def applyMoves_def init_eq move_eval)

subsection \<open>A snapshot whose top-layer pieces show their top stickers sideways\<close>

lemma snapshotSideways_eq:
  "snapshotSideways =
     [piece 0 (- 1, - 1, - 1) (- 1, 1, 1) (1 / 2) (1 / 2) (- (1 / 2)) (1 / 2),
      piece 1 (- 1, - 1, 0) (1, 0, - 1) (1 / 2) (- (1 / 2)) (1 / 2) (1 / 2),
      piece 2 (- 1, - 1, 1) (1, 1, 1) (- (1 / 2)) (1 / 2) (1 / 2) (1 / 2),
      piece 3 (- 1, 0, - 1) (0, - 1, 1) (sqrt 2 / 2) (sqrt 2 / 2) 0 0,
      piece 4 (- 1, 0, 0) (0, 0, - 1) (1 / 2) (- (1 / 2)) (1 / 2) (1 / 2),
      piece 5 (- 1, 0, 1) (0, 1, - 1) (sqrt 2 / 2) (- (sqrt 2 / 2)) 0 0,
      piece 6 (- 1, 1, - 1) (1, - 1, - 1) (- (1 / 2)) (- (1 / 2)) (- (1 / 2)) (1 / 2),
      piece 7 (- 1, 1, 0) (- 1, 0, - 1) (1 / 2) (- (1 / 2)) (1 / 2) (1 / 2),
      piece 8 (- 1, 1, 1) (- 1, - 1, - 1) (1 / 2) (- (1 / 2)) (1 / 2) (1 / 2),
      piece 9 (0, - 1, - 1) (- 1, 1, 0) (1 / 2) (1 / 2) (- (1 / 2)) (1 / 2),
      piece 10 (0, - 1, 0) (0, 1, 0) 1 0 0 0,
      piece 11 (0, - 1, 1) (1, 1, 0) (- (1 / 2)) (1 / 2) (1 / 2) (1 / 2),
      piece 12 (0, 0, - 1) (- 1, 0, 0) (1 / 2) (1 / 2) (1 / 2) (1 / 2),
      piece 13 (0, 0, 0) (0, 0, 0) (sqrt 2 / 2) 0 (sqrt 2 / 2) 0,
      piece 14 (0, 0, 1) (1, 0, 0) (1 / 2) (- (1 / 2)) (1 / 2) (- (1 / 2)),
      piece 15 (0, 1, - 1) (1, - 1, 0) (- (1 / 2)) (- (1 / 2)) (- (1 / 2)) (1 / 2),
      piece 16 (0, 1, 0) (0, - 1, 0) 1 0 0 0,
      piece 17 (0, 1, 1) (- 1, - 1, 0) (1 / 2) (- (1 / 2)) (1 / 2) (1 / 2),
      piece 18 (1, - 1, - 1) (- 1, 1, - 1) (1 / 2) (1 / 2) (- (1 / 2)) (1 / 2),
      piece 19 (1, - 1, 0) (- 1, 0, 1) (- (1 / 2)) (- (1 / 2)) (- (1 / 2)) (1 / 2),
      piece 20 (1, - 1, 1) (1, 1, - 1) (- (1 / 2)) (1 / 2) (1 / 2) (1 / 2),
      piece 21 (1, 0, - 1) (0, 1, 1) (sqrt 2 / 2) (sqrt 2 / 2) 0 0,
      piece 22 (1, 0, 0) (0, 0, 1) (- (1 / 2)) (- (1 / 2)) (- (1 / 2)) (1 / 2),
      piece 23 (1, 0, 1) (0, - 1, - 1) (sqrt 2 / 2) (- (sqrt 2 / 2)) 0 0,
      piece 24 (1, 1, - 1) (1, - 1, 1) (- (1 / 2)) (- (1 / 2)) (- (1 / 2)) (1 / 2),
      piece 25 (1, 1, 0) (1, 0, 1) (- (1 / 2)) (- (1 / 2)) (- (1 / 2)) (1 / 2),
      piece 26 (1, 1, 1) (- 1, - 1, 1) (1 / 2) (- (1 / 2)) (1 / 2) (1 / 2)]"
  by (simp add: snapshotSideways_def applyMoves_def init_eq move_eval)

lemma side_centers: "filter isCenter snapshotSideways = map ((!) snapshotSideways) [4, 10, 12, 14, 16, 22]"
  by (simp add: snapshotSideways_eq class_eval)

lemma side_edges: "filter isEdge snapshotSideways = map ((!) snapshotSideways) [1, 3, 5, 7, 9, 11, 15, 17, 19, 21, 23, 25]"
  by (simp add: snapshotSideways_eq class_eval)

lemma side_corners: "filter isCorner snapshotSideways = map ((!) snapshotSideways) [0, 2, 6, 8, 18, 20, 24, 26]"
  by (simp add: snapshotSideways_eq class_eval)

lemma side_top10: "findTopCenter snapshotSideways (snapshotSideways ! 10) = Some (snapshotSideways ! 16)"
  unfolding findTopCenter_def side_centers by (simp add: snapshotSideways_eq piece_sel)

lemma side_topPieces16: "topPiecesOf snapshotSideways (snapshotSideways ! 16) = map ((!) snapshotSideways) [7, 15, 17, 25, 6, 8, 24, 26]"
  unfolding topPiecesOf_def side_edges side_corners by (simp add: snapshotSideways_eq inTopLayer_def sameComponent_def componentAt_def piece_sel)

lemma side_oll16: "\<not> isOLLSolved snapshotSideways (snapshotSideways ! 16)"
  unfolding isOLLSolved_def side_topPieces16 by (simp add: snapshotSideways_eq oriented_eval)

lemma side_faces16:
  "faces (topPiecesOf snapshotSideways (snapshotSideways ! 16)) (snapshotSideways ! 16) =
    [\<lparr>dir = (1, 0, 0), c1 = Some ''U'', c2 = Some ''U'', e = Some ''U'', isHeadlights = True, isBar = True\<rparr>,
     \<lparr>dir = (- 1, 0, 0), c1 = Some ''U'', c2 = Some ''U'', e = Some ''U'', isHeadlights = True, isBar = True\<rparr>,
     \<lparr>dir = (0, 0, 1), c1 = Some ''R'', c2 = Some ''R'', e = Some ''R'', isHeadlights = True, isBar = True\<rparr>,
     \<lparr>dir = (0, 0, - 1), c1 = Some ''L'', c2 = Some ''L'', e = Some ''L'', isHeadlights = True, isBar = True\<rparr>]"
  unfolding faces_def side_topPieces16 by (simp add: snapshotSideways_eq face_eval)

lemma side_pll16: "identifyPLL (topPiecesOf snapshotSideways (snapshotSideways ! 16)) (snapshotSideways ! 16) = ''Unknown''"
  unfolding identifyPLL_def distinctColors_def solvedBarsCount_def headlightsCount_def side_faces16 by (simp add: Let_def)

subsection \<open>The snapshot after a quarter turn of the top layer\<close>

lemma snapshotTopTurned_eq:
  "snapshotTopTurned =
     [piece 0 (- 1, - 1, - 1) (- 1, - 1, - 1) 0 0 0 1,
      piece 1 (- 1, - 1, 0) (- 1, - 1, 0) 0 0 0 1,
      piece 2 (- 1, - 1, 1) (- 1, - 1, 1) 0 0 0 1,
      piece 3 (- 1, 0, - 1) (- 1, 0, - 1) 0 0 0 1,
      piece 4 (- 1, 0, 0) (- 1, 0, 0) 0 0 0 1,
      piece 5 (- 1, 0, 1) (- 1, 0, 1) 0 0 0 1,
      piece 6 (- 1, 1, - 1) (1, 1, - 1) 0 (- (sqrt 2 / 2)) 0 (sqrt 2 / 2),
      piece 7 (- 1, 1, 0) (0, 1, - 1) 0 (- (sqrt 2 / 2)) 0 (sqrt 2 / 2),
      piece 8 (- 1, 1, 1) (- 1, 1, - 1) 0 (- (sqrt 2 / 2)) 0 (sqrt 2 / 2),
      piece 9 (0, - 1, - 1) (0, - 1, - 1) 0 0 0 1,
      piece 10 (0, - 1, 0) (0, - 1, 0) 0 0 0 1,
      piece 11 (0, - 1, 1) (0, - 1, 1) 0 0 0 1,
      piece 12 (0, 0, - 1) (0, 0, - 1) 0 0 0 1,
      piece 13 (0, 0, 0) (0, 0, 0) 0 0 0 1,
      piece 14 (0, 0, 1) (0, 0, 1) 0 0 0 1,
      piece 15 (0, 1, - 1) (1, 1, 0) 0 (- (sqrt 2 / 2)) 0 (sqrt 2 / 2),
      piece 16 (0, 1, 0) (0, 1, 0) 0 (- (sqrt 2 / 2)) 0 (sqrt 2 / 2),
      piece 17 (0, 1, 1) (- 1, 1, 0) 0 (- (sqrt 2 / 2)) 0 (sqrt 2 / 2),
      piece 18 (1, - 1, - 1) (1, - 1, - 1) 0 0 0 1,
      piece 19 (1, - 1, 0) (1, - 1, 0) 0 0 0 1,
      piece 20 (1, - 1, 1) (1, - 1, 1) 0 0 0 1,
      piece 21 (1, 0, - 1) (1, 0, - 1) 0 0 0 1,
      piece 22 (1, 0, 0) (1, 0, 0) 0 0 0 1,
      piece 23 (1, 0, 1) (1, 0, 1) 0 0 0 1,
      piece 24 (1, 1, - 1) (1, 1, 1) 0 (- (sqrt 2 / 2)) 0 (sqrt 2 / 2),
      piece 25 (1, 1, 0) (0, 1, 1) 0 (- (sqrt 2 / 2)) 0 (sqrt 2 / 2),
      piece 26 (1, 1, 1) (- 1, 1, 1) 0 (- (sqrt 2 / 2)) 0 (sqrt 2 / 2)]"
  by (simp add: snapshotTopTurned_def applyMoves_def init_eq move_eval)

lemma topturn_centers: "filter isCenter snapshotTopTurned = map ((!) snapshotTopTurned) [4, 10, 12, 14, 16, 22]"
  by (simp add: snapshotTopTurned_eq class_eval)

lemma topturn_edges: "filter isEdge snapshotTopTurned = map ((!) snapshotTopTurned) [1, 3, 5, 7, 9, 11, 15, 17, 19, 21, 23, 25]"
  by (simp add: snapshotTopTurned_eq class_eval)

lemma topturn_corners: "filter isCorner snapshotTopTurned = map ((!) snapshotTopTurned) [0, 2, 6, 8, 18, 20, 24, 26]"
  by (simp add: snapshotTopTurned_eq class_eval)

lemma topturn_crossEdges10: "crossEdges snapshotTopTurned (snapshotTopTurned ! 10) = map ((!) snapshotTopTurned) [1, 9, 11, 19]"
  unfolding crossEdges_def topturn_edges by (simp add: snapshotTopTurned_eq vec_eval piece_sel)

lemma topturn_cross10: "isCrossSolved snapshotTopTurned (snapshotTopTurned ! 10)"
  unfolding isCrossSolved_def topturn_crossEdges10 by (simp add: snapshotTopTurned_eq placed_eval)

lemma topturn_baseCorners10: "baseCorners snapshotTopTurned (snapshotTopTurned ! 10) = map ((!) snapshotTopTurned) [0, 2, 18, 20]"
  unfolding baseCorners_def topturn_corners by (simp add: snapshotTopTurned_eq sameComponent_def componentAt_def baseAxisIndex_def piece_sel)

lemma topturn_f2l10: "f2lCounts snapshotTopTurned (snapshotTopTurned ! 10) = (4, 4, 4)"
  unfolding f2lCounts_def topturn_baseCorners10 by (simp add: snapshotTopTurned_eq pairedEdge_def baseAxisIndex_def placed_eval class_eval)

lemma topturn_top10: "findTopCenter snapshotTopTurned (snapshotTopTurned ! 10) = Some (snapshotTopTurned ! 16)"
  unfolding findTopCenter_def topturn_centers by (simp add: snapshotTopTurned_eq piece_sel)

lemma topturn_topPieces16: "topPiecesOf snapshotTopTurned (snapshotTopTurned ! 16) = map ((!) snapshotTopTurned) [7, 15, 17, 25, 6, 8, 24, 26]"
  unfolding topPiecesOf_def topturn_edges topturn_corners by (simp add: snapshotTopTurned_eq inTopLayer_def sameComponent_def componentAt_def piece_sel)

lemma topturn_oll16: "isOLLSolved snapshotTopTurned (snapshotTopTurned ! 16)"
  unfolding isOLLSolved_def topturn_topPieces16 by (simp add: snapshotTopTurned_eq oriented_eval)

lemma topturn_faces16:
  "faces (topPiecesOf snapshotTopTurned (snapshotTopTurned ! 16)) (snapshotTopTurned ! 16) =
    [\<lparr>dir = (1, 0, 0), c1 = Some ''B'', c2 = Some ''B'', e = Some ''B'', isHeadlights = True, isBar = True\<rparr>,
     \<lparr>dir = (- 1, 0, 0), c1 = Some ''F'', c2 = Some ''F'', e = Some ''F'', isHeadlights = True, isBar = True\<rparr>,
     \<lparr>dir = (0, 0, 1), c1 = Some ''R'', c2 = Some ''R'', e = Some ''R'', isHeadlights = True, isBar = True\<rparr>,
     \<lparr>dir = (0, 0, - 1), c1 = Some ''L'', c2 = Some ''L'', e = Some ''L'', isHeadlights = True, isBar = True\<rparr>]"
  unfolding faces_def topturn_topPieces16 by (simp add: snapshotTopTurned_eq face_eval)

lemma topturn_pll16: "identifyPLL (topPiecesOf snapshotTopTurned (snapshotTopTurned ! 16)) (snapshotTopTurned ! 16) = ''Solved''"
  unfolding identifyPLL_def distinctColors_def solvedBarsCount_def headlightsCount_def topturn_faces16 by (simp add: Let_def)

lemma topturn_counts16:
  "headlightsCount (topPiecesOf snapshotTopTurned (snapshotTopTurned ! 16)) (snapshotTopTurned ! 16) = 4"
  "solvedBarsCount (topPiecesOf snapshotTopTurned (snapshotTopTurned ! 16)) (snapshotTopTurned ! 16) = 4"
  unfolding headlightsCount_def solvedBarsCount_def topturn_faces16 by simp_all

section \<open>The claims on the phase engine\<close>

lemma solved_stays: "bestPhase b = Solved \<Longrightarrow> candidateStep cubies b c = b"
proof (cases "evalCandidate cubies c")
  case None
  then show ?thesis by (simp add: candidateStep_def)
next
  case (Some cand)
  assume "bestPhase b = Solved"
  then show ?thesis using Some
    by (cases "currentPhase cand") (simp_all add: candidateStep_def updateBest_def)
qed

lemma solved_fold: "bestPhase b = Solved \<Longrightarrow> foldl (candidateStep cubies) b cs = b"
  by (induction cs) (simp_all add: solved_stays)

lemma init_search:
  "searchBest getInitialState =
     \<lparr>bestPhase = Solved, bestBase = Some (getInitialState ! 4), bestF2LTag = None,
      bestMissingCount = None, bestOLLCase = None, bestPLLCase = None\<rparr>"
proof -
  have "candidateStep getInitialState initialBest (getInitialState ! 4) =
     \<lparr>bestPhase = Solved, bestBase = Some (getInitialState ! 4), bestF2LTag = None,
      bestMissingCount = None, bestOLLCase = None, bestPLLCase = None\<rparr>"
    by (simp add: candidateStep_def init_cand4 updateBest_def initialBest_def)
  then show ?thesis
    unfolding searchBest_def init_centers by (simp add: solved_stays)
qed

text \<open>
  C1. The initial snapshot has 27 pieces, each at its initial position with the identity
  orientation, and \<open>analyzeCube\<close> returns phase \<open>Solved\<close> with \<open>isSolved\<close> true for it. The
  winning candidate is the first centre (piece 4, the left face): its cross is solved,
  its four pairs are solved, the pieces of the opposite layer are oriented and the PLL
  classifier returns the sentinel \<open>Solved\<close>. Every one of the six centres, taken as the
  base, evaluates to phase \<open>Solved\<close> as well.
\<close>

theorem solved_state_recognized:
  "length getInitialState = 27 \<and>
   list_all (\<lambda>c. position c = initialPosition c \<and> quaternion c = identityQ) getInitialState \<and>
   analyzeCube getInitialState =
     \<lparr>phase = Solved, baseColor = Some ''#ff5800'', isSolved = True, f2lTag = None,
      missingCount = None, ollCase = None, pllCase = None\<rparr> \<and>
   isCrossSolved getInitialState (getInitialState ! 4) \<and>
   solvedPairs getInitialState (getInitialState ! 4) = 4 \<and>
   findTopCenter getInitialState (getInitialState ! 4) = Some (getInitialState ! 22) \<and>
   isOLLSolved getInitialState (getInitialState ! 22) \<and>
   identifyPLL (topPiecesOf getInitialState (getInitialState ! 22)) (getInitialState ! 22)
     = ''Solved'' \<and>
   list_all
     (\<lambda>c. evalCandidate getInitialState c =
        Some \<lparr>currentPhase = Solved, candF2lTag = None, candMissingCount = None,
              ollCaseResult = None, pllCaseResult = None\<rparr>)
     (filter isCenter getInitialState)"
proof (intro conjI)
  show "length getInitialState = 27" by (simp add: init_eq)
  show "list_all (\<lambda>c. position c = initialPosition c \<and> quaternion c = identityQ)
     getInitialState"
    by (simp add: init_eq piece_sel identityQ_def)
  show "analyzeCube getInitialState =
     \<lparr>phase = Solved, baseColor = Some ''#ff5800'', isSolved = True, f2lTag = None,
      missingCount = None, ollCase = None, pllCase = None\<rparr>"
    unfolding analyzeCube_def init_search by (simp add: init_eq piece_sel)
  show "isCrossSolved getInitialState (getInitialState ! 4)" by (rule init_cross4)
  show "solvedPairs getInitialState (getInitialState ! 4) = 4"
    by (simp add: solvedPairs_def init_f2l4)
  show "findTopCenter getInitialState (getInitialState ! 4) = Some (getInitialState ! 22)"
    by (rule init_top4)
  show "isOLLSolved getInitialState (getInitialState ! 22)" by (rule init_oll22)
  show "identifyPLL (topPiecesOf getInitialState (getInitialState ! 22)) (getInitialState ! 22)
     = ''Solved''"
    by (rule init_pll22)
  show "list_all
     (\<lambda>c. evalCandidate getInitialState c =
        Some \<lparr>currentPhase = Solved, candF2lTag = None, candMissingCount = None,
              ollCaseResult = None, pllCaseResult = None\<rparr>)
     (filter isCenter getInitialState)"
    unfolding init_centers
    by (simp add: init_cand4 init_cand10 init_cand12 init_cand14 init_cand16 init_cand22)
qed

text \<open>
  C5. When the cross of a candidate is solved and fewer than four of its pairs are, the
  iteration ends in phase \<open>F2L\<close> with this table: with two or more solved pairs there is
  no tag and \<open>4 - solvedPairs\<close> are missing; else with four solved corners the tag is
  \<open>Second Layer\<close> and \<open>4 - solvedEdges\<close> are missing; otherwise the tag is
  \<open>First Layer\<close> and \<open>4 - solvedCorners\<close> are missing.
\<close>

theorem f2l_branch_table:
  "isCrossSolved cubies center \<Longrightarrow> solvedPairs cubies center < 4 \<Longrightarrow>
   evalCandidate cubies center =
     Some \<lparr>currentPhase = F2L,
           candF2lTag =
             (if solvedPairs cubies center \<ge> 2 then None
              else if solvedCorners cubies center = 4 then Some SecondLayer
              else Some FirstLayer),
           candMissingCount =
             Some (if solvedPairs cubies center \<ge> 2 then 4 - solvedPairs cubies center
                   else if solvedCorners cubies center = 4 then 4 - solvedEdges cubies center
                   else 4 - solvedCorners cubies center),
           ollCaseResult = None, pllCaseResult = None\<rparr>"
  by (simp add: evalCandidate_def)

theorem f2l_branch_table_witness:
  "isCrossSolved snapshotF2L (snapshotF2L ! 10) \<and>
   solvedPairs snapshotF2L (snapshotF2L ! 10) < 4 \<and>
   evalCandidate snapshotF2L (snapshotF2L ! 10) =
     Some \<lparr>currentPhase = F2L, candF2lTag = Some SecondLayer, candMissingCount = Some 4,
           ollCaseResult = None, pllCaseResult = None\<rparr>"
proof -
  have a: "isCrossSolved snapshotF2L (snapshotF2L ! 10)" by (rule f2l_cross10)
  have b: "solvedPairs snapshotF2L (snapshotF2L ! 10) < 4"
    by (simp add: solvedPairs_def f2l_f2l10)
  show ?thesis
    using f2l_branch_table [OF a b] a b
    by (simp add: solvedPairs_def solvedCorners_def solvedEdges_def f2l_f2l10)
qed

text \<open>
  C6. When no centre has all of its cross edges correctly placed, \<open>analyzeCube\<close> returns
  phase \<open>Cross\<close> with no base colour and \<open>isSolved\<close> false; and for no snapshot does it
  return phase \<open>Scrambled\<close>.
\<close>

lemma foldl_skip:
  "\<forall>c \<in> set cs. evalCandidate cubies c = None \<Longrightarrow> foldl (candidateStep cubies) b cs = b"
  by (induction cs arbitrary: b) (simp_all add: candidateStep_def)

theorem no_cross_fallback:
  "((\<forall>center \<in> set (filter isCenter cubies). \<not> isCrossSolved cubies center) \<longrightarrow>
      analyzeCube cubies =
        \<lparr>phase = Cross, baseColor = None, isSolved = False, f2lTag = None,
         missingCount = None, ollCase = None, pllCase = None\<rparr>) \<and>
   phase (analyzeCube cubies) \<noteq> Scrambled"
proof (intro conjI impI)
  assume A: "\<forall>center \<in> set (filter isCenter cubies). \<not> isCrossSolved cubies center"
  then have "\<forall>c \<in> set (filter isCenter cubies). evalCandidate cubies c = None"
    by (simp add: evalCandidate_def)
  then have "searchBest cubies = initialBest"
    unfolding searchBest_def by (rule foldl_skip)
  then show "analyzeCube cubies =
        \<lparr>phase = Cross, baseColor = None, isSolved = False, f2lTag = None,
         missingCount = None, ollCase = None, pllCase = None\<rparr>"
    by (simp add: analyzeCube_def initialBest_def)
next
  show "phase (analyzeCube cubies) \<noteq> Scrambled"
    by (simp add: analyzeCube_def Let_def)
qed

theorem no_cross_fallback_witness:
  "list_all (\<lambda>center. \<not> isCrossSolved snapshotNoCross center)
     (filter isCenter snapshotNoCross) \<and>
   analyzeCube snapshotNoCross =
     \<lparr>phase = Cross, baseColor = None, isSolved = False, f2lTag = None,
      missingCount = None, ollCase = None, pllCase = None\<rparr>"
proof -
  have a: "list_all (\<lambda>center. \<not> isCrossSolved snapshotNoCross center)
     (filter isCenter snapshotNoCross)"
    unfolding nocross_centers
    by (simp add: nocross_cross4 nocross_cross10 nocross_cross12 nocross_cross14
        nocross_cross16 nocross_cross22)
  then have "\<forall>center \<in> set (filter isCenter snapshotNoCross).
     \<not> isCrossSolved snapshotNoCross center"
    by (simp only: list_all_iff)
  with no_cross_fallback [of snapshotNoCross] a show ?thesis by blast
qed

theorem applyMove_frame_witness:
  "0 < length getInitialState \<and>
   \<not> inSlice \<lparr>axis = X, slice = [1], direction = 1\<rparr> (getInitialState ! 0) \<and>
   applyMove getInitialState \<lparr>axis = X, slice = [1], direction = 1\<rparr> ! 0 = getInitialState ! 0 \<and>
   id_num (applyMove getInitialState \<lparr>axis = X, slice = [1], direction = 1\<rparr> ! 26) = 26 \<and>
   applyMove getInitialState \<lparr>axis = X, slice = [], direction = 1\<rparr> = getInitialState"
proof -
  have a: "0 < length getInitialState" "26 < length getInitialState" by (simp_all add: init_eq)
  have b: "\<not> inSlice \<lparr>axis = X, slice = [1], direction = 1\<rparr> (getInitialState ! 0)"
    by (simp add: init_eq inSlice_def piece_sel)
  have c: "id_num (getInitialState ! 26) = 26" by (simp add: init_eq piece_sel)
  show ?thesis
    using applyMove_frame [of getInitialState "\<lparr>axis = X, slice = [1], direction = 1\<rparr>"]
      applyMove_frame [of getInitialState "\<lparr>axis = X, slice = [], direction = 1\<rparr>"] a b c
    by simp
qed

text \<open>
  C8, as the program has it. In the edge stage of the OLL classifier the oriented edges
  are the top-layer edges whose up sticker is parallel to the centre's. With none the
  result is \<open>Dot\<close>; with exactly two it is \<open>L-Shape\<close> when the current positions of the two
  are less than 1.8 apart and \<open>Line\<close> otherwise; with one or three it is \<open>Unknown\<close>. The
  distance is taken between the current positions of the two edges, not between their
  initial positions.
\<close>

theorem oll_edge_stage:
  "(length (orientedEdges topPieces topCenter) = 0 \<longrightarrow>
      identify2LookOLL topPieces topCenter = ''Dot'') \<and>
   (length (orientedEdges topPieces topCenter) = 2 \<longrightarrow>
      identify2LookOLL topPieces topCenter =
        (if distanceTo (position (orientedEdges topPieces topCenter ! 0))
              (position (orientedEdges topPieces topCenter ! 1)) < 1.8
         then ''L-Shape'' else ''Line'')) \<and>
   (length (orientedEdges topPieces topCenter) = 1 \<or>
    length (orientedEdges topPieces topCenter) = 3 \<longrightarrow>
      identify2LookOLL topPieces topCenter = ''Unknown'')"
  by (auto simp add: identify2LookOLL_def Let_def)

theorem oll_edge_stage_witness:
  "length (orientedEdges (topPiecesOf snapshotLine (snapshotLine ! 22)) (snapshotLine ! 22)) = 2 \<and>
   identify2LookOLL (topPiecesOf snapshotLine (snapshotLine ! 22)) (snapshotLine ! 22) =
     (if distanceTo (position (snapshotLine ! 19)) (position (snapshotLine ! 21)) < 1.8
      then ''L-Shape'' else ''Line'')"
  using oll_edge_stage [of "topPiecesOf snapshotLine (snapshotLine ! 22)" "snapshotLine ! 22"]
  by (simp add: line_orientedEdges22)

text \<open>
  The snapshot reached by U R F R' F' U' refutes C8 as it is stated. With the left
  centre as the base the classifier is run on the layer of the right centre (piece 22);
  exactly two of its edges are oriented, pieces 19 and 21. Their initial positions
  \<open>(1, -1, 0)\<close> and \<open>(1, 0, -1)\<close> are adjacent (less than 1.8 apart), their current
  positions \<open>(1, 0, 1)\<close> and \<open>(1, 0, -1)\<close> are opposite, and the result is \<open>Line\<close>.
\<close>

theorem oll_edge_stage_counterexample:
  "orientedEdges (topPiecesOf snapshotLine (snapshotLine ! 22)) (snapshotLine ! 22) =
     [snapshotLine ! 19, snapshotLine ! 21] \<and>
   initialPosition (snapshotLine ! 19) = (1, - 1, 0) \<and>
   initialPosition (snapshotLine ! 21) = (1, 0, - 1) \<and>
   position (snapshotLine ! 19) = (1, 0, 1) \<and>
   position (snapshotLine ! 21) = (1, 0, - 1) \<and>
   distanceTo (initialPosition (snapshotLine ! 19)) (initialPosition (snapshotLine ! 21)) < 1.8 \<and>
   \<not> distanceTo (position (snapshotLine ! 19)) (position (snapshotLine ! 21)) < 1.8 \<and>
   identify2LookOLL (topPiecesOf snapshotLine (snapshotLine ! 22)) (snapshotLine ! 22) = ''Line'' \<and>
   analyzeCube snapshotLine =
     \<lparr>phase = OLL, baseColor = Some ''#ff5800'', isSolved = False, f2lTag = None,
      missingCount = None, ollCase = Some ''Line'', pllCase = None\<rparr>"
proof (intro conjI)
  show "orientedEdges (topPiecesOf snapshotLine (snapshotLine ! 22)) (snapshotLine ! 22) =
     [snapshotLine ! 19, snapshotLine ! 21]"
    by (simp add: line_orientedEdges22)
  show "identify2LookOLL (topPiecesOf snapshotLine (snapshotLine ! 22)) (snapshotLine ! 22) = ''Line''"
    by (rule line_oll_case)
  show "analyzeCube snapshotLine =
     \<lparr>phase = OLL, baseColor = Some ''#ff5800'', isSolved = False, f2lTag = None,
      missingCount = None, ollCase = Some ''Line'', pllCase = None\<rparr>"
    unfolding analyzeCube_def line_search by (simp add: snapshotLine_eq piece_sel)
qed (simp_all add: snapshotLine_eq piece_sel vec_eval)

section \<open>Quaternions as rotations\<close>

lemma normSq_mult: "normSq (multiplyQuaternions a b) = normSq a * normSq b"
  by (simp add: normSq_def multiplyQuaternions_def algebra_simps)

lemma unitQ_mult: "unitQ a \<Longrightarrow> unitQ b \<Longrightarrow> unitQ (multiplyQuaternions a b)"
  by (simp add: unitQ_def normSq_mult)

lemma apply_conj: "unitQ q \<Longrightarrow> applyQuaternion v q = conjugateBy v q"
proof -
  assume u: "unitQ q"
  obtain x y z where v: "v = (x, y, z)" by (cases v) auto
  have w: "qw q * qw q = 1 - qx q * qx q - qy q * qy q - qz q * qz q"
    using u by (simp add: unitQ_def normSq_def)
  show ?thesis
    unfolding v by (simp add: Let_def algebra_simps w)
qed

lemma conj_mult: "conjugateBy v (multiplyQuaternions a b) = conjugateBy (conjugateBy v b) a"
proof -
  obtain x y z where v: "v = (x, y, z)" by (cases v) auto
  show ?thesis
    unfolding v by (simp add: Let_def multiplyQuaternions_def algebra_simps)
qed

lemma apply_mult:
  "unitQ a \<Longrightarrow> unitQ b \<Longrightarrow>
   applyQuaternion v (multiplyQuaternions a b) = applyQuaternion (applyQuaternion v b) a"
  by (simp add: apply_conj unitQ_mult conj_mult)

lemma mult_assoc:
  "multiplyQuaternions a (multiplyQuaternions b c) =
   multiplyQuaternions (multiplyQuaternions a b) c"
  by (simp add: multiplyQuaternions_def algebra_simps)

lemma qnormalize_unit: "unitQ q \<Longrightarrow> qnormalize q = q"
proof -
  assume "unitQ q"
  then have "qlength q = 1" by (simp add: unitQ_def normSq_def qlength_def)
  then show ?thesis by (simp add: qnormalize_def)
qed

lemma unitQ_identity: "unitQ identityQ"
  by (simp add: unitQ_def normSq_def identityQ_def)

lemma unitQ_invert: "unitQ q \<Longrightarrow> unitQ (invert q)"
  by (simp add: unitQ_def normSq_def invert_def)

lemma apply_identity: "applyQuaternion v identityQ = v"
  by (cases v) (simp add: identityQ_def)

lemma mult_invert: "unitQ q \<Longrightarrow> multiplyQuaternions q (invert q) = identityQ"
  by (simp add: unitQ_def normSq_def multiplyQuaternions_def invert_def identityQ_def
      algebra_simps)

lemma invert_mult: "unitQ q \<Longrightarrow> multiplyQuaternions (invert q) q = identityQ"
  by (simp add: unitQ_def normSq_def multiplyQuaternions_def invert_def identityQ_def
      algebra_simps)

lemma apply_invert_apply:
  "unitQ q \<Longrightarrow> applyQuaternion (applyQuaternion v (invert q)) q = v"
  using apply_mult [of q "invert q" v] by (simp add: unitQ_invert mult_invert apply_identity)

lemma apply_apply_invert:
  "unitQ q \<Longrightarrow> applyQuaternion (applyQuaternion v q) (invert q) = v"
  using apply_mult [of "invert q" q v] by (simp add: unitQ_invert invert_mult apply_identity)

subsection \<open>The quaternion of a move\<close>

lemma rotQuat_form:
  "rotQuat m =
     \<lparr>qx = (if axis m = X then sin (angleRad m / 2) else 0),
      qy = (if axis m = Y then sin (angleRad m / 2) else 0),
      qz = (if axis m = Z then sin (angleRad m / 2) else 0),
      qw = cos (angleRad m / 2)\<rparr>"
  by (simp add: rotQuat_def axisVec_def Let_def)

lemma unitQ_rotQuat: "unitQ (rotQuat m)"
proof -
  have "sin (angleRad m / 2) * sin (angleRad m / 2) + cos (angleRad m / 2) * cos (angleRad m / 2) = 1"
    using sin_cos_squared_add [of "angleRad m / 2"] by (simp add: power2_eq_square)
  then show ?thesis
    by (cases "axis m") (simp_all add: rotQuat_form unitQ_def normSq_def)
qed

lemma half_angle:
  fixes t :: real
  shows "cos t = 1 - 2 * (sin (t / 2) * sin (t / 2))"
    and "sin t = 2 * (sin (t / 2) * cos (t / 2))"
proof -
  have c: "cos (2 * (t / 2)) = 1 - 2 * (sin (t / 2))\<^sup>2" by (rule cos_double_sin)
  have s: "sin (2 * (t / 2)) = 2 * sin (t / 2) * cos (t / 2)" by (rule sin_double)
  show "cos t = 1 - 2 * (sin (t / 2) * sin (t / 2))"
    using c by (simp add: power2_eq_square)
  show "sin t = 2 * (sin (t / 2) * cos (t / 2))"
    using s by simp
qed

lemma apply_rotQuat:
  "applyQuaternion v (rotQuat m) = rightHandRotation (axis m) (angleRad m) v"
proof -
  obtain x y z where v: "v = (x, y, z)" by (cases v) auto
  show ?thesis
    unfolding v
    by (cases "axis m")
      (simp_all add: rotQuat_form rightHandRotation_def Let_def
        half_angle [of "angleRad m"] algebra_simps)
qed

subsection \<open>Positions under a move\<close>

lemma turn_lattice:
  assumes "p \<in> set lattice" and "d \<in> {- 2, - 1, 1, 2}"
  shows "turn ax d p \<in> set lattice"
proof -
  obtain x y z where p: "p = (x, y, z)" by (cases p) auto
  from assms(1) have c: "x \<in> {- 1, 0, 1}" "y \<in> {- 1, 0, 1}" "z \<in> {- 1, 0, 1}"
    unfolding p by (simp_all only: lattice_iff)
  then have n: "- x \<in> {- 1, 0, 1}" "- y \<in> {- 1, 0, 1}" "- z \<in> {- 1, 0, 1}" by auto
  from assms(2) consider "d = 1" | "d = - 1" | "d = 2" | "d = - 2" by auto
  then show ?thesis
  proof cases
    case 1 then show ?thesis using c n unfolding p by (cases ax) (simp_all add: lattice_iff)
  next
    case 2 then show ?thesis using c n unfolding p by (cases ax) (simp_all add: lattice_iff)
  next
    case 3 then show ?thesis using c n unfolding p by (cases ax) (simp_all add: lattice_iff)
  next
    case 4 then show ?thesis using c n unfolding p by (cases ax) (simp_all add: lattice_iff)
  qed
qed

lemma turn_back:
  assumes "d \<in> {- 2, - 1, 1, 2}"
  shows "turn ax (- d) (turn ax d p) = p"
proof -
  obtain x y z where p: "p = (x, y, z)" by (cases p) auto
  from assms consider "d = 1" | "d = - 1" | "d = 2" | "d = - 2" by auto
  then show ?thesis
    unfolding p by cases (cases ax; simp)+
qed

lemma turn_four:
  assumes "d \<in> {- 1, 1}"
  shows "turn ax d (turn ax d (turn ax d (turn ax d p))) = p"
proof -
  obtain x y z where p: "p = (x, y, z)" by (cases p) auto
  from assms consider "d = 1" | "d = - 1" by auto
  then show ?thesis
    unfolding p by cases (cases ax; simp)+
qed

lemma turn_axis_coordinate:
  "getComponent (turn ax d p) (axisIndex ax) = getComponent p (axisIndex ax)"
  by (cases p; cases ax) simp_all

lemma inSliceP_turn: "inSliceP m (turn (axis m) d p) = inSliceP m p"
  by (simp add: inSliceP_def turn_axis_coordinate)

lemma inSliceP_direction: "inSliceP (m\<lparr>direction := d\<rparr>) p = inSliceP m p"
  by (simp add: inSliceP_def split: option.split)

lemma posMap_lattice:
  "p \<in> set lattice \<Longrightarrow> direction m \<in> {- 2, - 1, 1, 2} \<Longrightarrow> posMap m p \<in> set lattice"
  by (simp add: posMap_def turn_lattice)

lemma posMap_back:
  assumes "direction m \<in> {- 2, - 1, 1, 2}"
  shows "posMap (m\<lparr>direction := - direction m\<rparr>) (posMap m p) = p"
proof (cases "inSliceP m p")
  case True
  then have "inSliceP (m\<lparr>direction := - direction m\<rparr>) (turn (axis m) (direction m) p)"
    by (simp add: inSliceP_direction inSliceP_turn)
  then show ?thesis
    using True assms by (simp add: posMap_def turn_back)
next
  case False
  then have "\<not> inSliceP (m\<lparr>direction := - direction m\<rparr>) p"
    by (simp add: inSliceP_direction)
  then show ?thesis using False by (simp add: posMap_def)
qed

lemma distinct_lattice: "distinct lattice"
  by (simp add: lattice_eq)

lemma posMap_permutes:
  assumes "direction m \<in> {- 2, - 1, 1, 2}"
  shows "mset (map (posMap m) lattice) = mset lattice"
proof -
  have undo: "\<And>p. posMap (m\<lparr>direction := - direction m\<rparr>) (posMap m p) = p"
    using assms by (rule posMap_back)
  have inj: "inj_on (posMap m) (set lattice)"
    by (rule inj_on_inverseI [where g = "posMap (m\<lparr>direction := - direction m\<rparr>)"])
      (rule undo)
  have sub: "posMap m ` set lattice \<subseteq> set lattice"
    using assms by (auto simp: posMap_lattice)
  have "card (posMap m ` set lattice) = card (set lattice)"
    using inj by (rule card_image)
  with sub have eq: "posMap m ` set lattice = set lattice"
    by (simp add: card_subset_eq)
  have d: "distinct (map (posMap m) lattice)"
    using inj distinct_lattice by (simp add: distinct_map)
  have s: "set (map (posMap m) lattice) = set lattice" using eq by simp
  show ?thesis
    using set_eq_iff_mset_eq_distinct [OF d distinct_lattice] s by blast
qed

lemma trig_turns:
  "cos (pi / 2 * 2) = - 1" "sin (pi / 2 * 2) = 0"
  "cos (pi / 2 * - 2) = - 1" "sin (pi / 2 * - 2) = 0"
  "cos (pi / 2 * - 1) = 0" "sin (pi / 2 * - 1) = - 1"
  by simp_all

lemma rotation_turn:
  assumes "d \<in> {- 2, - 1, 1, 2}"
  shows "rightHandRotation ax (pi / 2 * d) p = turn ax d p"
proof -
  obtain x y z where p: "p = (x, y, z)" by (cases p) auto
  from assms consider "d = 1" | "d = - 1" | "d = 2" | "d = - 2" by auto
  then show ?thesis
  proof cases
    case 1 then show ?thesis unfolding p by (cases ax) (simp_all add: rightHandRotation_def)
  next
    case 2 then show ?thesis unfolding p by (cases ax) (simp_all add: rightHandRotation_def)
  next
    case 3 then show ?thesis unfolding p by (cases ax) (simp_all add: rightHandRotation_def)
  next
    case 4 then show ?thesis unfolding p by (cases ax) (simp_all add: rightHandRotation_def)
  qed
qed

lemma roundVec_lattice: "p \<in> set lattice \<Longrightarrow> roundVec p = p"
proof -
  assume a: "p \<in> set lattice"
  obtain x y z where p: "p = (x, y, z)" by (cases p) auto
  from a have "x \<in> {- 1, 0, 1}" "y \<in> {- 1, 0, 1}" "z \<in> {- 1, 0, 1}"
    unfolding p by (simp_all only: lattice_iff)
  then show ?thesis unfolding p using roundPos_unit by simp
qed

lemma commit_position:
  assumes "position c \<in> set lattice" and "direction m \<in> {- 2, - 1, 1, 2}"
  shows "position (commitCubie m c) = posMap m (position c)"
proof (cases "inSlice m c")
  case False
  then show ?thesis by (simp add: commitCubie_def posMap_def inSliceP_def inSlice_def)
next
  case True
  have t: "applyAxisAngle (position c) (axisVec m) (angleRad m) =
      turn (axis m) (direction m) (position c)"
    using apply_rotQuat [of "position c" m] rotation_turn [OF assms(2)]
    by (simp add: applyAxisAngle_def rotQuat_def angleRad_def)
  have l: "turn (axis m) (direction m) (position c) \<in> set lattice"
    using assms by (rule turn_lattice)
  obtain x y z where q: "turn (axis m) (direction m) (position c) = (x, y, z)"
    by (cases "turn (axis m) (direction m) (position c)") auto
  have "roundVec (x, y, z) = (x, y, z)" using l q roundVec_lattice by metis
  then show ?thesis
    using True t q by (simp add: commitCubie_def posMap_def inSliceP_def inSlice_def Let_def)
qed

subsection \<open>Rotations of the cube\<close>

lemma isAxisVec_iff:
  "isAxisVec v \<longleftrightarrow>
     v = (1, 0, 0) \<or> v = (- 1, 0, 0) \<or> v = (0, 1, 0) \<or> v = (0, - 1, 0) \<or>
     v = (0, 0, 1) \<or> v = (0, 0, - 1)"
  by (simp add: isAxisVec_def candidates_def)

lemma isAxisVec_negate: "isAxisVec v \<Longrightarrow> isAxisVec (negate v)"
  by (auto simp: isAxisVec_iff)

lemma turn_axis:
  assumes "isAxisVec v" and "d \<in> {- 2, - 1, 1, 2}"
  shows "isAxisVec (turn ax d v)"
proof -
  from assms(2) consider "d = 1" | "d = - 1" | "d = 2" | "d = - 2" by auto
  then show ?thesis
  proof cases
    case 1 then show ?thesis using assms(1) by (cases ax) (auto simp: isAxisVec_iff)
  next
    case 2 then show ?thesis using assms(1) by (cases ax) (auto simp: isAxisVec_iff)
  next
    case 3 then show ?thesis using assms(1) by (cases ax) (auto simp: isAxisVec_iff)
  next
    case 4 then show ?thesis using assms(1) by (cases ax) (auto simp: isAxisVec_iff)
  qed
qed

lemma apply_negate: "applyQuaternion (negate v) q = negate (applyQuaternion v q)"
  by (cases v) (simp add: Let_def algebra_simps)

lemma cubeRotation_identity: "cubeRotation identityQ"
  by (simp add: cubeRotation_def unitQ_identity apply_identity isAxisVec_iff)

lemma cubeRotation_unit: "cubeRotation q \<Longrightarrow> unitQ q"
  by (simp add: cubeRotation_def)

lemma cubeRotation_axis:
  assumes "cubeRotation q" and "isAxisVec v"
  shows "isAxisVec (applyQuaternion v q)"
proof -
  have p: "isAxisVec (applyQuaternion (1, 0, 0) q)" "isAxisVec (applyQuaternion (0, 1, 0) q)"
    "isAxisVec (applyQuaternion (0, 0, 1) q)"
    using assms(1) by (simp_all add: cubeRotation_def)
  have n: "isAxisVec (applyQuaternion (- 1, 0, 0) q)" "isAxisVec (applyQuaternion (0, - 1, 0) q)"
    "isAxisVec (applyQuaternion (0, 0, - 1) q)"
    using p apply_negate [of "(1, 0, 0)" q] apply_negate [of "(0, 1, 0)" q]
      apply_negate [of "(0, 0, 1)" q] isAxisVec_negate
    by simp_all
  from assms(2) show ?thesis
    unfolding isAxisVec_iff [of v] using p n by (elim disjE) simp_all
qed

lemma cubeRotation_step:
  assumes "cubeRotation q" and "direction m \<in> {- 2, - 1, 1, 2}"
  shows "cubeRotation (multiplyQuaternions (rotQuat m) q)"
proof -
  have u: "unitQ q" using assms(1) by (rule cubeRotation_unit)
  have a: "isAxisVec (applyQuaternion v (multiplyQuaternions (rotQuat m) q))" if "isAxisVec v" for v
  proof -
    have "applyQuaternion v (multiplyQuaternions (rotQuat m) q) =
        turn (axis m) (direction m) (applyQuaternion v q)"
      using apply_mult [OF unitQ_rotQuat u] apply_rotQuat rotation_turn [OF assms(2)]
      by (simp add: angleRad_def)
    then show ?thesis
      using turn_axis [OF cubeRotation_axis [OF assms(1) that] assms(2)] by simp
  qed
  have e: "isAxisVec (1, 0, 0)" "isAxisVec (0, 1, 0)" "isAxisVec (0, 0, 1)"
    by (simp_all add: isAxisVec_iff)
  show ?thesis
    unfolding cubeRotation_def
    using a [OF e(1)] a [OF e(2)] a [OF e(3)] unitQ_mult [OF unitQ_rotQuat u] by blast
qed

lemma commit_quaternion:
  "unitQ (quaternion c) \<Longrightarrow>
   quaternion (commitCubie m c) =
     (if inSlice m c then multiplyQuaternions (rotQuat m) (quaternion c) else quaternion c)"
  by (simp add: commitCubie_def Let_def premultiply_def qnormalize_unit unitQ_mult unitQ_rotQuat)

subsection \<open>The invariant of the snapshots\<close>

lemma cubeInv_init: "cubeInv getInitialState"
proof -
  have "map initialPosition getInitialState = lattice"
    by (simp add: init_eq lattice_eq piece_sel)
  moreover have "map position getInitialState = lattice"
    by (simp add: init_eq lattice_eq piece_sel)
  moreover have "map id_num getInitialState = [0..<27]"
    by (simp add: init_eq piece_sel upt_rec)
  moreover have "list_all (\<lambda>c. cubeRotation (quaternion c)) getInitialState"
    using cubeRotation_identity by (simp add: init_eq piece_sel identityQ_def)
  ultimately show ?thesis by (simp add: cubeInv_def)
qed

lemma cubeInv_positions: "cubeInv s \<Longrightarrow> c \<in> set s \<Longrightarrow> position c \<in> set lattice"
proof -
  assume a: "cubeInv s" and b: "c \<in> set s"
  from a have "set (map position s) = set lattice"
    unfolding cubeInv_def by (metis mset_eq_setD)
  with b show ?thesis by auto
qed

lemma cubeInv_rotation: "cubeInv s \<Longrightarrow> c \<in> set s \<Longrightarrow> cubeRotation (quaternion c)"
  by (simp add: cubeInv_def list_all_iff)

lemma cubeInv_length: "cubeInv s \<Longrightarrow> length s = 27"
proof -
  assume "cubeInv s"
  then have "length (map id_num s) = length [0..<27]" by (simp add: cubeInv_def)
  then show ?thesis by simp
qed

lemma cubeInv_step:
  assumes "cubeInv s" and "validMove m"
  shows "cubeInv (applyMove s m)"
proof -
  have d: "direction m \<in> {- 2, - 1, 1, 2}" using assms(2) by (simp add: validMove_def)
  have i: "map initialPosition (applyMove s m) = lattice"
    using assms(1) by (simp add: cubeInv_def applyMove_def commitCubie_frame comp_def)
  have n: "map id_num (applyMove s m) = [0..<27]"
    using assms(1) by (simp add: cubeInv_def applyMove_def commitCubie_frame comp_def)
  have "map position (applyMove s m) = map (posMap m) (map position s)"
    using cubeInv_positions [OF assms(1)] d by (simp add: applyMove_def commit_position)
  then have "mset (map position (applyMove s m)) = image_mset (posMap m) (mset (map position s))"
    by (simp only: mset_map)
  also have "\<dots> = image_mset (posMap m) (mset lattice)"
    using assms(1) by (simp add: cubeInv_def)
  also have "\<dots> = mset lattice"
    using posMap_permutes [OF d] by simp
  finally have p: "mset (map position (applyMove s m)) = mset lattice" .
  have q: "list_all (\<lambda>c. cubeRotation (quaternion c)) (applyMove s m)"
  proof -
    have "cubeRotation (quaternion (commitCubie m c))" if "c \<in> set s" for c
      using cubeInv_rotation [OF assms(1) that] cubeRotation_step [OF _ d]
      by (simp add: commit_quaternion cubeRotation_unit)
    then show ?thesis by (simp add: applyMove_def list_all_iff)
  qed
  show ?thesis using i n p q by (simp add: cubeInv_def)
qed

lemma applyMoves_snoc: "applyMoves (ms @ [m]) = applyMove (applyMoves ms) m"
  by (simp add: applyMoves_def)

lemma cubeInv_reachable: "list_all validMove ms \<Longrightarrow> cubeInv (applyMoves ms)"
proof (induction ms rule: rev_induct)
  case Nil
  show ?case using cubeInv_init by (simp add: applyMoves_def)
next
  case (snoc m ms)
  then show ?case by (simp add: applyMoves_snoc cubeInv_step)
qed

text \<open>
  C2. A valid move (any axis, a slice set within \<open>{-1, 0, 1}\<close>, a direction in
  \<open>{-2, -1, 1, 2}\<close>) applied to a snapshot reached from the initial one by valid moves
  gives a snapshot of 27 pieces whose positions are, as a multiset, the lattice
  \<open>{-1, 0, 1}\<^sup>3\<close>, and in which every quaternion is a unit quaternion that turns each
  coordinate axis into a coordinate axis: one of the 24 rotations of the cube, each
  of which is a product of quarter turns about the coordinate axes.
\<close>

theorem move_preserves_invariant:
  assumes "list_all validMove ms" and "validMove m"
  shows "length (applyMove (applyMoves ms) m) = 27 \<and>
         mset (map position (applyMove (applyMoves ms) m)) = mset lattice \<and>
         list_all (\<lambda>c. cubeRotation (quaternion c)) (applyMove (applyMoves ms) m)"
proof -
  have "cubeInv (applyMove (applyMoves ms) m)"
    using assms by (simp add: cubeInv_reachable cubeInv_step)
  then show ?thesis by (simp add: cubeInv_def cubeInv_length)
qed

theorem move_preserves_invariant_witness:
  "list_all validMove [\<lparr>axis = Y, slice = [1], direction = - 1\<rparr>] \<and>
   validMove \<lparr>axis = X, slice = [0, 1], direction = 2\<rparr> \<and>
   mset (map position
     (applyMove (applyMoves [\<lparr>axis = Y, slice = [1], direction = - 1\<rparr>])
        \<lparr>axis = X, slice = [0, 1], direction = 2\<rparr>)) = mset lattice \<and>
   list_all (\<lambda>c. cubeRotation (quaternion c))
     (applyMove (applyMoves [\<lparr>axis = Y, slice = [1], direction = - 1\<rparr>])
        \<lparr>axis = X, slice = [0, 1], direction = 2\<rparr>)"
proof -
  have a: "list_all validMove [\<lparr>axis = Y, slice = [1], direction = - 1\<rparr>]"
    by (simp add: validMove_def)
  have b: "validMove \<lparr>axis = X, slice = [0, 1], direction = 2\<rparr>"
    by (simp add: validMove_def)
  show ?thesis using move_preserves_invariant [OF a b] a b by simp
qed

subsection \<open>Four quarter turns\<close>

lemma rotQuat_quarter:
  assumes "direction m \<in> {- 1, 1}"
  shows "multiplyQuaternions
           (multiplyQuaternions (multiplyQuaternions (rotQuat m) (rotQuat m)) (rotQuat m))
           (rotQuat m) = qneg identityQ"
proof -
  from assms consider "direction m = 1" | "direction m = - 1" by auto
  then show ?thesis
  proof cases
    case 1
    then have t: "sin (angleRad m / 2) = sqrt 2 / 2" "cos (angleRad m / 2) = sqrt 2 / 2"
      by (simp_all add: angleRad_def trig_quarter)
    show ?thesis
      by (cases "axis m")
        (simp_all add: rotQuat_form t multiplyQuaternions_def qneg_def identityQ_def)
  next
    case 2
    then have t: "sin (angleRad m / 2) = - (sqrt 2 / 2)" "cos (angleRad m / 2) = sqrt 2 / 2"
      by (simp_all add: angleRad_def trig_quarter)
    show ?thesis
      by (cases "axis m")
        (simp_all add: rotQuat_form t multiplyQuaternions_def qneg_def identityQ_def)
  qed
qed

lemma mult_qneg_identity: "multiplyQuaternions (qneg identityQ) q = qneg q"
  by (simp add: multiplyQuaternions_def qneg_def identityQ_def)

lemma four_quarters:
  assumes "direction m \<in> {- 1, 1}"
  shows "multiplyQuaternions (rotQuat m) (multiplyQuaternions (rotQuat m)
           (multiplyQuaternions (rotQuat m) (multiplyQuaternions (rotQuat m) q))) = qneg q"
  by (simp only: mult_assoc rotQuat_quarter [OF assms] mult_qneg_identity)

lemma sameRotation_qneg: "sameRotation (qneg q) q"
proof -
  have "applyQuaternion v (qneg q) = applyQuaternion v q" for v
    by (cases v) (simp add: qneg_def Let_def algebra_simps)
  then show ?thesis by (simp add: sameRotation_def)
qed

lemma inSlice_position: "inSlice m c = inSliceP m (position c)"
  by (simp add: inSlice_def inSliceP_def)

lemma commit_inside:
  assumes "inSlice m c" and "position c \<in> set lattice" and "unitQ (quaternion c)"
    and "direction m \<in> {- 2, - 1, 1, 2}"
  shows "commitCubie m c =
           c\<lparr>position := turn (axis m) (direction m) (position c),
             quaternion := multiplyQuaternions (rotQuat m) (quaternion c)\<rparr>"
    and "inSlice m (commitCubie m c)"
    and "position (commitCubie m c) \<in> set lattice"
    and "unitQ (quaternion (commitCubie m c))"
proof -
  have p: "position (commitCubie m c) = turn (axis m) (direction m) (position c)"
    using commit_position [OF assms(2) assms(4)] assms(1)
    by (simp add: posMap_def inSlice_position)
  have q: "quaternion (commitCubie m c) = multiplyQuaternions (rotQuat m) (quaternion c)"
    using commit_quaternion [OF assms(3)] assms(1) by simp
  show "commitCubie m c =
           c\<lparr>position := turn (axis m) (direction m) (position c),
             quaternion := multiplyQuaternions (rotQuat m) (quaternion c)\<rparr>"
    using commitCubie_only [of m c] p q by simp
  show "inSlice m (commitCubie m c)"
    using assms(1) by (simp add: inSlice_position p inSliceP_turn)
  show "position (commitCubie m c) \<in> set lattice"
    using p turn_lattice [OF assms(2) assms(4)] by simp
  show "unitQ (quaternion (commitCubie m c))"
    using q unitQ_mult [OF unitQ_rotQuat assms(3)] by simp
qed

lemma commit_four:
  assumes "position c \<in> set lattice" and "unitQ (quaternion c)" and "direction m \<in> {- 1, 1}"
  shows "commitCubie m (commitCubie m (commitCubie m (commitCubie m c))) =
           c\<lparr>quaternion := (if inSlice m c then qneg (quaternion c) else quaternion c)\<rparr>"
proof (cases "inSlice m c")
  case False
  then show ?thesis by (simp add: commitCubie_outside)
next
  case True
  have d: "direction m \<in> {- 2, - 1, 1, 2}" using assms(3) by auto
  let ?c1 = "commitCubie m c"
  let ?c2 = "commitCubie m ?c1"
  let ?c3 = "commitCubie m ?c2"
  note s1 = commit_inside [OF True assms(1) assms(2) d]
  note s2 = commit_inside [OF s1(2) s1(3) s1(4) d]
  note s3 = commit_inside [OF s2(2) s2(3) s2(4) d]
  note s4 = commit_inside [OF s3(2) s3(3) s3(4) d]
  have p: "position (commitCubie m ?c3) = position c"
    using s1(1) s2(1) s3(1) s4(1) turn_four [OF assms(3), of "axis m" "position c"]
    by (metis CubieState.select_convs(3) CubieState.surjective CubieState.update_convs(3)
        CubieState.update_convs(5))
  have q: "quaternion (commitCubie m ?c3) = qneg (quaternion c)"
  proof -
    have "quaternion ?c1 = multiplyQuaternions (rotQuat m) (quaternion c)"
      using commit_quaternion [OF assms(2)] True by simp
    moreover have "quaternion ?c2 = multiplyQuaternions (rotQuat m) (quaternion ?c1)"
      using commit_quaternion [OF s1(4)] s1(2) by simp
    moreover have "quaternion ?c3 = multiplyQuaternions (rotQuat m) (quaternion ?c2)"
      using commit_quaternion [OF s2(4)] s2(2) by simp
    moreover have "quaternion (commitCubie m ?c3) =
        multiplyQuaternions (rotQuat m) (quaternion ?c3)"
      using commit_quaternion [OF s3(4)] s3(2) by simp
    ultimately show ?thesis using four_quarters [OF assms(3)] by simp
  qed
  have f: "id_num (commitCubie m ?c3) = id_num c"
    "initialPosition (commitCubie m ?c3) = initialPosition c"
    "rotation (commitCubie m ?c3) = rotation c"
    by (simp_all add: commitCubie_frame)
  show ?thesis using True p q f by (simp add: CubieState.equality)
qed

text \<open>
  C4. In a snapshot reached from the initial one by valid moves, the same quarter turn
  (direction 1 or -1, a fixed axis and slice set) applied four times in succession
  returns every piece to its position, and the quaternion of every piece rotates every
  vector as it did before: the quaternion of a piece of the slice set is the negative
  of what it was, that of another piece is unchanged. Nothing else of a piece changes.
\<close>

theorem four_quarter_turns:
  assumes "list_all validMove ms" and "validMove m" and "direction m \<in> {- 1, 1}"
    and "i < length (applyMoves ms)"
  shows "length (applyMove (applyMove (applyMove (applyMove (applyMoves ms) m) m) m) m) =
           length (applyMoves ms) \<and>
         position (applyMove (applyMove (applyMove (applyMove (applyMoves ms) m) m) m) m ! i) =
           position (applyMoves ms ! i) \<and>
         sameRotation
           (quaternion (applyMove (applyMove (applyMove (applyMove (applyMoves ms) m) m) m) m ! i))
           (quaternion (applyMoves ms ! i)) \<and>
         applyMove (applyMove (applyMove (applyMove (applyMoves ms) m) m) m) m ! i =
           (applyMoves ms ! i)
             \<lparr>quaternion := (if inSlice m (applyMoves ms ! i)
                              then qneg (quaternion (applyMoves ms ! i))
                              else quaternion (applyMoves ms ! i))\<rparr>"
proof -
  let ?s = "applyMoves ms"
  let ?c = "?s ! i"
  have inv: "cubeInv ?s" using assms(1) by (rule cubeInv_reachable)
  have m: "?c \<in> set ?s" using assms(4) by simp
  have p: "position ?c \<in> set lattice" using inv m by (rule cubeInv_positions)
  have u: "unitQ (quaternion ?c)" using cubeInv_rotation [OF inv m] by (rule cubeRotation_unit)
  have f: "applyMove (applyMove (applyMove (applyMove ?s m) m) m) m ! i =
      commitCubie m (commitCubie m (commitCubie m (commitCubie m ?c)))"
    using assms(4) by (simp add: applyMove_def)
  have r: "applyMove (applyMove (applyMove (applyMove ?s m) m) m) m ! i =
      ?c\<lparr>quaternion := (if inSlice m ?c then qneg (quaternion ?c) else quaternion ?c)\<rparr>"
    using f commit_four [OF p u assms(3)] by simp
  have l: "length (applyMove (applyMove (applyMove (applyMove ?s m) m) m) m) = length ?s"
    by (simp add: applyMove_def)
  have sr: "sameRotation (quaternion ?c) (quaternion ?c)" by (simp add: sameRotation_def)
  show ?thesis
    using l r sameRotation_qneg [of "quaternion ?c"] sr by simp
qed

theorem four_quarter_turns_witness:
  "list_all validMove [\<lparr>axis = Y, slice = [1], direction = - 1\<rparr>, \<lparr>axis = X, slice = [1], direction = - 1\<rparr>] \<and>
   validMove \<lparr>axis = X, slice = [1], direction = 1\<rparr> \<and>
   24 < length snapshotTwisted \<and>
   inSlice \<lparr>axis = X, slice = [1], direction = 1\<rparr> (snapshotTwisted ! 24) \<and>
   position (snapshotTwisted ! 24) = (1, 1, - 1) \<and>
   quaternion (snapshotTwisted ! 24) = \<lparr>qx = - (1 / 2), qy = - (1 / 2), qz = 1 / 2, qw = 1 / 2\<rparr> \<and>
   position (applyMove snapshotTwisted \<lparr>axis = X, slice = [1], direction = 1\<rparr> ! 24) = (1, 1, 1) \<and>
   position
     (applyMove (applyMove (applyMove (applyMove snapshotTwisted
        \<lparr>axis = X, slice = [1], direction = 1\<rparr>) \<lparr>axis = X, slice = [1], direction = 1\<rparr>)
        \<lparr>axis = X, slice = [1], direction = 1\<rparr>) \<lparr>axis = X, slice = [1], direction = 1\<rparr> ! 24) = (1, 1, - 1) \<and>
   quaternion
     (applyMove (applyMove (applyMove (applyMove snapshotTwisted
        \<lparr>axis = X, slice = [1], direction = 1\<rparr>) \<lparr>axis = X, slice = [1], direction = 1\<rparr>)
        \<lparr>axis = X, slice = [1], direction = 1\<rparr>) \<lparr>axis = X, slice = [1], direction = 1\<rparr> ! 24) = \<lparr>qx = 1 / 2, qy = 1 / 2, qz = - (1 / 2), qw = - (1 / 2)\<rparr> \<and>
   sameRotation
     (quaternion
       (applyMove (applyMove (applyMove (applyMove snapshotTwisted
        \<lparr>axis = X, slice = [1], direction = 1\<rparr>) \<lparr>axis = X, slice = [1], direction = 1\<rparr>)
        \<lparr>axis = X, slice = [1], direction = 1\<rparr>) \<lparr>axis = X, slice = [1], direction = 1\<rparr> ! 24))
     (quaternion (snapshotTwisted ! 24))"
proof -
  have e: "applyMoves [\<lparr>axis = Y, slice = [1], direction = - 1\<rparr>, \<lparr>axis = X, slice = [1], direction = - 1\<rparr>] = snapshotTwisted"
    by (simp add: snapshotTwisted_def)
  have a: "list_all validMove [\<lparr>axis = Y, slice = [1], direction = - 1\<rparr>, \<lparr>axis = X, slice = [1], direction = - 1\<rparr>]"
    by (simp add: validMove_def)
  have b: "validMove \<lparr>axis = X, slice = [1], direction = 1\<rparr>"
    by (simp add: validMove_def)
  have c: "direction \<lparr>axis = X, slice = [1], direction = 1\<rparr> \<in> {- 1, 1}" by simp
  have d: "24 < length (applyMoves [\<lparr>axis = Y, slice = [1], direction = - 1\<rparr>, \<lparr>axis = X, slice = [1], direction = - 1\<rparr>])"
    using cubeInv_length [OF cubeInv_reachable [OF a]] by simp
  have p: "snapshotTwisted ! 24 = piece 24 (1, 1, - 1) (1, 1, - 1) (- (1 / 2)) (- (1 / 2)) (1 / 2) (1 / 2)"
    by (simp add: snapshotTwisted_eq)
  have i: "inSlice \<lparr>axis = X, slice = [1], direction = 1\<rparr> (snapshotTwisted ! 24)"
    unfolding p by (simp add: move_eval piece_sel)
  have one: "position (applyMove snapshotTwisted \<lparr>axis = X, slice = [1], direction = 1\<rparr> ! 24) = (1, 1, 1)"
    using d unfolding e by (simp add: applyMove_nth p move_eval piece_sel)
  have q: "position (snapshotTwisted ! 24) = (1, 1, - 1)"
    "quaternion (snapshotTwisted ! 24) = \<lparr>qx = - (1 / 2), qy = - (1 / 2), qz = 1 / 2, qw = 1 / 2\<rparr>"
    unfolding p by (simp_all add: piece_sel)
  have r: "qneg (quaternion (snapshotTwisted ! 24)) = \<lparr>qx = 1 / 2, qy = 1 / 2, qz = - (1 / 2), qw = - (1 / 2)\<rparr>"
    unfolding q by (simp add: qneg_def)
  note t = four_quarter_turns [OF a b c d, unfolded e]
  have f: "quaternion (applyMove (applyMove (applyMove (applyMove snapshotTwisted
        \<lparr>axis = X, slice = [1], direction = 1\<rparr>) \<lparr>axis = X, slice = [1], direction = 1\<rparr>)
        \<lparr>axis = X, slice = [1], direction = 1\<rparr>) \<lparr>axis = X, slice = [1], direction = 1\<rparr> ! 24) = \<lparr>qx = 1 / 2, qy = 1 / 2, qz = - (1 / 2), qw = - (1 / 2)\<rparr>"
    using t i r by simp
  have g: "position (applyMove (applyMove (applyMove (applyMove snapshotTwisted
        \<lparr>axis = X, slice = [1], direction = 1\<rparr>) \<lparr>axis = X, slice = [1], direction = 1\<rparr>)
        \<lparr>axis = X, slice = [1], direction = 1\<rparr>) \<lparr>axis = X, slice = [1], direction = 1\<rparr> ! 24) = (1, 1, - 1)"
    using t q(1) by simp
  have h: "sameRotation (quaternion (applyMove (applyMove (applyMove (applyMove snapshotTwisted
        \<lparr>axis = X, slice = [1], direction = 1\<rparr>) \<lparr>axis = X, slice = [1], direction = 1\<rparr>)
        \<lparr>axis = X, slice = [1], direction = 1\<rparr>) \<lparr>axis = X, slice = [1], direction = 1\<rparr> ! 24)) (quaternion (snapshotTwisted ! 24))"
    using t by blast
  show ?thesis using a b d [unfolded e] i q one g f h by blast
qed

section \<open>Placement and orientation\<close>

lemma apply_sub:
  "applyQuaternion (subVectors u w) q = subVectors (applyQuaternion u q) (applyQuaternion w q)"
  by (cases u; cases w) (simp add: Let_def algebra_simps)

lemma conj_lengthSq: "lengthSq (conjugateBy v q) = normSq q * normSq q * lengthSq v"
  by (cases v) (simp add: Let_def normSq_def algebra_simps)

lemma apply_lengthSq: "unitQ q \<Longrightarrow> lengthSq (applyQuaternion v q) = lengthSq v"
  by (simp add: apply_conj conj_lengthSq unitQ_def)

text \<open>Vectors with integer coordinates.\<close>

lemma unit_Ints: "v \<in> {- 1, 0, 1} \<Longrightarrow> v \<in> \<int>" for v :: real
  by auto

lemma lattice_Ints:
  "(x, y, z) \<in> set lattice \<Longrightarrow> x \<in> \<int> \<and> y \<in> \<int> \<and> z \<in> \<int>"
  using unit_Ints by (simp only: lattice_iff)

lemma apply_linear:
  "applyQuaternion (x, y, z) q =
     (x * fst (applyQuaternion (1, 0, 0) q) + y * fst (applyQuaternion (0, 1, 0) q)
        + z * fst (applyQuaternion (0, 0, 1) q),
      x * fst (snd (applyQuaternion (1, 0, 0) q)) + y * fst (snd (applyQuaternion (0, 1, 0) q))
        + z * fst (snd (applyQuaternion (0, 0, 1) q)),
      x * snd (snd (applyQuaternion (1, 0, 0) q)) + y * snd (snd (applyQuaternion (0, 1, 0) q))
        + z * snd (snd (applyQuaternion (0, 0, 1) q)))"
  by (simp add: Let_def algebra_simps)

lemma axis_Ints:
  "isAxisVec v \<Longrightarrow> fst v \<in> \<int> \<and> fst (snd v) \<in> \<int> \<and> snd (snd v) \<in> \<int>"
  by (auto simp: isAxisVec_iff)

lemma cubeRotation_Ints:
  assumes "cubeRotation q" and "x \<in> \<int>" and "y \<in> \<int>" and "z \<in> \<int>"
  shows "fst (applyQuaternion (x, y, z) q) \<in> \<int> \<and>
         fst (snd (applyQuaternion (x, y, z) q)) \<in> \<int> \<and>
         snd (snd (applyQuaternion (x, y, z) q)) \<in> \<int>"
proof -
  have a: "isAxisVec (applyQuaternion (1, 0, 0) q)" "isAxisVec (applyQuaternion (0, 1, 0) q)"
    "isAxisVec (applyQuaternion (0, 0, 1) q)"
    using assms(1) by (simp_all add: cubeRotation_def)
  show ?thesis
    unfolding apply_linear [of x y z q]
    using axis_Ints [OF a(1)] axis_Ints [OF a(2)] axis_Ints [OF a(3)] assms(2-4)
    by (simp del: applyQuaternion.simps)
qed

lemma Ints_square_ge1: "x \<in> \<int> \<Longrightarrow> x \<noteq> 0 \<Longrightarrow> 1 \<le> x * x" for x :: real
proof -
  assume "x \<in> \<int>" "x \<noteq> 0"
  then have "1 \<le> \<bar>x\<bar>" by (rule Ints_nonzero_abs_ge1)
  then have "1 * 1 \<le> \<bar>x\<bar> * \<bar>x\<bar>" by (intro mult_mono) simp_all
  then show ?thesis by (simp add: abs_mult_self_eq)
qed

lemma Ints_lengthSq_ge1:
  fixes x y z :: real
  assumes "x \<in> \<int>" "y \<in> \<int>" "z \<in> \<int>" and "(x, y, z) \<noteq> (0, 0, 0)"
  shows "1 \<le> lengthSq (x, y, z)"
proof -
  have n: "0 \<le> x * x" "0 \<le> y * y" "0 \<le> z * z" by simp_all
  from assms(4) consider "x \<noteq> 0" | "y \<noteq> 0" | "z \<noteq> 0" by auto
  then show ?thesis
  proof cases
    case 1
    show ?thesis using Ints_square_ge1 [OF assms(1) 1] n unfolding lengthSq.simps by linarith
  next
    case 2
    show ?thesis using Ints_square_ge1 [OF assms(2) 2] n unfolding lengthSq.simps by linarith
  next
    case 3
    show ?thesis using Ints_square_ge1 [OF assms(3) 3] n unfolding lengthSq.simps by linarith
  qed
qed

lemma turned_away:
  assumes q: "cubeRotation q" and v: "v = (x, y, z)" "x \<in> \<int>" "y \<in> \<int>" "z \<in> \<int>"
    and ne: "applyQuaternion v q \<noteq> v"
  shows "1 \<le> lengthSq (subVectors (applyQuaternion v (invert q)) v)"
proof -
  have u: "unitQ q" using q by (rule cubeRotation_unit)
  let ?w = "applyQuaternion v (invert q)"
  have "lengthSq (subVectors ?w v) = lengthSq (applyQuaternion (subVectors ?w v) q)"
    using apply_lengthSq [OF u] by simp
  also have "\<dots> = lengthSq (subVectors v (applyQuaternion v q))"
    by (simp add: apply_sub apply_invert_apply [OF u])
  finally have e: "lengthSq (subVectors ?w v) = lengthSq (subVectors v (applyQuaternion v q))" .
  obtain a b c where r: "applyQuaternion v q = (a, b, c)"
    by (cases "applyQuaternion v q") auto
  have i: "a \<in> \<int>" "b \<in> \<int>" "c \<in> \<int>"
    using cubeRotation_Ints [OF q v(2) v(3) v(4)] r unfolding v(1) by simp_all
  have d: "x - a \<in> \<int>" "y - b \<in> \<int>" "z - c \<in> \<int>" using i v by simp_all
  have nz: "(x - a, y - b, z - c) \<noteq> (0, 0, 0)" using ne r v(1) by auto
  have "1 \<le> lengthSq (x - a, y - b, z - c)" using d nz by (rule Ints_lengthSq_ge1)
  then show ?thesis using e r v(1) by simp
qed

text \<open>
  C9, with the hypothesis the program needs. Let a piece whose initial position is a
  lattice point (an edge or a corner) and a reference centre both be at their initial
  positions, and let the orientation of the piece be a rotation of the cube that does
  not fix the vector from the piece to the centre (a corner twisted by 120 degrees or
  an edge flipped by 180 degrees in place). Then the vector turned back by the
  orientation is at distance 1 or more from the initial one, and \<open>isCorrectlyPlaced\<close>
  is false.
\<close>

theorem placement_sensitive_to_orientation:
  assumes "initialPosition cubie \<in> set lattice" and "initialPosition center \<in> set lattice"
    and "isEdge cubie \<or> isCorner cubie" and "isCenter center"
    and "position cubie = initialPosition cubie"
    and "position center = initialPosition center"
    and "cubeRotation (quaternion cubie)"
    and "applyQuaternion (subVectors (initialPosition center) (initialPosition cubie))
           (quaternion cubie)
         \<noteq> subVectors (initialPosition center) (initialPosition cubie)"
  shows "\<not> isCorrectlyPlaced cubie center"
proof -
  obtain px py pz where p: "initialPosition cubie = (px, py, pz)"
    by (cases "initialPosition cubie") auto
  obtain cx cy cz where c: "initialPosition center = (cx, cy, cz)"
    by (cases "initialPosition center") auto
  have pint: "px \<in> \<int>" "py \<in> \<int>" "pz \<in> \<int>" using assms(1) lattice_Ints unfolding p by blast+
  have ci: "cx \<in> \<int>" "cy \<in> \<int>" "cz \<in> \<int>" using assms(2) lattice_Ints unfolding c by blast+
  let ?v = "subVectors (initialPosition center) (initialPosition cubie)"
  have v: "?v = (cx - px, cy - py, cz - pz)" by (simp add: p c)
  have "1 \<le> lengthSq (subVectors (applyQuaternion ?v (invert (quaternion cubie))) ?v)"
    using assms(7) v _ _ _ assms(8)
  proof (rule turned_away)
    show "cx - px \<in> \<int>" "cy - py \<in> \<int>" "cz - pz \<in> \<int>" using pint ci by simp_all
  qed
  then have "1 \<le> distanceTo (applyQuaternion ?v (invert (quaternion cubie))) ?v"
    by (simp add: distanceTo_def)
  then show ?thesis
    using assms(5) assms(6) by (simp add: isCorrectlyPlaced_def Let_def)
qed

theorem placement_sensitive_to_orientation_witness:
  "initialPosition (snapshotTwisted ! 24) = (1, 1, - 1) \<and>
   initialPosition (snapshotTwisted ! 16) = (0, 1, 0) \<and>
   isCorner (snapshotTwisted ! 24) \<and> isCenter (snapshotTwisted ! 16) \<and>
   position (snapshotTwisted ! 24) = initialPosition (snapshotTwisted ! 24) \<and>
   position (snapshotTwisted ! 16) = initialPosition (snapshotTwisted ! 16) \<and>
   quaternion (snapshotTwisted ! 24)
     = \<lparr>qx = - (1 / 2), qy = - (1 / 2), qz = 1 / 2, qw = 1 / 2\<rparr> \<and>
   cubeRotation (quaternion (snapshotTwisted ! 24)) \<and>
   applyQuaternion (- 1, 0, 1) (quaternion (snapshotTwisted ! 24)) = (- 1, - 1, 0) \<and>
   \<not> isCorrectlyPlaced (snapshotTwisted ! 24) (snapshotTwisted ! 16)"
proof -
  have e: "snapshotTwisted ! 24 = piece 24 (1, 1, - 1) (1, 1, - 1) (- (1 / 2)) (- (1 / 2)) (1 / 2) (1 / 2)"
    "snapshotTwisted ! 16 = piece 16 (0, 1, 0) (0, 1, 0) 0 (- (sqrt 2 / 2)) 0 (sqrt 2 / 2)"
    by (simp_all add: snapshotTwisted_eq)
  have a: "initialPosition (snapshotTwisted ! 24) \<in> set lattice"
    "initialPosition (snapshotTwisted ! 16) \<in> set lattice"
    by (simp_all add: e piece_sel lattice_iff)
  have b: "isEdge (snapshotTwisted ! 24) \<or> isCorner (snapshotTwisted ! 24)"
    "isCenter (snapshotTwisted ! 16)"
    by (simp_all add: e class_eval)
  have c: "position (snapshotTwisted ! 24) = initialPosition (snapshotTwisted ! 24)"
    "position (snapshotTwisted ! 16) = initialPosition (snapshotTwisted ! 16)"
    by (simp_all add: e piece_sel)
  have d: "cubeRotation (quaternion (snapshotTwisted ! 24))"
    by (simp add: e piece_sel cubeRotation_def unitQ_def normSq_def isAxisVec_iff)
  have f: "applyQuaternion (- 1, 0, 1) (quaternion (snapshotTwisted ! 24)) = (- 1, - 1, 0)"
    by (simp add: e piece_sel Let_def)
  have g: "applyQuaternion
      (subVectors (initialPosition (snapshotTwisted ! 16)) (initialPosition (snapshotTwisted ! 24)))
      (quaternion (snapshotTwisted ! 24))
     \<noteq> subVectors (initialPosition (snapshotTwisted ! 16))
          (initialPosition (snapshotTwisted ! 24))"
    by (simp add: e piece_sel Let_def)
  have k: "isCorner (snapshotTwisted ! 24)" by (simp add: e class_eval)
  have i: "initialPosition (snapshotTwisted ! 24) = (1, 1, - 1)"
    "initialPosition (snapshotTwisted ! 16) = (0, 1, 0)"
    "quaternion (snapshotTwisted ! 24)
       = \<lparr>qx = - (1 / 2), qy = - (1 / 2), qz = 1 / 2, qw = 1 / 2\<rparr>"
    by (simp_all add: e piece_sel)
  show ?thesis
    using placement_sensitive_to_orientation [OF a b c d g] b(2) c d f k i
    by blast
qed

text \<open>
  C9 as it is stated fails when the reference centre has moved with the piece. Turn the
  whole cube by a quarter about x and then by a half about z (the slice sets hold all
  three layers): the cube is then turned by 180 degrees about the axis \<open>(0, 1, 1)\<close>.
  The edge with initial position \<open>(0, 1, 1)\<close> (piece 17) is at its initial position,
  flipped in place; its orientation fixes neither the initial nor the current vector
  from the piece to the centre with initial position \<open>(0, 1, 0)\<close> (piece 16), which is
  now at \<open>(0, 0, 1)\<close>; and \<open>isCorrectlyPlaced\<close> is true.
\<close>

theorem placement_sensitive_to_orientation_counterexample:
  "isEdge (snapshotTurned ! 17) \<and> isCenter (snapshotTurned ! 16) \<and>
   initialPosition (snapshotTurned ! 17) = (0, 1, 1) \<and>
   position (snapshotTurned ! 17) = initialPosition (snapshotTurned ! 17) \<and>
   quaternion (snapshotTurned ! 17) = \<lparr>qx = 0, qy = sqrt 2 / 2, qz = sqrt 2 / 2, qw = 0\<rparr> \<and>
   cubeRotation (quaternion (snapshotTurned ! 17)) \<and>
   initialPosition (snapshotTurned ! 16) = (0, 1, 0) \<and>
   position (snapshotTurned ! 16) = (0, 0, 1) \<and>
   applyQuaternion
     (subVectors (initialPosition (snapshotTurned ! 16)) (initialPosition (snapshotTurned ! 17)))
     (quaternion (snapshotTurned ! 17))
     \<noteq> subVectors (initialPosition (snapshotTurned ! 16)) (initialPosition (snapshotTurned ! 17)) \<and>
   applyQuaternion
     (subVectors (position (snapshotTurned ! 16)) (position (snapshotTurned ! 17)))
     (quaternion (snapshotTurned ! 17))
     \<noteq> subVectors (position (snapshotTurned ! 16)) (position (snapshotTurned ! 17)) \<and>
   isCorrectlyPlaced (snapshotTurned ! 17) (snapshotTurned ! 16)"
proof -
  have e: "snapshotTurned ! 17 = piece 17 (0, 1, 1) (0, 1, 1) 0 (sqrt 2 / 2) (sqrt 2 / 2) 0"
    "snapshotTurned ! 16 = piece 16 (0, 1, 0) (0, 0, 1) 0 (sqrt 2 / 2) (sqrt 2 / 2) 0"
    by (simp_all add: snapshotTurned_eq)
  show ?thesis
    unfolding e
    by (simp add: class_eval placed_eval cubeRotation_def unitQ_def normSq_def isAxisVec_iff)
qed

section \<open>The PLL classifier inside the phase engine\<close>

subsection \<open>Axis vectors\<close>

lemma normalize_axis: "isAxisVec v \<Longrightarrow> normalize v = v"
  unfolding isAxisVec_iff by (elim disjE) (simp_all add: normalize_def vlength_def)

lemma axis_dot:
  assumes "isAxisVec u" and "isAxisVec v" and "0.9 < dot u v"
  shows "u = v"
  using assms(1) unfolding isAxisVec_iff
proof (elim disjE)
  assume "u = (1, 0, 0)" then show ?thesis using assms(2,3) by (auto simp: isAxisVec_iff)
next
  assume "u = (- 1, 0, 0)" then show ?thesis using assms(2,3) by (auto simp: isAxisVec_iff)
next
  assume "u = (0, 1, 0)" then show ?thesis using assms(2,3) by (auto simp: isAxisVec_iff)
next
  assume "u = (0, - 1, 0)" then show ?thesis using assms(2,3) by (auto simp: isAxisVec_iff)
next
  assume "u = (0, 0, 1)" then show ?thesis using assms(2,3) by (auto simp: isAxisVec_iff)
next
  assume "u = (0, 0, - 1)" then show ?thesis using assms(2,3) by (auto simp: isAxisVec_iff)
qed

lemma axis_angle:
  assumes "isAxisVec u" and "isAxisVec v" and "angleTo u v < ROT_EPSILON"
  shows "u = v"
  using assms(1) unfolding isAxisVec_iff
proof (elim disjE)
  assume "u = (1, 0, 0)" then show ?thesis using assms(2,3)
    by (auto simp: isAxisVec_iff angleTo_def clamp_def arccos_eval)
next
  assume "u = (- 1, 0, 0)" then show ?thesis using assms(2,3)
    by (auto simp: isAxisVec_iff angleTo_def clamp_def arccos_eval)
next
  assume "u = (0, 1, 0)" then show ?thesis using assms(2,3)
    by (auto simp: isAxisVec_iff angleTo_def clamp_def arccos_eval)
next
  assume "u = (0, - 1, 0)" then show ?thesis using assms(2,3)
    by (auto simp: isAxisVec_iff angleTo_def clamp_def arccos_eval)
next
  assume "u = (0, 0, 1)" then show ?thesis using assms(2,3)
    by (auto simp: isAxisVec_iff angleTo_def clamp_def arccos_eval)
next
  assume "u = (0, 0, - 1)" then show ?thesis using assms(2,3)
    by (auto simp: isAxisVec_iff angleTo_def clamp_def arccos_eval)
qed

lemma sideDirs_axis:
  assumes "isAxisVec (upOf topCenter)"
  shows "distinct (sideDirs topCenter) \<and> length (sideDirs topCenter) = 4 \<and>
         (\<forall>d \<in> set (sideDirs topCenter). isAxisVec d \<and> dot d (upOf topCenter) = 0)"
  using assms unfolding isAxisVec_iff [of "upOf topCenter"]
  by (elim disjE) (simp_all add: sideDirs_def candidates_def isAxisVec_iff)

subsection \<open>The colour of a sticker\<close>

lemma sticker_fold:
  "snd (foldl (stickerStep q d) (m, b) ns) = Some k \<Longrightarrow> 0.9 \<le> m \<Longrightarrow>
   b = Some k \<or> (\<exists>n. (n, k) \<in> set ns \<and> 0.9 < dot (applyQuaternion n q) d)"
proof (induction ns arbitrary: m b)
  case Nil
  then show ?case by simp
next
  case (Cons x ns)
  obtain n col where x: "x = (n, col)" by (cases x) auto
  show ?case
  proof (cases "dot (applyQuaternion n q) d > m")
    case True
    then have s: "stickerStep q d (m, b) x = (dot (applyQuaternion n q) d, Some col)"
      by (simp add: x Let_def)
    have "0.9 \<le> dot (applyQuaternion n q) d" using True Cons.prems(2) by simp
    with Cons.IH [of "dot (applyQuaternion n q) d" "Some col"] Cons.prems(1) s
    have "Some col = Some k \<or> (\<exists>n'. (n', k) \<in> set ns \<and> 0.9 < dot (applyQuaternion n' q) d)"
      by simp
    then show ?thesis
    proof
      assume "Some col = Some k"
      then have "(n, k) \<in> set (x # ns) \<and> 0.9 < dot (applyQuaternion n q) d"
        using True Cons.prems(2) x by simp
      then show ?thesis by blast
    next
      assume "\<exists>n'. (n', k) \<in> set ns \<and> 0.9 < dot (applyQuaternion n' q) d"
      then show ?thesis by auto
    qed
  next
    case False
    then have s: "stickerStep q d (m, b) x = (m, b)" by (simp add: x Let_def)
    with Cons.IH [of m b] Cons.prems
    have "b = Some k \<or> (\<exists>n'. (n', k) \<in> set ns \<and> 0.9 < dot (applyQuaternion n' q) d)"
      by simp
    then show ?thesis by auto
  qed
qed

lemma sticker_normal:
  assumes "getStickerColor a d = Some k"
  shows "\<exists>n. (n, k) \<in> set localNormals \<and> validNormal (initialPosition a) (n, k) \<and>
             0.9 < dot (applyQuaternion n (quaternion a)) d"
proof -
  have "snd (foldl (stickerStep (quaternion a) d) (0.9, None)
      (filter (validNormal (initialPosition a)) localNormals)) = Some k"
    using assms by (simp add: getStickerColor_def)
  from sticker_fold [OF this] show ?thesis by auto
qed

lemma localNormals_axis: "(n, k) \<in> set localNormals \<Longrightarrow> isAxisVec n"
  by (auto simp: localNormals_def isAxisVec_iff)

lemma localNormals_colour:
  "(n, k) \<in> set localNormals \<Longrightarrow> (n', k) \<in> set localNormals \<Longrightarrow> n = n'"
  by (auto simp: localNormals_def)

lemma sticker_direction:
  assumes "getStickerColor a d = Some k" and "cubeRotation (quaternion a)" and "isAxisVec d"
  shows "\<exists>n. (n, k) \<in> set localNormals \<and> validNormal (initialPosition a) (n, k) \<and>
             applyQuaternion n (quaternion a) = d"
proof -
  from sticker_normal [OF assms(1)] obtain n where
    n: "(n, k) \<in> set localNormals" "validNormal (initialPosition a) (n, k)"
      "0.9 < dot (applyQuaternion n (quaternion a)) d"
    by blast
  have "isAxisVec (applyQuaternion n (quaternion a))"
    using assms(2) localNormals_axis [OF n(1)] by (rule cubeRotation_axis)
  then have "applyQuaternion n (quaternion a) = d" using assms(3) n(3) by (rule axis_dot)
  with n show ?thesis by blast
qed

subsection \<open>The pieces of the top layer\<close>

lemma cubeInv_distinct: "cubeInv s \<Longrightarrow> distinct s \<and> inj_on initialPosition (set s)"
proof -
  assume "cubeInv s"
  then have "distinct (map initialPosition s)"
    using distinct_lattice by (simp add: cubeInv_def)
  then show ?thesis by (simp add: distinct_map)
qed

lemma cubeInv_origin: "cubeInv s \<Longrightarrow> c \<in> set s \<Longrightarrow> initialPosition c \<in> set lattice"
proof -
  assume a: "cubeInv s" and b: "c \<in> set s"
  from a have "set (map initialPosition s) = set lattice" by (simp add: cubeInv_def)
  with b show ?thesis by auto
qed

lemma center_axis:
  assumes "initialPosition c \<in> set lattice" and "isCenter c"
  shows "isAxisVec (initialPosition c)"
proof -
  obtain x y z where p: "initialPosition c = (x, y, z)" by (cases "initialPosition c") auto
  from assms(1) have l: "x \<in> {- 1, 0, 1}" "y \<in> {- 1, 0, 1}" "z \<in> {- 1, 0, 1}"
    unfolding p by (simp_all only: lattice_iff)
  have s: "\<bar>x\<bar> + \<bar>y\<bar> + \<bar>z\<bar> = 1" using assms(2) by (simp add: isCenter_def absSum_def p)
  show ?thesis unfolding p isAxisVec_iff using l s by (elim insertE emptyE) simp_all
qed

lemma corner_vec:
  assumes "initialPosition c \<in> set lattice" and "isCorner c"
  shows "cornerVec (initialPosition c)"
proof -
  obtain x y z where p: "initialPosition c = (x, y, z)" by (cases "initialPosition c") auto
  from assms(1) have l: "x \<in> {- 1, 0, 1}" "y \<in> {- 1, 0, 1}" "z \<in> {- 1, 0, 1}"
    unfolding p by (simp_all only: lattice_iff)
  have s: "\<bar>x\<bar> + \<bar>y\<bar> + \<bar>z\<bar> = 3" using assms(2) by (simp add: isCorner_def absSum_def p)
  show ?thesis unfolding p cornerVec_def using l s by auto
qed

lemma findTopCenter_member:
  "findTopCenter s center = Some tc \<Longrightarrow> tc \<in> set s \<and> isCenter tc"
proof -
  assume "findTopCenter s center = Some tc"
  then have "tc \<in> set (filter isCenter s)"
    unfolding findTopCenter_def find_Some_iff by (metis nth_mem)
  then show ?thesis by simp
qed

lemma top_dot:
  assumes "isAxisVec (initialPosition tc)" and "cornerVec (initialPosition a)"
    and "inTopLayer tc a"
  shows "dot (initialPosition a) (initialPosition tc) = 1"
proof -
  obtain x y z where p: "initialPosition a = (x, y, z)" by (cases "initialPosition a") auto
  have c: "\<bar>x\<bar> = 1" "\<bar>y\<bar> = 1" "\<bar>z\<bar> = 1" using assms(2) by (simp_all add: cornerVec_def p)
  from assms(1) show ?thesis
    unfolding isAxisVec_iff
  proof (elim disjE)
    assume t: "initialPosition tc = (1, 0, 0)"
    show ?thesis using assms(3) c
      by (simp add: inTopLayer_def sameComponent_def componentAt_def t p)
  next
    assume t: "initialPosition tc = (- 1, 0, 0)"
    show ?thesis using assms(3) c
      by (simp add: inTopLayer_def sameComponent_def componentAt_def t p)
  next
    assume t: "initialPosition tc = (0, 1, 0)"
    show ?thesis using assms(3) c
      by (simp add: inTopLayer_def sameComponent_def componentAt_def t p)
  next
    assume t: "initialPosition tc = (0, - 1, 0)"
    show ?thesis using assms(3) c
      by (simp add: inTopLayer_def sameComponent_def componentAt_def t p)
  next
    assume t: "initialPosition tc = (0, 0, 1)"
    show ?thesis using assms(3) c
      by (simp add: inTopLayer_def sameComponent_def componentAt_def t p)
  next
    assume t: "initialPosition tc = (0, 0, - 1)"
    show ?thesis using assms(3) c
      by (simp add: inTopLayer_def sameComponent_def componentAt_def t p)
  qed
qed

lemma normal_dot:
  assumes "isAxisVec n" and "cornerVec u" and "validNormal u (n, k)"
  shows "dot u n = 1"
proof -
  obtain x y z where p: "u = (x, y, z)" by (cases u) auto
  have c: "x = 1 \<or> x = - 1" "y = 1 \<or> y = - 1" "z = 1 \<or> z = - 1"
    using assms(2) by (auto simp: cornerVec_def p)
  from assms(1) show ?thesis
    unfolding isAxisVec_iff
  proof (elim disjE)
    assume t: "n = (1, 0, 0)"
    show ?thesis using assms(3) c unfolding t p by auto
  next
    assume t: "n = (- 1, 0, 0)"
    show ?thesis using assms(3) c unfolding t p by auto
  next
    assume t: "n = (0, 1, 0)"
    show ?thesis using assms(3) c unfolding t p by auto
  next
    assume t: "n = (0, - 1, 0)"
    show ?thesis using assms(3) c unfolding t p by auto
  next
    assume t: "n = (0, 0, 1)"
    show ?thesis using assms(3) c unfolding t p by auto
  next
    assume t: "n = (0, 0, - 1)"
    show ?thesis using assms(3) c unfolding t p by auto
  qed
qed

lemma axis_dot_self: "isAxisVec v \<Longrightarrow> dot v v = 1"
  unfolding isAxisVec_iff by (elim disjE) simp_all

lemma oriented_up:
  assumes "isOrientedForOLL a tc" and "cubeRotation (quaternion a)"
    and "cubeRotation (quaternion tc)" and "isAxisVec (initialPosition tc)"
  shows "applyQuaternion (initialPosition tc) (quaternion a) = upOf tc"
proof -
  have n: "normalize (initialPosition tc) = initialPosition tc"
    using assms(4) by (rule normalize_axis)
  have qa: "qnormalize (quaternion a) = quaternion a"
    using assms(2) by (simp add: qnormalize_unit cubeRotation_unit)
  have qt: "qnormalize (quaternion tc) = quaternion tc"
    using assms(3) by (simp add: qnormalize_unit cubeRotation_unit)
  have u: "upOf tc = applyQuaternion (initialPosition tc) (quaternion tc)"
    by (simp add: upOf_def n)
  have "angleTo (upOf tc) (applyQuaternion (initialPosition tc) (quaternion a)) < ROT_EPSILON"
    using assms(1) unfolding isOrientedForOLL_def Let_def n qa qt u .
  moreover have "isAxisVec (upOf tc)"
    unfolding u using assms(3) assms(4) by (rule cubeRotation_axis)
  moreover have "isAxisVec (applyQuaternion (initialPosition tc) (quaternion a))"
    using assms(2) assms(4) by (rule cubeRotation_axis)
  ultimately have "upOf tc = applyQuaternion (initialPosition tc) (quaternion a)"
    using axis_angle by blast
  then show ?thesis by simp
qed

lemma corner_two:
  assumes "isAxisVec t" and "isAxisVec n" and "n \<noteq> t" and "cornerVec u"
    and "dot u t = 1" and "dot u n = 1"
  shows "u = addVectors (addVectors t n) (crossVectors t n) \<or>
         u = subVectors (addVectors t n) (crossVectors t n)"
proof -
  obtain x y z where p: "u = (x, y, z)" by (cases u) auto
  have c: "x = 1 \<or> x = - 1" "y = 1 \<or> y = - 1" "z = 1 \<or> z = - 1"
    using assms(4) by (auto simp: cornerVec_def p)
  from assms(1) show ?thesis
    unfolding isAxisVec_iff
  proof (elim disjE)
    assume t: "t = (1, 0, 0)"
    show ?thesis using assms(2,3,5,6) c unfolding t p isAxisVec_iff by auto
  next
    assume t: "t = (- 1, 0, 0)"
    show ?thesis using assms(2,3,5,6) c unfolding t p isAxisVec_iff by auto
  next
    assume t: "t = (0, 1, 0)"
    show ?thesis using assms(2,3,5,6) c unfolding t p isAxisVec_iff by auto
  next
    assume t: "t = (0, - 1, 0)"
    show ?thesis using assms(2,3,5,6) c unfolding t p isAxisVec_iff by auto
  next
    assume t: "t = (0, 0, 1)"
    show ?thesis using assms(2,3,5,6) c unfolding t p isAxisVec_iff by auto
  next
    assume t: "t = (0, 0, - 1)"
    show ?thesis using assms(2,3,5,6) c unfolding t p isAxisVec_iff by auto
  qed
qed

lemma not_edge_and_corner: "isEdge c \<Longrightarrow> \<not> isCorner c"
  by (simp add: isEdge_def isCorner_def)

lemma top_corners:
  "filter isCorner (topPiecesOf s tc) = filter (\<lambda>c. isCorner c \<and> inTopLayer tc c) s"
proof -
  have "filter isCorner (filter (inTopLayer tc) (filter isEdge s)) = []"
    by (simp add: filter_empty_conv not_edge_and_corner)
  then show ?thesis
    by (simp add: topPiecesOf_def conj_commute)
qed

lemma face_headlights:
  assumes "isHeadlights (mkFace tp tc d)"
  shows "\<exists>a b k. filter (onFace tc d) (filter isCorner tp) = [a, b] \<and>
           getStickerColor a d = Some k \<and> getStickerColor b d = Some k \<and>
           c1 (mkFace tp tc d) = Some k"
proof -
  let ?fc = "filter (onFace tc d) (filter isCorner tp)"
  have k: "(case ?fc of [a, b] \<Rightarrow> getStickerColor a d | _ \<Rightarrow> None) \<noteq> None"
    "(case ?fc of [a, b] \<Rightarrow> getStickerColor a d | _ \<Rightarrow> None) =
     (case ?fc of [a, b] \<Rightarrow> getStickerColor b d | _ \<Rightarrow> None)"
    "c1 (mkFace tp tc d) = (case ?fc of [a, b] \<Rightarrow> getStickerColor a d | _ \<Rightarrow> None)"
    using assms by (simp_all add: mkFace_def Let_def)
  from k(1) obtain a b where f: "?fc = [a, b]"
    by (auto split: list.splits)
  from k(1) f obtain col where ca: "getStickerColor a d = Some col" by auto
  from k(2) f ca have cb: "getStickerColor b d = Some col" by simp
  from k(3) f ca have "c1 (mkFace tp tc d) = Some col" by simp
  with f ca cb show ?thesis by blast
qed

lemma face_colours_distinct:
  assumes inv: "cubeInv s" and tc: "tc \<in> set s" "isCenter tc"
    and oll: "isOLLSolved s tc"
    and d: "d \<in> set (sideDirs tc)" "d' \<in> set (sideDirs tc)"
    and h: "isHeadlights (mkFace (topPiecesOf s tc) tc d)"
      "isHeadlights (mkFace (topPiecesOf s tc) tc d')"
    and eq: "c1 (mkFace (topPiecesOf s tc) tc d) = c1 (mkFace (topPiecesOf s tc) tc d')"
  shows "d = d'"
proof (rule ccontr)
  assume ne: "d \<noteq> d'"
  let ?tp = "topPiecesOf s tc"
  let ?cs = "filter isCorner ?tp"
  let ?t = "initialPosition tc"
  have t_axis: "isAxisVec ?t"
    using cubeInv_origin [OF inv tc(1)] tc(2) by (rule center_axis)
  have tq: "cubeRotation (quaternion tc)" using inv tc(1) by (rule cubeInv_rotation)
  have up: "upOf tc = applyQuaternion ?t (quaternion tc)"
    by (simp add: upOf_def normalize_axis [OF t_axis])
  have up_axis: "isAxisVec (upOf tc)" unfolding up using tq t_axis by (rule cubeRotation_axis)
  note sd = sideDirs_axis [OF up_axis]
  have da: "isAxisVec d" "dot d (upOf tc) = 0" "isAxisVec d'" using sd d by auto
  from face_headlights [OF h(1)] obtain a b k where
    f: "filter (onFace tc d) ?cs = [a, b]" and ca: "getStickerColor a d = Some k"
    and cb: "getStickerColor b d = Some k" and k: "c1 (mkFace ?tp tc d) = Some k"
    by blast
  from face_headlights [OF h(2)] obtain a' b' k' where
    f': "filter (onFace tc d') ?cs = [a', b']" and ca': "getStickerColor a' d' = Some k'"
    and k': "c1 (mkFace ?tp tc d') = Some k'"
    by blast
  have kk: "k' = k" using eq k k' by simp
  have dist: "distinct s" and inj: "inj_on initialPosition (set s)"
    using cubeInv_distinct [OF inv] by simp_all
  have dcs: "distinct ?cs" using dist by (simp add: top_corners)
  have "a \<in> set (filter (onFace tc d) ?cs)" "b \<in> set (filter (onFace tc d) ?cs)"
    unfolding f by simp_all
  then have ma: "a \<in> set ?cs" "b \<in> set ?cs" by simp_all
  have "a' \<in> set (filter (onFace tc d') ?cs)" unfolding f' by simp
  then have ma': "a' \<in> set ?cs" by simp
  have "distinct (filter (onFace tc d) ?cs)" using dcs by (rule distinct_filter)
  then have ab: "a \<noteq> b" unfolding f by simp
  have mem: "x \<in> set s \<and> isCorner x \<and> inTopLayer tc x \<and> x \<in> set ?tp" if "x \<in> set ?cs" for x
  proof -
    have "x \<in> set ?tp" using that by simp
    moreover have "x \<in> set s \<and> isCorner x \<and> inTopLayer tc x"
      using that unfolding top_corners by simp
    ultimately show ?thesis by simp
  qed
  have rot: "cubeRotation (quaternion x)" if "x \<in> set ?cs" for x
    using inv mem [OF that] by (simp add: cubeInv_rotation)
  from sticker_direction [OF ca rot [OF ma(1)] da(1)] obtain n where
    n: "(n, k) \<in> set localNormals" "validNormal (initialPosition a) (n, k)"
      "applyQuaternion n (quaternion a) = d"
    by blast
  from sticker_direction [OF cb rot [OF ma(2)] da(1)] obtain nb where
    nb: "(nb, k) \<in> set localNormals" "validNormal (initialPosition b) (nb, k)"
      "applyQuaternion nb (quaternion b) = d"
    by blast
  from sticker_direction [OF ca' rot [OF ma'] da(3)] obtain n' where
    n': "(n', k') \<in> set localNormals" "validNormal (initialPosition a') (n', k')"
      "applyQuaternion n' (quaternion a') = d'"
    by blast
  have e1: "nb = n" using n(1) nb(1) by (rule localNormals_colour [symmetric])
  have e2: "n' = n" using n(1) n'(1) unfolding kk by (rule localNormals_colour [symmetric])
  have n_axis: "isAxisVec n" using n(1) by (rule localNormals_axis)
  have aa': "a \<noteq> a'" using n(3) n'(3) e2 ne by auto
  have ba': "b \<noteq> a'" using nb(3) n'(3) e1 e2 ne by auto
  have nt: "n \<noteq> ?t"
  proof
    assume "n = ?t"
    have "isOrientedForOLL a tc"
      using oll mem [OF ma(1)] by (simp add: isOLLSolved_def list_all_iff)
    then have "applyQuaternion ?t (quaternion a) = upOf tc"
      using rot [OF ma(1)] tq t_axis by (rule oriented_up)
    then have "d = upOf tc" using n(3) \<open>n = ?t\<close> by simp
    then show False using da(2) axis_dot_self [OF up_axis] by simp
  qed
  have cv: "cornerVec (initialPosition x)" if "x \<in> set ?cs" for x
    using cubeInv_origin [OF inv] mem [OF that] corner_vec by blast
  have td: "dot (initialPosition x) ?t = 1" if "x \<in> set ?cs" for x
    using t_axis cv [OF that] mem [OF that] top_dot by blast
  have two: "initialPosition x = addVectors (addVectors ?t n) (crossVectors ?t n) \<or>
      initialPosition x = subVectors (addVectors ?t n) (crossVectors ?t n)"
    if "x \<in> set ?cs" "validNormal (initialPosition x) (n, k)" for x
    using t_axis n_axis nt cv [OF that(1)] td [OF that(1)]
      normal_dot [OF n_axis cv [OF that(1)] that(2)]
    by (rule corner_two)
  have o: "initialPosition a \<noteq> initialPosition b" "initialPosition a \<noteq> initialPosition a'"
    "initialPosition b \<noteq> initialPosition a'"
    using inj ab aa' ba' mem [OF ma(1)] mem [OF ma(2)] mem [OF ma']
    by (auto dest: inj_onD)
  show False
    using two [OF ma(1) n(2)] two [OF ma(2)] two [OF ma'] nb(2) n'(2) e1 e2 kk o by auto
qed

subsection \<open>Four headlights and four bars\<close>

lemma all_headlights:
  assumes "headlightsCount tp tc = length (faces tp tc)"
  shows "\<forall>f \<in> set (faces tp tc). isHeadlights f"
proof (rule ccontr)
  assume "\<not> (\<forall>f \<in> set (faces tp tc). isHeadlights f)"
  then obtain f where "f \<in> set (faces tp tc)" "\<not> isHeadlights f" by blast
  then have "length (filter isHeadlights (faces tp tc)) < length (faces tp tc)"
    by (rule length_filter_less)
  then show False using assms by (simp add: headlightsCount_def)
qed

lemma pll_distinct_colours:
  assumes inv: "cubeInv s" and tc: "tc \<in> set s" "isCenter tc"
    and oll: "isOLLSolved s tc"
    and hc: "headlightsCount (topPiecesOf s tc) tc = 4"
  shows "distinctColors (topPiecesOf s tc) tc = 4"
proof -
  let ?tp = "topPiecesOf s tc"
  have t_axis: "isAxisVec (initialPosition tc)"
    using cubeInv_origin [OF inv tc(1)] tc(2) by (rule center_axis)
  have tq: "cubeRotation (quaternion tc)" using inv tc(1) by (rule cubeInv_rotation)
  have "isAxisVec (upOf tc)"
    unfolding upOf_def normalize_axis [OF t_axis] using tq t_axis by (rule cubeRotation_axis)
  from sideDirs_axis [OF this]
  have sd: "distinct (sideDirs tc)" "length (sideDirs tc) = 4" by simp_all
  have len: "length (faces ?tp tc) = 4" using sd(2) by (simp add: faces_def)
  have all: "\<forall>f \<in> set (faces ?tp tc). isHeadlights f"
    using hc len by (intro all_headlights) simp
  have hl: "isHeadlights (mkFace ?tp tc d)" if "d \<in> set (sideDirs tc)" for d
    using all that by (simp add: faces_def)
  have "inj_on (\<lambda>d. c1 (mkFace ?tp tc d)) (set (sideDirs tc))"
  proof (rule inj_onI)
    fix d d'
    assume "d \<in> set (sideDirs tc)" "d' \<in> set (sideDirs tc)"
      "c1 (mkFace ?tp tc d) = c1 (mkFace ?tp tc d')"
    then show "d = d'"
      using face_colours_distinct [OF inv tc oll _ _ hl hl] by blast
  qed
  then have "distinct (map c1 (faces ?tp tc))"
    using sd(1) by (simp add: faces_def distinct_map comp_def)
  then show ?thesis using len by (simp add: distinctColors_def distinct_remdups_id)
qed

lemma solved_has_no_case:
  "evalCandidate cubies c = Some cand \<Longrightarrow> currentPhase cand = Solved \<Longrightarrow>
   pllCaseResult cand = None"
  by (auto simp: evalCandidate_def lastLayer_def Let_def split: if_splits option.splits)

lemma step_keeps_no_case:
  assumes "bestPhase b = Solved \<longrightarrow> bestPLLCase b = None"
  shows "bestPhase (candidateStep cubies b c) = Solved \<longrightarrow>
         bestPLLCase (candidateStep cubies b c) = None"
proof (cases "evalCandidate cubies c")
  case None
  then show ?thesis using assms by (simp add: candidateStep_def)
next
  case (Some cand)
  then show ?thesis
    using assms solved_has_no_case [OF Some]
    by (auto simp: candidateStep_def updateBest_def Let_def)
qed

lemma step_finds_solved:
  assumes "evalCandidate cubies c = Some cand" and "currentPhase cand = Solved"
    and "bestPhase b = Solved \<longrightarrow> bestPLLCase b = None"
  shows "bestPhase (candidateStep cubies b c) = Solved \<and>
         bestPLLCase (candidateStep cubies b c) = None"
proof (cases "bestPhase b = Solved")
  case True
  then show ?thesis using assms(3) by (simp add: solved_stays)
next
  case False
  then have "phaseValue (bestPhase b) < 5" by (cases "bestPhase b") simp_all
  then show ?thesis
    using assms(1,2) solved_has_no_case [OF assms(1,2)]
    by (simp add: candidateStep_def updateBest_def)
qed

lemma search_finds_solved:
  assumes "c \<in> set cs" and "evalCandidate cubies c = Some cand"
    and "currentPhase cand = Solved"
    and "bestPhase b = Solved \<longrightarrow> bestPLLCase b = None"
  shows "bestPhase (foldl (candidateStep cubies) b cs) = Solved \<and>
         bestPLLCase (foldl (candidateStep cubies) b cs) = None"
  using assms(1) assms(4)
proof (induction cs arbitrary: b)
  case Nil
  then show ?case by simp
next
  case (Cons x xs)
  show ?case
  proof (cases "x = c")
    case True
    have "bestPhase (candidateStep cubies b x) = Solved \<and>
        bestPLLCase (candidateStep cubies b x) = None"
      unfolding True using assms(2) assms(3) Cons.prems(2) by (rule step_finds_solved)
    then show ?thesis by (simp add: solved_fold)
  next
    case False
    then have "c \<in> set xs" using Cons.prems(1) by simp
    then show ?thesis
      using Cons.IH [of "candidateStep cubies b x"] step_keeps_no_case [OF Cons.prems(2)]
      by simp
  qed
qed

text \<open>
  C7. The phase engine runs the PLL classifier for a centre only when the cross is
  solved, the four pairs are solved, the opposite centre is found and every piece of
  its layer passes the orientation check. In a snapshot reached from the initial one
  by valid moves and for such a centre: if the classifier finds four headlight sides
  and four bars, then the four corner colours are distinct (the re-verification
  passes), the classifier returns the sentinel \<open>Solved\<close>, the iteration ends in phase
  \<open>Solved\<close> with no PLL case, and \<open>analyzeCube\<close> reports phase \<open>Solved\<close> with
  \<open>isSolved\<close> true and \<open>pllCase\<close> unset.
\<close>

theorem pll_solved_sentinel:
  assumes "list_all validMove ms"
    and "center \<in> set (filter isCenter (applyMoves ms))"
    and "isCrossSolved (applyMoves ms) center"
    and "solvedPairs (applyMoves ms) center = 4"
    and "findTopCenter (applyMoves ms) center = Some topCenter"
    and "isOLLSolved (applyMoves ms) topCenter"
    and "headlightsCount (topPiecesOf (applyMoves ms) topCenter) topCenter = 4"
    and "solvedBarsCount (topPiecesOf (applyMoves ms) topCenter) topCenter = 4"
  shows "distinctColors (topPiecesOf (applyMoves ms) topCenter) topCenter = 4 \<and>
         identifyPLL (topPiecesOf (applyMoves ms) topCenter) topCenter = ''Solved'' \<and>
         evalCandidate (applyMoves ms) center =
           Some \<lparr>currentPhase = Solved, candF2lTag = None, candMissingCount = None,
                 ollCaseResult = None, pllCaseResult = None\<rparr> \<and>
         phase (analyzeCube (applyMoves ms)) = Solved \<and>
         isSolved (analyzeCube (applyMoves ms)) \<and>
         pllCase (analyzeCube (applyMoves ms)) = None"
proof -
  let ?s = "applyMoves ms"
  have inv: "cubeInv ?s" using assms(1) by (rule cubeInv_reachable)
  have tc: "topCenter \<in> set ?s" "isCenter topCenter"
    using findTopCenter_member [OF assms(5)] by simp_all
  have dc: "distinctColors (topPiecesOf ?s topCenter) topCenter = 4"
    using inv tc assms(6) assms(7) by (rule pll_distinct_colours)
  have pll: "identifyPLL (topPiecesOf ?s topCenter) topCenter = ''Solved''"
    using assms(7) assms(8) dc by (simp add: identifyPLL_def Let_def)
  have cand: "evalCandidate ?s center =
      Some \<lparr>currentPhase = Solved, candF2lTag = None, candMissingCount = None,
            ollCaseResult = None, pllCaseResult = None\<rparr>"
    using assms(3) assms(4) assms(5) assms(6) pll
    by (simp add: evalCandidate_def lastLayer_def)
  have "bestPhase (searchBest ?s) = Solved \<and> bestPLLCase (searchBest ?s) = None"
    unfolding searchBest_def
    using assms(2) cand
  proof (rule search_finds_solved)
    show "currentPhase \<lparr>currentPhase = Solved, candF2lTag = None, candMissingCount = None,
        ollCaseResult = None, pllCaseResult = None\<rparr> = Solved"
      by simp
    show "bestPhase initialBest = Solved \<longrightarrow> bestPLLCase initialBest = None"
      by (simp add: initialBest_def)
  qed
  then have "phase (analyzeCube ?s) = Solved \<and> isSolved (analyzeCube ?s) \<and>
      pllCase (analyzeCube ?s) = None"
    by (simp add: analyzeCube_def Let_def)
  with dc pll cand show ?thesis by simp
qed

theorem pll_solved_sentinel_witness:
  "list_all validMove [\<lparr>axis = Y, slice = [1], direction = - 1\<rparr>] \<and>
   position (snapshotTopTurned ! 17) = (- 1, 1, 0) \<and>
   initialPosition (snapshotTopTurned ! 17) = (0, 1, 1) \<and>
   snapshotTopTurned ! 10 \<in> set (filter isCenter snapshotTopTurned) \<and>
   isCrossSolved snapshotTopTurned (snapshotTopTurned ! 10) \<and>
   solvedPairs snapshotTopTurned (snapshotTopTurned ! 10) = 4 \<and>
   findTopCenter snapshotTopTurned (snapshotTopTurned ! 10) = Some (snapshotTopTurned ! 16) \<and>
   isOLLSolved snapshotTopTurned (snapshotTopTurned ! 16) \<and>
   headlightsCount (topPiecesOf snapshotTopTurned (snapshotTopTurned ! 16)) (snapshotTopTurned ! 16) = 4 \<and>
   solvedBarsCount (topPiecesOf snapshotTopTurned (snapshotTopTurned ! 16)) (snapshotTopTurned ! 16) = 4 \<and>
   distinctColors (topPiecesOf snapshotTopTurned (snapshotTopTurned ! 16)) (snapshotTopTurned ! 16) = 4 \<and>
   identifyPLL (topPiecesOf snapshotTopTurned (snapshotTopTurned ! 16)) (snapshotTopTurned ! 16)
     = ''Solved'' \<and>
   evalCandidate snapshotTopTurned (snapshotTopTurned ! 10) =
     Some \<lparr>currentPhase = Solved, candF2lTag = None, candMissingCount = None,
           ollCaseResult = None, pllCaseResult = None\<rparr> \<and>
   phase (analyzeCube snapshotTopTurned) = Solved \<and>
   isSolved (analyzeCube snapshotTopTurned) \<and>
   pllCase (analyzeCube snapshotTopTurned) = None"
proof -
  have eq: "applyMoves [\<lparr>axis = Y, slice = [1], direction = - 1\<rparr>] = snapshotTopTurned"
    by (simp add: snapshotTopTurned_def)
  have a: "list_all validMove [\<lparr>axis = Y, slice = [1], direction = - 1\<rparr>]"
    by (simp add: validMove_def)
  have moved: "position (snapshotTopTurned ! 17) = (- 1, 1, 0)"
    "initialPosition (snapshotTopTurned ! 17) = (0, 1, 1)"
    by (simp_all add: snapshotTopTurned_eq piece_sel)
  have b: "snapshotTopTurned ! 10 \<in> set (filter isCenter snapshotTopTurned)"
    unfolding topturn_centers by simp
  have c: "isCrossSolved snapshotTopTurned (snapshotTopTurned ! 10)"
    by (rule topturn_cross10)
  have d: "solvedPairs snapshotTopTurned (snapshotTopTurned ! 10) = 4"
    by (simp add: solvedPairs_def topturn_f2l10)
  have f: "findTopCenter snapshotTopTurned (snapshotTopTurned ! 10) = Some (snapshotTopTurned ! 16)"
    by (rule topturn_top10)
  have g: "isOLLSolved snapshotTopTurned (snapshotTopTurned ! 16)"
    by (rule topturn_oll16)
  note h = topturn_counts16
  note t = pll_solved_sentinel [of "[\<lparr>axis = Y, slice = [1], direction = - 1\<rparr>]" "snapshotTopTurned ! 10" "snapshotTopTurned ! 16",
      unfolded eq, OF a b c d f g h]
  show ?thesis using t a moved b c d f g h by blast
qed

text \<open>
  Remark on the hypotheses. The orientation check of the layer cannot be dropped: in
  the snapshot below, reached by six valid moves (the two outer layers along z turned
  against each other, the three layers along x turned by a quarter, a half and a
  quarter back, the middle layer along y turned by a quarter), the layer of the centre
  with initial position \<open>(0, 1, 0)\<close> (piece 16) fails the orientation check. Applied
  to it directly, the classifier finds four headlight sides and four bars, but two
  sides show the colour U: three colours only, and the result is \<open>Unknown\<close>. The
  engine does not run the classifier on this layer.
\<close>

lemma classifier_needs_oriented_layer:
  "cubeInv snapshotSideways \<and>
   headlightsCount (topPiecesOf snapshotSideways (snapshotSideways ! 16)) (snapshotSideways ! 16) = 4 \<and>
   solvedBarsCount (topPiecesOf snapshotSideways (snapshotSideways ! 16)) (snapshotSideways ! 16) = 4 \<and>
   map c1 (faces (topPiecesOf snapshotSideways (snapshotSideways ! 16)) (snapshotSideways ! 16))
     = [Some ''U'', Some ''U'', Some ''R'', Some ''L''] \<and>
   distinctColors (topPiecesOf snapshotSideways (snapshotSideways ! 16)) (snapshotSideways ! 16) = 3 \<and>
   identifyPLL (topPiecesOf snapshotSideways (snapshotSideways ! 16)) (snapshotSideways ! 16)
     = ''Unknown'' \<and>
   \<not> isOLLSolved snapshotSideways (snapshotSideways ! 16)"
proof (intro conjI)
  show "cubeInv snapshotSideways"
    unfolding snapshotSideways_def by (rule cubeInv_reachable) (simp add: validMove_def)
  show "identifyPLL (topPiecesOf snapshotSideways (snapshotSideways ! 16)) (snapshotSideways ! 16)
     = ''Unknown''"
    by (rule side_pll16)
  show "\<not> isOLLSolved snapshotSideways (snapshotSideways ! 16)" by (rule side_oll16)
qed (simp_all add: headlightsCount_def solvedBarsCount_def distinctColors_def side_faces16)

end
